theory Spec2Isabelle
  imports Main "HOL-Library.Word"
begin

section \<open>JavaScript values\<close>

text \<open>
  The services are JavaScript classes. A value that reaches them at run time is modelled
  by \<open>jsval\<close>. Numbers are the integers (millisecond time stamps and counters are
  integers, and doubles are exact on them up to \<open>2 ^ 53\<close>), together with the three
  non-finite numbers; fractional numbers and the rounding of a quotient of very large
  doubles are outside the model. Text is a list of 8-bit characters, the code units up
  to U+00FF: \<open>trim\<close> is modelled on this range and \<open>toUpperCase\<close> on the ASCII
  range, and a theorem that depends on the upper case of a text is stated for ASCII
  text. \<open>Obj\<close> is an object or array that \<open>JSON.stringify\<close> serialises, \<open>Cyclic\<close> one
  that it rejects (an object with a reference cycle, or with a \<open>BigInt\<close> inside).
\<close>

datatype jsval =
    Undefined
  | Null
  | Bool bool
  | Num int
  | NaN
  | PosInfinity
  | NegInfinity
  | BigInt int
  | Str string
  | Symbol
  | Function
  | Obj
  | Cyclic

datatype jstype =
  TUndefined | TObject | TBoolean | TNumber | TBigint | TString | TSymbol | TFunction

fun typeof :: "jsval \<Rightarrow> jstype" where
  "typeof Undefined = TUndefined"
| "typeof Null = TObject"
| "typeof (Bool b) = TBoolean"
| "typeof (Num n) = TNumber"
| "typeof NaN = TNumber"
| "typeof PosInfinity = TNumber"
| "typeof NegInfinity = TNumber"
| "typeof (BigInt n) = TBigint"
| "typeof (Str s) = TString"
| "typeof Symbol = TSymbol"
| "typeof Function = TFunction"
| "typeof Obj = TObject"
| "typeof Cyclic = TObject"

text \<open>Truthiness, as used by \<open>!x\<close>, \<open>x || y\<close> and \<open>if (x)\<close>.\<close>

fun truthy :: "jsval \<Rightarrow> bool" where
  "truthy Undefined = False"
| "truthy Null = False"
| "truthy (Bool b) = b"
| "truthy (Num n) = (n \<noteq> 0)"
| "truthy NaN = False"
| "truthy PosInfinity = True"
| "truthy NegInfinity = True"
| "truthy (BigInt n) = (n \<noteq> 0)"
| "truthy (Str s) = (s \<noteq> [])"
| "truthy Symbol = True"
| "truthy Function = True"
| "truthy Obj = True"
| "truthy Cyclic = True"

text \<open>
  \<open>JSON.stringify\<close> of an object that holds the value as a property: it raises a
  \<open>TypeError\<close> on a \<open>BigInt\<close> and on a cyclic object, writes a non-finite number as
  \<open>null\<close>, and leaves out \<open>undefined\<close>, a symbol and a function.
\<close>

fun serializable :: "jsval \<Rightarrow> bool" where
  "serializable (BigInt n) = False"
| "serializable Cyclic = False"
| "serializable _ = True"

text \<open>The comparison \<open>x <= 0\<close> on a value of type number; it is false on \<open>NaN\<close>.\<close>

fun le_zero :: "jsval \<Rightarrow> bool" where
  "le_zero (Num n) = (n \<le> 0)"
| "le_zero NegInfinity = True"
| "le_zero _ = False"

text \<open>\<open>Math.floor(x / w)\<close> and \<open>x + d\<close> for a number \<open>x\<close> and finite \<open>w > 0\<close>, \<open>d\<close>.\<close>

fun floor_div :: "jsval \<Rightarrow> int \<Rightarrow> jsval" where
  "floor_div (Num t) w = Num (t div w)"
| "floor_div x w = x"

fun num_add :: "jsval \<Rightarrow> int \<Rightarrow> jsval" where
  "num_add (Num t) d = Num (t + d)"
| "num_add x d = x"

subsection \<open>Strings\<close>

fun decimal_nat :: "nat \<Rightarrow> string" where
  "decimal_nat n =
     (if n < 10 then [''0123456789'' ! n]
      else decimal_nat (n div 10) @ [''0123456789'' ! (n mod 10)])"

declare decimal_nat.simps [simp del]

definition decimal :: "int \<Rightarrow> string" where
  "decimal i = (if i < 0 then CHR ''-'' # decimal_nat (nat (- i)) else decimal_nat (nat i))"

text \<open>\<open>Number.prototype.toString\<close> on the numbers of the model.\<close>

fun toString :: "jsval \<Rightarrow> string" where
  "toString (Num n) = decimal n"
| "toString NaN = ''NaN''"
| "toString PosInfinity = ''Infinity''"
| "toString NegInfinity = ''-Infinity''"
| "toString _ = ''''"

definition toUpperCase_char :: "char \<Rightarrow> char" where
  "toUpperCase_char c =
     (case map_of (zip ''abcdefghijklmnopqrstuvwxyz'' ''ABCDEFGHIJKLMNOPQRSTUVWXYZ'') c of
        Some u \<Rightarrow> u
      | None \<Rightarrow> c)"

definition toUpperCase :: "string \<Rightarrow> string" where
  "toUpperCase s = map toUpperCase_char s"

text \<open>
  White space and line terminators up to U+00FF, which \<open>trim\<close> removes and \<open>\s\<close>
  matches: TAB, LF, VT, FF, CR, space and the no-break space U+00A0.
\<close>

definition is_space :: "char \<Rightarrow> bool" where
  "is_space c =
     (c \<in> set [CHR 0x09, CHR 0x0A, CHR 0x0B, CHR 0x0C, CHR 0x0D, CHR '' '', CHR 0xA0])"

definition trim :: "string \<Rightarrow> string" where
  "trim s = rev (dropWhile is_space (rev (dropWhile is_space s)))"

definition substring :: "nat \<Rightarrow> nat \<Rightarrow> string \<Rightarrow> string" where
  "substring i j s = take (j - i) (drop i s)"

text \<open>ASCII text: every code unit is below 128.\<close>

definition ascii :: "string \<Rightarrow> bool" where
  "ascii s = list_all (\<lambda>c. of_char c < (128 :: nat)) s"

text \<open>A value that is not a string, or a string whose trimmed form is ASCII text.\<close>

definition ascii_code :: "jsval \<Rightarrow> bool" where
  "ascii_code v = (case v of Str s \<Rightarrow> ascii (trim s) | _ \<Rightarrow> True)"

subsection \<open>Dates\<close>

text \<open>
  A \<open>Date\<close> holds a time value, which is valid up to 8.64e15 milliseconds on either side
  of the epoch; \<open>new Date(x)\<close> of any other number is an invalid date, and
  \<open>toISOString\<close> raises a \<open>RangeError\<close> on an invalid date.
\<close>

definition MAX_TIME_VALUE :: int where
  "MAX_TIME_VALUE = 8640000000000000"

fun valid_time :: "jsval \<Rightarrow> bool" where
  "valid_time (Num t) = (- MAX_TIME_VALUE \<le> t \<and> t \<le> MAX_TIME_VALUE)"
| "valid_time _ = False"

subsection \<open>Errors\<close>

datatype ERROR_CODES =
    INVALID_OTP_FORMAT
  | INVALID_PHONE_FORMAT
  | INVALID_TIMESTAMP
  | MISSING_REQUIRED_FIELD
  | RATE_LIMIT_EXCEEDED
  | CHECKIN_RATE_LIMIT
  | SERVICE_UNAVAILABLE
  | DATABASE_ERROR
  | DATABASE_CONNECTION_FAILED
  | DATABASE_QUERY_FAILED
  | DATABASE_TIMEOUT
  | OTP_SERVICE_ERROR
  | WHATSAPP_SERVICE_ERROR

datatype sqlite_code =
    SQLITE_ERROR
  | SQLITE_BUSY
  | SQLITE_READONLY
  | SQLITE_IOERR
  | SQLITE_CANTOPEN
  | SQLITE_CONSTRAINT

text \<open>
  What a \<open>throw\<close> carries: an \<open>AppError\<close> with its code and HTTP status, a plain
  \<open>Error\<close> with its message, an error of the SQLite driver with its \<open>code\<close>, or a
  \<open>TypeError\<close> or \<open>RangeError\<close> of the runtime.
\<close>

datatype js_error =
    AppError ERROR_CODES nat
  | Error string
  | SqliteError sqlite_code
  | TypeError
  | RangeError

subsection \<open>Log entries\<close>

text \<open>
  \<open>logger.warn\<close> and \<open>logger.error\<close> (and \<open>logSystemError\<close>, which calls it) always
  format their entry: the logger's level is \<open>levels[logLevel] || levels.info\<close> and so
  never below \<open>warn\<close>. \<open>formatMessage\<close> passes the entry with its meta data to
  \<open>JSON.stringify\<close>, which raises a \<open>TypeError\<close> when one of the values cannot be
  serialised. What is written to the console and to the log files is not modelled.
\<close>

definition formatMessage :: "jsval list \<Rightarrow> js_error option" where
  "formatMessage meta = (if list_all serializable meta then None else Some TypeError)"

section \<open>The time-slot code engine (OTPService)\<close>

text \<open>
  \<open>createHmac('sha256', key).update(msg).digest()\<close> is the runtime's library; the
  engine is modelled for every function of its type, the 256-bit digest of a key and a
  message. \<open>digest_hex\<close> is \<open>digest('hex')\<close>: the 64 lower-case hexadecimal digits of
  the digest, the most significant first.
\<close>

type_synonym hmac = "string \<Rightarrow> string \<Rightarrow> 256 word"

definition hex_digit :: "nat \<Rightarrow> char" where
  "hex_digit n = ''0123456789abcdef'' ! (n mod 16)"

definition digest_hex :: "256 word \<Rightarrow> string" where
  "digest_hex d = map (\<lambda>i. hex_digit (unat (drop_bit (4 * (63 - i)) d))) [0..<64]"

record OTPService =
  secretKey :: string
  timeWindow :: int
  generationCount :: nat
  validationCount :: nat
  lastGenerationTime :: "jsval option"

definition validateTimeWindow :: "int \<Rightarrow> js_error + int" where
  "validateTimeWindow w =
     (if w < 30000 \<or> w > 300000
      then Inl (Error ''Time window must be a number between 30 seconds and 5 minutes'')
      else Inr w)"

text \<open>
  The constructor. Its argument defaults to the environment's secret or, when that is
  empty, to \<open>'default-secret-key'\<close>; the window comes from the environment
  (\<open>DEFAULT_TIME_WINDOW_MS\<close>) and is validated. A short secret is only logged.
\<close>

definition new_OTPService :: "string \<Rightarrow> int \<Rightarrow> string option \<Rightarrow> js_error + OTPService" where
  "new_OTPService env_secret env_window arg =
     (let secret = (case arg of
                      Some s \<Rightarrow> s
                    | None \<Rightarrow> if env_secret \<noteq> [] then env_secret else ''default-secret-key'')
      in case validateTimeWindow env_window of
           Inl e \<Rightarrow> Inl e
         | Inr w \<Rightarrow> Inr \<lparr> secretKey = secret, timeWindow = w, generationCount = 0,
                          validationCount = 0, lastGenerationTime = None \<rparr>)"

text \<open>
  The code of a time slot, as \<open>generateOTP\<close> derives it once the slot is known: the
  first 6 characters of the hexadecimal digest, in upper case.
\<close>

definition slot_code :: "hmac \<Rightarrow> string \<Rightarrow> jsval \<Rightarrow> string" where
  "slot_code mac key timeSlot =
     toUpperCase (substring 0 6 (digest_hex (mac key (toString timeSlot))))"

text \<open>
  \<open>generateOTP(timestamp = Date.now())\<close>. The body raises for a non-number or
  non-positive time stamp, and, after the counters are updated, when the debug log entry
  formats \<open>new Date(timestamp).toISOString()\<close> for an invalid date. The \<open>catch\<close> block
  logs the error with the time stamp (\<open>logSystemError\<close>) and raises an \<open>AppError\<close>
  with code \<open>OTP_SERVICE_ERROR\<close>; when the log entry cannot be formatted, its
  \<open>TypeError\<close> is raised instead. \<open>now\<close> is the reading of the system clock.
\<close>

definition generateOTP_catch :: "jsval \<Rightarrow> js_error" where
  "generateOTP_catch timestamp =
     (case formatMessage [timestamp] of
        Some error \<Rightarrow> error
      | None \<Rightarrow> AppError OTP_SERVICE_ERROR 500)"

definition generateOTP ::
    "hmac \<Rightarrow> int \<Rightarrow> OTPService \<Rightarrow> jsval \<Rightarrow> (js_error + string) \<times> OTPService" where
  "generateOTP mac now svc arg =
     (let timestamp = (if arg = Undefined then Num now else arg)
      in if typeof timestamp \<noteq> TNumber \<or> le_zero timestamp
         then (Inl (generateOTP_catch timestamp), svc)
         else
           let timeSlot = floor_div timestamp (timeWindow svc);
               otp = slot_code mac (secretKey svc) timeSlot;
               svc' = svc \<lparr> generationCount := generationCount svc + 1,
                            lastGenerationTime := Some timestamp \<rparr>
           in if valid_time timestamp
              then (Inr otp, svc')
              else (Inl (generateOTP_catch timestamp), svc'))"

datatype reason =
    INVALID_FORMAT
  | CURRENT_WINDOW
  | PREVIOUS_WINDOW
  | FUTURE_OTP
  | EXPIRED_OR_INVALID
  | VALIDATION_ERROR

record ValidationResult =
  valid :: bool
  reason :: reason
  message :: string
  timeWindowName :: "string option"

definition result :: "bool \<Rightarrow> reason \<Rightarrow> string \<Rightarrow> string option \<Rightarrow> ValidationResult" where
  "result v r m tw = \<lparr> valid = v, reason = r, message = m, timeWindowName = tw \<rparr>"

text \<open>
  The \<open>try\<close> block of \<open>validateOTP(otp, timestamp = Date.now())\<close>. A time stamp that
  is not a number or is not positive is logged with \<open>logger.warn\<close>, whose entry may
  raise, and is then replaced by the reading of the clock. The three calls of
  \<open>generateOTP\<close> may raise, and the state they leave is kept.
\<close>

definition validateOTP_try ::
    "hmac \<Rightarrow> int \<Rightarrow> OTPService \<Rightarrow> jsval \<Rightarrow> jsval
      \<Rightarrow> (js_error + ValidationResult) \<times> OTPService" where
  "validateOTP_try mac now svc0 otp arg =
     (let svc = svc0 \<lparr> validationCount := validationCount svc0 + 1 \<rparr>;
          timestamp1 = (if arg = Undefined then Num now else arg)
      in if \<not> truthy otp \<or> typeof otp \<noteq> TString
         then (Inr (result False INVALID_FORMAT ''OTP must be a non-empty string'' None), svc)
         else
           (case (if typeof timestamp1 \<noteq> TNumber \<or> le_zero timestamp1
                  then formatMessage [timestamp1] else None) of
              Some error \<Rightarrow> (Inl error, svc)
            | None \<Rightarrow>
           let timestamp = (if typeof timestamp1 \<noteq> TNumber \<or> le_zero timestamp1
                            then Num now else timestamp1);
               normalizedOTP = toUpperCase (trim (case otp of Str s \<Rightarrow> s | _ \<Rightarrow> []))
           in if length normalizedOTP \<noteq> 6
              then (Inr (result False INVALID_FORMAT ''OTP must be exactly 6 characters'' None),
                    svc)
              else
                (case generateOTP mac now svc timestamp of
                   (Inl e, svc1) \<Rightarrow> (Inl e, svc1)
                 | (Inr currentOTP, svc1) \<Rightarrow>
                     if normalizedOTP = currentOTP
                     then (Inr (result True CURRENT_WINDOW ''OTP is valid (current window)''
                                  (Some ''current'')), svc1)
                     else
                       (case generateOTP mac now svc1
                               (num_add timestamp (- timeWindow svc1)) of
                          (Inl e, svc2) \<Rightarrow> (Inl e, svc2)
                        | (Inr previousOTP, svc2) \<Rightarrow>
                            if normalizedOTP = previousOTP
                            then (Inr (result True PREVIOUS_WINDOW
                                         ''OTP is valid (previous window)''
                                         (Some ''previous'')), svc2)
                            else
                              (case generateOTP mac now svc2
                                      (num_add timestamp (timeWindow svc2)) of
                                 (Inl e, svc3) \<Rightarrow> (Inl e, svc3)
                               | (Inr futureOTP, svc3) \<Rightarrow>
                                   if normalizedOTP = futureOTP
                                   then (Inr (result False FUTURE_OTP
                                                ''OTP is from future time window'' None),
                                         svc3)
                                   else (Inr (result False EXPIRED_OR_INVALID
                                                ''OTP is expired or invalid'' None),
                                         svc3))))))"

text \<open>
  \<open>validateOTP\<close> with its \<open>catch\<close> block, which logs the error
  (\<open>logSystemError\<close>) with \<open>otp ? otp.substring(0, 2) + '****' : null\<close> (a
  \<open>TypeError\<close> on a truthy value that is not a string) and with the variable
  \<open>timestamp\<close>, and returns the result \<open>VALIDATION_ERROR\<close>. When the block runs,
  \<open>timestamp\<close> has been replaced by the reading of the clock unless it was a positive
  number or the warning's log entry raised before the assignment. An error of the log
  entry leaves \<open>validateOTP\<close>.
\<close>

definition validateOTP ::
    "hmac \<Rightarrow> int \<Rightarrow> OTPService \<Rightarrow> jsval \<Rightarrow> jsval
      \<Rightarrow> (js_error + ValidationResult) \<times> OTPService" where
  "validateOTP mac now svc otp arg =
     (case validateOTP_try mac now svc otp arg of
        (Inr r, svc') \<Rightarrow> (Inr r, svc')
      | (Inl e, svc') \<Rightarrow>
          if truthy otp \<and> typeof otp \<noteq> TString
          then (Inl TypeError, svc')
          else
            let timestamp1 = (if arg = Undefined then Num now else arg);
                timestamp = (if (typeof timestamp1 \<noteq> TNumber \<or> le_zero timestamp1) \<and>
                                formatMessage [timestamp1] = None
                             then Num now else timestamp1);
                masked = (case otp of
                            Str s \<Rightarrow> if s = [] then Null else Str (substring 0 2 s @ ''****'')
                          | _ \<Rightarrow> Null)
            in (case formatMessage [masked, timestamp] of
                  Some error \<Rightarrow> (Inl error, svc')
                | None \<Rightarrow>
                    (Inr (result False VALIDATION_ERROR
                            ''OTP validation failed due to system error'' None), svc')))"

subsection \<open>The classification as the specification words it\<close>

text \<open>
  The specification of \<open>validate\<close>: the presented code, normalised, is compared with the
  codes of the current slot, of the slot before it and of the slot after it, in that
  order. \<open>spec_validate\<close> follows these words; the theorems compare it with
  \<open>validateOTP\<close>, which follows the source.
\<close>

definition spec_validate :: "hmac \<Rightarrow> string \<Rightarrow> int \<Rightarrow> string \<Rightarrow> ValidationResult" where
  "spec_validate mac key slot code =
     (if code = slot_code mac key (Num slot)
      then result True CURRENT_WINDOW ''OTP is valid (current window)'' (Some ''current'')
      else if code = slot_code mac key (Num (slot - 1))
      then result True PREVIOUS_WINDOW ''OTP is valid (previous window)'' (Some ''previous'')
      else if code = slot_code mac key (Num (slot + 1))
      then result False FUTURE_OTP ''OTP is from future time window'' None
      else result False EXPIRED_OR_INVALID ''OTP is expired or invalid'' None)"

subsection \<open>A keyed digest and a service to run the engine on\<close>

text \<open>
  The theorems hold for every digest function. Where a closed instance is evaluated, the
  digest is \<open>sample_mac\<close>, a keyed checksum in the 24 leading bits, and the service is
  the one of the specification's scenario: a window of 30 seconds, the secret
  \<open>abcd1234abcd1234\<close>.
\<close>

definition sample_mac :: hmac where
  "sample_mac key msg =
     push_bit 232 (word_of_nat (7919 * sum_list (map of_char (key @ msg))))"

definition sample_service :: OTPService where
  "sample_service =
     \<lparr> secretKey = ''abcd1234abcd1234'', timeWindow = 30000, generationCount = 0,
       validationCount = 0, lastGenerationTime = None \<rparr>"

section \<open>Delivery rendering (WhatsAppService)\<close>

subsection \<open>Character classes and the runtime's URI functions\<close>

text \<open>
  The URI functions are modelled on ASCII text without control characters: above
  U+007F the runtime's functions work on the UTF-8 encoding of a character, and
  \<open>new URL\<close> removes TAB and line breaks from its input.

  The classes of the regular expressions, by character code.
\<close>

definition code_of :: "char \<Rightarrow> nat" where
  "code_of c = of_char c"

definition is_digit :: "char \<Rightarrow> bool" where
  "is_digit c = (48 \<le> code_of c \<and> code_of c \<le> 57)"

definition is_upper :: "char \<Rightarrow> bool" where
  "is_upper c = (65 \<le> code_of c \<and> code_of c \<le> 90)"

definition is_lower :: "char \<Rightarrow> bool" where
  "is_lower c = (97 \<le> code_of c \<and> code_of c \<le> 122)"

text \<open>\<open>[A-Z0-9]\<close>, \<open>[A-Za-z0-9]\<close> and \<open>\w\<close>.\<close>

definition is_upper_digit :: "char \<Rightarrow> bool" where
  "is_upper_digit c = (is_upper c \<or> is_digit c)"

definition is_alnum :: "char \<Rightarrow> bool" where
  "is_alnum c = (is_upper c \<or> is_lower c \<or> is_digit c)"

definition is_word :: "char \<Rightarrow> bool" where
  "is_word c = (is_alnum c \<or> c = CHR ''_'')"

text \<open>
  \<open>encodeURIComponent\<close> keeps letters, digits and \<open>- _ . ! ~ * ' ( )\<close> and writes every
  other character as \<open>%\<close> and two upper-case hexadecimal digits.
\<close>

definition is_unreserved :: "char \<Rightarrow> bool" where
  "is_unreserved c = (is_alnum c \<or> c \<in> set ''-_.!~*'' \<or> c \<in> set [CHR 0x27, CHR ''('', CHR '')''])"

definition HEX_DIGIT :: "nat \<Rightarrow> char" where
  "HEX_DIGIT n = ''0123456789ABCDEF'' ! (n mod 16)"

definition encode_char :: "char \<Rightarrow> string" where
  "encode_char c =
     (if is_unreserved c then [c]
      else [CHR ''%'', HEX_DIGIT (code_of c div 16), HEX_DIGIT (code_of c)])"

definition encodeURIComponent :: "string \<Rightarrow> string" where
  "encodeURIComponent s = concat (map encode_char s)"

definition is_hex :: "char \<Rightarrow> bool" where
  "is_hex c = (is_digit c \<or> (65 \<le> code_of c \<and> code_of c \<le> 70)
                \<or> (97 \<le> code_of c \<and> code_of c \<le> 102))"

definition hex_value :: "char \<Rightarrow> nat" where
  "hex_value c =
     (if is_digit c then code_of c - 48
      else if is_upper c then code_of c - 55
      else code_of c - 87)"

definition byte_char :: "char \<Rightarrow> char \<Rightarrow> char" where
  "byte_char h l = char_of (16 * hex_value h + hex_value l)"

text \<open>
  \<open>decodeURIComponent\<close> replaces each \<open>%XX\<close> by its character and raises a
  \<open>URIError\<close> (here \<open>None\<close>) on a \<open>%\<close> that two hexadecimal digits do not follow.
\<close>

fun decodeURIComponent :: "string \<Rightarrow> string option" where
  "decodeURIComponent [] = Some []"
| "decodeURIComponent (c # cs) =
     (if c = CHR ''%''
      then (case cs of
              h # l # rest \<Rightarrow>
                if is_hex h \<and> is_hex l
                then map_option ((#) (byte_char h l)) (decodeURIComponent rest)
                else None
            | _ \<Rightarrow> None)
      else map_option ((#) c) (decodeURIComponent cs))"

text \<open>
  The decoding of a query string by \<open>URLSearchParams\<close>: \<open>+\<close> is a blank, \<open>%XX\<close> is its
  character, and a \<open>%\<close> that two hexadecimal digits do not follow is kept.
\<close>

fun percent_decode :: "string \<Rightarrow> string" where
  "percent_decode [] = []"
| "percent_decode (c # cs) =
     (if c = CHR ''%''
      then (case cs of
              h # l # rest \<Rightarrow>
                if is_hex h \<and> is_hex l
                then byte_char h l # percent_decode rest
                else c # percent_decode cs
            | _ \<Rightarrow> c # percent_decode cs)
      else (if c = CHR ''+'' then CHR '' '' else c) # percent_decode cs)"

fun split_on :: "char \<Rightarrow> string \<Rightarrow> string list" where
  "split_on sep [] = [[]]"
| "split_on sep (c # cs) =
     (if c = sep then [] # split_on sep cs
      else (case split_on sep cs of
              [] \<Rightarrow> [[c]]
            | x # xs \<Rightarrow> (c # x) # xs))"

text \<open>
  \<open>new URL(url).searchParams.get(name)\<close> for a URL that parses: the query lies between
  the first \<open>?\<close> and the fragment, its pairs are separated by \<open>&\<close>, and name and
  value by the first \<open>=\<close> of the pair. \<open>None\<close> is \<open>null\<close>.
\<close>

definition url_query :: "string \<Rightarrow> string" where
  "url_query url =
     drop 1 (dropWhile (\<lambda>c. c \<noteq> CHR ''?'') (takeWhile (\<lambda>c. c \<noteq> CHR ''#'') url))"

definition query_pairs :: "string \<Rightarrow> (string \<times> string) list" where
  "query_pairs q =
     map (\<lambda>p. (percent_decode (takeWhile (\<lambda>c. c \<noteq> CHR ''='') p),
                percent_decode (drop 1 (dropWhile (\<lambda>c. c \<noteq> CHR ''='') p))))
       (filter (\<lambda>p. p \<noteq> []) (split_on CHR ''&'' q))"

definition searchParams_get :: "string \<Rightarrow> string \<Rightarrow> string option" where
  "searchParams_get url name = map_of (query_pairs (url_query url)) name"

text \<open>\<open>String.prototype.replace\<close> with a string pattern: the first occurrence.\<close>

fun replace_first :: "string \<Rightarrow> string \<Rightarrow> string \<Rightarrow> string" where
  "replace_first pat rep [] = (if pat = [] then rep else [])"
| "replace_first pat rep (c # cs) =
     (if take (length pat) (c # cs) = pat then rep @ drop (length pat) (c # cs)
      else c # replace_first pat rep cs)"

text \<open>\<open>String.prototype.includes\<close>.\<close>

fun str_includes :: "string \<Rightarrow> string \<Rightarrow> bool" where
  "str_includes [] pat = (pat = [])"
| "str_includes (c # cs) pat = (take (length pat) (c # cs) = pat \<or> str_includes cs pat)"

text \<open>
  The first match of \<open>/\b[A-Z0-9]{6}\b/\<close>: six characters of the class, with no word
  character before and none after. \<open>prev\<close> is the character before the position.
\<close>

definition otp_at :: "char option \<Rightarrow> string \<Rightarrow> bool" where
  "otp_at prev s =
     ((case prev of None \<Rightarrow> True | Some p \<Rightarrow> \<not> is_word p) \<and>
      length (take 6 s) = 6 \<and> list_all is_upper_digit (take 6 s) \<and>
      (case drop 6 s of [] \<Rightarrow> True | n # _ \<Rightarrow> \<not> is_word n))"

fun match_otp :: "char option \<Rightarrow> string \<Rightarrow> string option" where
  "match_otp prev [] = None"
| "match_otp prev (c # cs) =
     (if otp_at prev (c # cs) then Some (take 6 (c # cs)) else match_otp (Some c) cs)"

subsection \<open>The service\<close>

record WhatsAppConfig =
  cfg_whatsappNumber :: jsval
  cfg_messageTemplate :: jsval
  cfg_fallbackToWeb :: jsval

record WhatsAppService =
  whatsappNumber :: jsval
  messageTemplate :: jsval
  fallbackToWeb :: bool

text \<open>
  The constructor assigns its three fields, from the configuration or from the defaults
  (the environment's \<open>PHONE_NUMBER\<close>, the template \<open>Check-in code: {otp}\<close>), and has
  no \<open>throw\<close>.
\<close>

definition new_WhatsAppService :: "string \<Rightarrow> WhatsAppConfig \<Rightarrow> js_error + WhatsAppService" where
  "new_WhatsAppService env_phone config =
     Inr \<lparr> whatsappNumber =
             (if truthy (cfg_whatsappNumber config) then cfg_whatsappNumber config
              else Str env_phone),
           messageTemplate =
             (if truthy (cfg_messageTemplate config) then cfg_messageTemplate config
              else Str ''Check-in code: {otp}''),
           fallbackToWeb = (cfg_fallbackToWeb config \<noteq> Bool False) \<rparr>"

definition cleanWhatsAppNumber :: "jsval \<Rightarrow> js_error + string" where
  "cleanWhatsAppNumber phoneNumber =
     (case phoneNumber of
        Str s \<Rightarrow>
          if s = [] then Inl (Error ''WhatsApp number must be a non-empty string'')
          else
            let cleaned = filter is_digit s
            in if length cleaned < 7 \<or> length cleaned > 15
               then Inl (Error ''WhatsApp number must be 7-15 digits long'')
               else if take 1 cleaned = ''0''
               then Inl (Error
                 ''WhatsApp number must be in international format (no leading zero)'')
               else Inr cleaned
      | _ \<Rightarrow> Inl (Error ''WhatsApp number must be a non-empty string''))"

text \<open>
  \<open>generateWhatsAppURL(otp, options = {})\<close>. \<open>includeTimestamp\<close> is the option, and
  \<open>localeTime\<close> is what \<open>new Date().toLocaleString()\<close> returns. A template that is not
  a string has no \<open>replace\<close> method.
\<close>

definition generateWhatsAppURL ::
    "string \<Rightarrow> WhatsAppService \<Rightarrow> jsval \<Rightarrow> bool \<Rightarrow> js_error + string" where
  "generateWhatsAppURL localeTime svc otp includeTimestamp =
     (case otp of
        Str s \<Rightarrow>
          if s = [] then Inl (Error ''OTP must be a non-empty string'')
          else
            let normalizedOTP = toUpperCase (trim s)
            in if \<not> (length normalizedOTP = 6 \<and> list_all is_upper_digit normalizedOTP)
               then Inl (Error ''OTP must be 6 alphanumeric characters'')
               else
                 (case messageTemplate svc of
                    Str template \<Rightarrow>
                      let message0 = replace_first ''{otp}'' normalizedOTP template;
                          message = (if includeTimestamp
                                     then message0 @ '' (Generated: '' @ localeTime @ '')''
                                     else message0)
                      in (case cleanWhatsAppNumber (whatsappNumber svc) of
                            Inl e \<Rightarrow> Inl e
                          | Inr cleanNumber \<Rightarrow>
                              Inr (''https://wa.me/'' @ cleanNumber @ ''?text=''
                                   @ encodeURIComponent message))
                  | _ \<Rightarrow> Inl TypeError)
      | _ \<Rightarrow> Inl (Error ''OTP must be a non-empty string''))"

text \<open>\<open>/^https:\/\/(wa\.me|web\.whatsapp\.com)\//\<close> on a non-empty string.\<close>

definition validateWhatsAppURL :: "jsval \<Rightarrow> bool" where
  "validateWhatsAppURL url =
     (case url of
        Str u \<Rightarrow> take 14 u = ''https://wa.me/'' \<or> take 25 u = ''https://web.whatsapp.com/''
      | _ \<Rightarrow> False)"

text \<open>
  \<open>extractOTPFromURL\<close>; \<open>None\<close> is \<open>null\<close>. An error inside its \<open>try\<close> block,
  the \<open>URIError\<close> of \<open>decodeURIComponent\<close>, is caught and gives \<open>null\<close>.
\<close>

definition extractOTPFromURL :: "jsval \<Rightarrow> string option" where
  "extractOTPFromURL url =
     (if \<not> validateWhatsAppURL url then None
      else
        (case url of
           Str u \<Rightarrow>
             (case searchParams_get u ''text'' of
                None \<Rightarrow> None
              | Some text \<Rightarrow>
                  if text = [] then None
                  else
                    (case decodeURIComponent text of
                       None \<Rightarrow> None
                     | Some decodedText \<Rightarrow> match_otp None decodedText))
         | _ \<Rightarrow> None))"

text \<open>
  \<open>updateConfig\<close> validates what the constructor only assigns: the number with
  \<open>cleanWhatsAppNumber\<close>, the template with \<open>includes('{otp}')\<close>. The number is already
  assigned when the template is rejected.
\<close>

definition updateConfig ::
    "WhatsAppService \<Rightarrow> WhatsAppConfig \<Rightarrow> js_error option \<times> WhatsAppService" where
  "updateConfig svc config =
     (let number_step =
            (if truthy (cfg_whatsappNumber config)
             then (case cleanWhatsAppNumber (cfg_whatsappNumber config) of
                     Inl e \<Rightarrow> Inl e
                   | Inr _ \<Rightarrow> Inr (svc \<lparr> whatsappNumber := cfg_whatsappNumber config \<rparr>))
             else Inr svc)
      in case number_step of
           Inl e \<Rightarrow> (Some e, svc)
         | Inr svc1 \<Rightarrow>
             let template_step =
                   (if truthy (cfg_messageTemplate config)
                    then (case cfg_messageTemplate config of
                            Str t \<Rightarrow>
                              if \<not> str_includes t ''{otp}''
                              then Inl (Error
                                ''Message template must include {otp} placeholder'')
                              else Inr (svc1 \<lparr> messageTemplate := Str t \<rparr>)
                          | _ \<Rightarrow> Inl TypeError)
                    else Inr svc1)
             in case template_step of
                  Inl e \<Rightarrow> (Some e, svc1)
                | Inr svc2 \<Rightarrow>
                    (None,
                     (case cfg_fallbackToWeb config of
                        Bool b \<Rightarrow> svc2 \<lparr> fallbackToWeb := b \<rparr>
                      | _ \<Rightarrow> svc2)))"

subsection \<open>Configurations to run the service on\<close>

definition sample_whatsapp :: WhatsAppService where
  "sample_whatsapp =
     \<lparr> whatsappNumber = Str ''+852 1234-5678'',
       messageTemplate = Str ''Check-in code: {otp}'',
       fallbackToWeb = True \<rparr>"

text \<open>A number of 4 digits with a leading zero, and a template with no placeholder.\<close>

definition malformed_number_config :: WhatsAppConfig where
  "malformed_number_config =
     \<lparr> cfg_whatsappNumber = Str ''0123'', cfg_messageTemplate = Undefined,
       cfg_fallbackToWeb = Undefined \<rparr>"

definition missing_placeholder_config :: WhatsAppConfig where
  "missing_placeholder_config =
     \<lparr> cfg_whatsappNumber = Str ''85212345678'', cfg_messageTemplate = Str ''Your code'',
       cfg_fallbackToWeb = Undefined \<rparr>"

section \<open>The check-in store\<close>

subsection \<open>The database\<close>

text \<open>
  The SQLite file holds two tables, each present or not yet created. A row of
  \<open>check_ins\<close> is named by its rowid (the source fills \<open>id\<close> with 16 random bytes);
  deletion is not modelled. \<open>system_config\<close> maps a key to its value.

  What lies outside the program is part of the state: \<open>open_failures\<close> is the number of
  attempts to open the file that will fail next, and \<open>faults\<close> is the schedule of the
  driver's failures, one entry for each statement sent (\<open>None\<close>: the statement runs).
  \<open>attempt_log\<close> holds the entries of \<open>logger.logCheckInAttempt\<close>: the status of each
  call of \<open>recordCheckIn\<close>, and whether the entry reports an error.
\<close>

record check_in =
  ci_id :: nat
  ci_phone_number :: string
  ci_otp :: string
  ci_timestamp :: int
  ci_validation_status :: string

record database =
  isConnected :: bool
  open_failures :: nat
  faults :: "sqlite_code option list"
  check_ins :: "check_in list option"
  system_config :: "(string \<rightharpoonup> string) option"
  attempt_log :: "(string \<times> bool) list"

text \<open>The statements and queries that the repositories and the schema send.\<close>

datatype statement =
    CREATE_CHECK_INS_TABLE
  | CREATE_SYSTEM_CONFIG_TABLE
  | CREATE_CHECK_INS_INDEX string
  | INSERT_DEFAULT_CONFIG string
  | INSERT_OR_REPLACE_CONFIG string string
  | INSERT_CHECK_IN string string string int

datatype query =
    SELECT_1
  | SELECT_CONFIG_VALUE string
  | SELECT_CHECK_IN_ID nat

datatype row = TestRow | ValueRow string | IdRow nat

definition handleConnectionError :: "js_error \<Rightarrow> js_error" where
  "handleConnectionError error =
     (if error = SqliteError SQLITE_CANTOPEN then AppError DATABASE_CONNECTION_FAILED 503
      else if error = SqliteError SQLITE_BUSY then AppError DATABASE_TIMEOUT 503
      else AppError DATABASE_CONNECTION_FAILED 503)"

definition handleQueryError :: "js_error \<Rightarrow> js_error" where
  "handleQueryError error =
     (if error = SqliteError SQLITE_CONSTRAINT then AppError DATABASE_ERROR 400
      else if error = SqliteError SQLITE_READONLY then AppError DATABASE_ERROR 503
      else AppError DATABASE_QUERY_FAILED 500)"

text \<open>
  What SQLite does with a statement: \<open>CREATE ... IF NOT EXISTS\<close> keeps a table that
  exists; \<open>INSERT OR IGNORE\<close> keeps the value of a key that exists and
  \<open>INSERT OR REPLACE\<close> overwrites it; an insertion into \<open>check_ins\<close> is subject to
  \<open>CHECK (validation_status IN ('valid', 'expired', 'invalid'))\<close>. The result is the
  rowid of the last insertion.
\<close>

definition sqlite_exec :: "statement \<Rightarrow> database \<Rightarrow> sqlite_code + nat \<times> database" where
  "sqlite_exec stmt db =
     (case stmt of
        CREATE_CHECK_INS_TABLE \<Rightarrow>
          Inr (0, db \<lparr> check_ins :=
                         (case check_ins db of None \<Rightarrow> Some [] | Some rows \<Rightarrow> Some rows) \<rparr>)
      | CREATE_SYSTEM_CONFIG_TABLE \<Rightarrow>
          Inr (0, db \<lparr> system_config :=
                         (case system_config db of
                            None \<Rightarrow> Some Map.empty
                          | Some config \<Rightarrow> Some config) \<rparr>)
      | CREATE_CHECK_INS_INDEX name \<Rightarrow>
          (case check_ins db of None \<Rightarrow> Inl SQLITE_ERROR | Some rows \<Rightarrow> Inr (0, db))
      | INSERT_DEFAULT_CONFIG v \<Rightarrow>
          (case system_config db of
             None \<Rightarrow> Inl SQLITE_ERROR
           | Some config \<Rightarrow>
               (case config ''otp_secret'' of
                  Some old \<Rightarrow> Inr (0, db)
                | None \<Rightarrow> Inr (1, db \<lparr> system_config := Some (config(''otp_secret'' \<mapsto> v)) \<rparr>)))
      | INSERT_OR_REPLACE_CONFIG k v \<Rightarrow>
          (case system_config db of
             None \<Rightarrow> Inl SQLITE_ERROR
           | Some config \<Rightarrow> Inr (1, db \<lparr> system_config := Some (config(k \<mapsto> v)) \<rparr>))
      | INSERT_CHECK_IN phone code status time \<Rightarrow>
          (case check_ins db of
             None \<Rightarrow> Inl SQLITE_ERROR
           | Some rows \<Rightarrow>
               if status \<notin> set [''valid'', ''expired'', ''invalid'']
               then Inl SQLITE_CONSTRAINT
               else
                 let rowid = Suc (length rows)
                 in Inr (rowid,
                         db \<lparr> check_ins := Some (rows @
                                 [\<lparr> ci_id = rowid, ci_phone_number = phone, ci_otp = code,
                                    ci_timestamp = time,
                                    ci_validation_status = status \<rparr>]) \<rparr>)))"

definition sqlite_query :: "query \<Rightarrow> database \<Rightarrow> sqlite_code + row option" where
  "sqlite_query q db =
     (case q of
        SELECT_1 \<Rightarrow> Inr (Some TestRow)
      | SELECT_CONFIG_VALUE k \<Rightarrow>
          (case system_config db of
             None \<Rightarrow> Inl SQLITE_ERROR
           | Some config \<Rightarrow> Inr (map_option ValueRow (config k)))
      | SELECT_CHECK_IN_ID rowid \<Rightarrow>
          (case check_ins db of
             None \<Rightarrow> Inl SQLITE_ERROR
           | Some rows \<Rightarrow>
               Inr (map_option (\<lambda>r. IdRow (ci_id r)) (find (\<lambda>r. ci_id r = rowid) rows))))"

subsection \<open>DatabaseConnection\<close>

text \<open>The failure scheduled for the next statement, and the schedule after it.\<close>

definition next_fault :: "database \<Rightarrow> sqlite_code option" where
  "next_fault db = (case faults db of [] \<Rightarrow> None | f # rest \<Rightarrow> f)"

definition sent :: "database \<Rightarrow> database" where
  "sent db = db \<lparr> faults := tl (faults db) \<rparr>"

text \<open>
  \<open>connect\<close> tries to open the file up to \<open>maxRetries = 3\<close> times, then tests the
  connection with \<open>SELECT 1\<close>.
\<close>

definition connect :: "database \<Rightarrow> (js_error + unit) \<times> database" where
  "connect db =
     (if 3 \<le> open_failures db
      then (Inl (handleConnectionError (SqliteError SQLITE_CANTOPEN)),
            db \<lparr> open_failures := open_failures db - 3 \<rparr>)
      else
        (case next_fault db of
           Some code \<Rightarrow>
             (Inl (handleConnectionError (SqliteError code)),
              sent (db \<lparr> open_failures := 0 \<rparr>))
         | None \<Rightarrow>
             (Inr (), sent (db \<lparr> open_failures := 0, isConnected := True \<rparr>))))"

definition close :: "database \<Rightarrow> database" where
  "close db = db \<lparr> isConnected := False \<rparr>"

text \<open>
  \<open>run(sql, params)\<close> and \<open>get(sql, params)\<close>: a connection that is not open raises
  a connection error, and an error of the driver is raised as \<open>handleQueryError\<close> words
  it.
\<close>

definition db_run :: "statement \<Rightarrow> database \<Rightarrow> (js_error + nat) \<times> database" where
  "db_run stmt db =
     (if \<not> isConnected db
      then (Inl (handleConnectionError (Error ''Database not connected'')), db)
      else
        (case next_fault db of
           Some code \<Rightarrow> (Inl (handleQueryError (SqliteError code)), sent db)
         | None \<Rightarrow>
             (case sqlite_exec stmt (sent db) of
                Inl code \<Rightarrow> (Inl (handleQueryError (SqliteError code)), sent db)
              | Inr (lastID, db') \<Rightarrow> (Inr lastID, db'))))"

definition db_get :: "query \<Rightarrow> database \<Rightarrow> (js_error + row option) \<times> database" where
  "db_get q db =
     (if \<not> isConnected db
      then (Inl (handleConnectionError (Error ''Database not connected'')), db)
      else
        (case next_fault db of
           Some code \<Rightarrow> (Inl (handleQueryError (SqliteError code)), sent db)
         | None \<Rightarrow>
             (case sqlite_query q db of
                Inl code \<Rightarrow> (Inl (handleQueryError (SqliteError code)), sent db)
              | Inr r \<Rightarrow> (Inr r, sent db))))"

subsection \<open>CheckInRepository\<close>

text \<open>
  \<open>recordCheckIn(phoneNumber, otp, validationStatus, timestamp)\<close>: the attempt is
  logged, the row is inserted and its \<open>id\<close> is read back. Whatever is raised inside is
  logged and raised again through \<open>handleQueryError\<close>; the errors of \<open>run\<close> and \<open>get\<close>
  are \<open>AppError\<close>s and carry no SQLite code any more. Both log entries format
  \<open>timestamp.toISOString()\<close>, which raises on an invalid date, also inside the \<open>catch\<close>
  block.
\<close>

definition recordCheckIn ::
    "string \<Rightarrow> string \<Rightarrow> string \<Rightarrow> int \<Rightarrow> database \<Rightarrow> (js_error + nat) \<times> database" where
  "recordCheckIn phoneNumber code validationStatus time db0 =
     (let db = db0 \<lparr> attempt_log := attempt_log db0 @ [(validationStatus, False)] \<rparr>;
          failed = (\<lambda>error db'.
            (Inl (handleQueryError error),
             db' \<lparr> attempt_log := attempt_log db' @ [(validationStatus, True)] \<rparr>))
      in if \<not> valid_time (Num time)
         then (Inl RangeError, db0)
         else
           (case db_run (INSERT_CHECK_IN phoneNumber code validationStatus time) db of
              (Inl error, db1) \<Rightarrow> failed error db1
            | (Inr lastID, db1) \<Rightarrow>
                (case db_get (SELECT_CHECK_IN_ID lastID) db1 of
                   (Inl error, db2) \<Rightarrow> failed error db2
                 | (Inr None, db2) \<Rightarrow>
                     failed (Error ''Failed to retrieve inserted check-in record'') db2
                 | (Inr (Some (IdRow checkinId)), db2) \<Rightarrow> (Inr checkinId, db2)
                 | (Inr (Some _), db2) \<Rightarrow>
                     failed (Error ''Failed to retrieve inserted check-in record'') db2)))"

subsection \<open>ConfigRepository\<close>

definition getConfig :: "string \<Rightarrow> database \<Rightarrow> (js_error + string option) \<times> database" where
  "getConfig k db =
     (case db_get (SELECT_CONFIG_VALUE k) db of
        (Inl error, db') \<Rightarrow>
          (Inl (Error (''Failed to fetch configuration for key: '' @ k)), db')
      | (Inr (Some (ValueRow v)), db') \<Rightarrow> (Inr (Some v), db')
      | (Inr _, db') \<Rightarrow> (Inr None, db'))"

definition setConfig :: "string \<Rightarrow> string \<Rightarrow> database \<Rightarrow> (js_error + unit) \<times> database" where
  "setConfig k v db =
     (case db_run (INSERT_OR_REPLACE_CONFIG k v) db of
        (Inl error, db') \<Rightarrow>
          (Inl (Error (''Failed to set configuration for key: '' @ k)), db')
      | (Inr _, db') \<Rightarrow> (Inr (), db'))"

text \<open>\<open>getOtpSecret\<close> raises when the entry is absent, and when its value is empty.\<close>

definition getOtpSecret :: "database \<Rightarrow> (js_error + string) \<times> database" where
  "getOtpSecret db =
     (case getConfig ''otp_secret'' db of
        (Inl error, db') \<Rightarrow> (Inl error, db')
      | (Inr (Some secret), db') \<Rightarrow>
          if secret = []
          then (Inl (Error ''OTP secret not configured. Run database initialization.''), db')
          else (Inr secret, db')
      | (Inr None, db') \<Rightarrow>
          (Inl (Error ''OTP secret not configured. Run database initialization.''), db'))"

subsection \<open>The schema and the bootstrap script\<close>

text \<open>Statements sent one after the other; the first error ends the sequence.\<close>

fun run_all :: "statement list \<Rightarrow> database \<Rightarrow> (js_error + unit) \<times> database" where
  "run_all [] db = (Inr (), db)"
| "run_all (stmt # stmts) db =
     (case db_run stmt db of
        (Inl error, db') \<Rightarrow> (Inl error, db')
      | (Inr _, db') \<Rightarrow> run_all stmts db')"

text \<open>
  \<open>initializeSchema(dbConnection, secretKey = null)\<close>: the two tables, the three
  indexes and, when a secret is given and is not empty, \<open>INSERT_DEFAULT_CONFIG\<close>. An
  error is logged and raised again.
\<close>

definition initializeSchema ::
    "string option \<Rightarrow> database \<Rightarrow> (js_error + unit) \<times> database" where
  "initializeSchema secret db =
     run_all
       ([CREATE_CHECK_INS_TABLE, CREATE_SYSTEM_CONFIG_TABLE,
         CREATE_CHECK_INS_INDEX ''idx_checkins_date'',
         CREATE_CHECK_INS_INDEX ''idx_checkins_phone'',
         CREATE_CHECK_INS_INDEX ''idx_checkins_timestamp'']
        @ (case secret of
             Some s \<Rightarrow> if s \<noteq> [] then [INSERT_DEFAULT_CONFIG s] else []
           | None \<Rightarrow> []))
       db"

datatype process_outcome = Completed | Exit nat

text \<open>
  \<open>initializeDatabase\<close> of \<open>scripts/init-db.js\<close>: the candidate secret is the
  environment's \<open>OTP_SECRET\<close> or, when that is empty, the hexadecimal form of 32 random
  bytes (\<open>random\<close>). An error ends the process with \<open>exit(1)\<close>; otherwise the connection
  is closed.
\<close>

definition initializeDatabase ::
    "string \<Rightarrow> 256 word \<Rightarrow> database \<Rightarrow> process_outcome \<times> database" where
  "initializeDatabase env_secret random db =
     (case connect db of
        (Inl error, db1) \<Rightarrow> (Exit 1, db1)
      | (Inr _, db1) \<Rightarrow>
          let secret = (if env_secret \<noteq> [] then env_secret else digest_hex random)
          in (case initializeSchema (Some secret) db1 of
                (Inl error, db2) \<Rightarrow> (Exit 1, db2)
              | (Inr _, db2) \<Rightarrow> (Completed, close db2)))"

text \<open>The stored secret, if the table and the entry exist.\<close>

definition stored_secret :: "database \<Rightarrow> string option" where
  "stored_secret db =
     (case system_config db of None \<Rightarrow> None | Some config \<Rightarrow> config ''otp_secret'')"

section \<open>The server (express.server.js)\<close>

subsection \<open>Initialization of the services\<close>

record envConfig =
  PHONE_NUMBER :: string
  OTP_SECRET :: string
  DEFAULT_TIME_WINDOW_MS :: int
  WHATSAPP_MESSAGE_TEMPLATE :: string

text \<open>
  The module's variables; \<open>None\<close> and \<open>False\<close> stand for a variable that is still
  \<open>undefined\<close>.
\<close>

record services =
  otpService :: "OTPService option"
  whatsappService :: "WhatsAppService option"
  checkInRepository :: bool
  configRepository :: bool

definition no_services :: services where
  "no_services =
     \<lparr> otpService = None, whatsappService = None, checkInRepository = False,
       configRepository = False \<rparr>"

text \<open>
  \<open>initializeQRServices\<close>. An error of \<open>connect\<close> or of a constructor ends the process
  with \<open>exit(1)\<close>. An error of \<open>getOtpSecret\<close> is caught inside: the secret is then the
  environment's \<open>OTP_SECRET\<close> or, when that is empty,
  \<open>'default-secret-key-change-in-production'\<close>, and a warning is logged.
\<close>

definition initializeQRServices ::
    "envConfig \<Rightarrow> database \<Rightarrow> (process_outcome \<times> services) \<times> database" where
  "initializeQRServices env db =
     (case connect db of
        (Inl error, db1) \<Rightarrow> ((Exit 1, no_services), db1)
      | (Inr _, db1) \<Rightarrow>
          let repositories = no_services \<lparr> checkInRepository := True,
                                             configRepository := True \<rparr>;
              loaded = getOtpSecret db1;
              otpSecret =
                (case fst loaded of
                   Inr secret \<Rightarrow> secret
                 | Inl error \<Rightarrow>
                     if OTP_SECRET env \<noteq> [] then OTP_SECRET env
                     else ''default-secret-key-change-in-production'');
              db2 = snd loaded
          in (case new_OTPService (OTP_SECRET env) (DEFAULT_TIME_WINDOW_MS env)
                     (Some otpSecret) of
                Inl error \<Rightarrow> ((Exit 1, repositories), db2)
              | Inr otp_service \<Rightarrow>
                  (case new_WhatsAppService (PHONE_NUMBER env)
                          \<lparr> cfg_whatsappNumber = Str (PHONE_NUMBER env),
                            cfg_messageTemplate =
                              Str (if WHATSAPP_MESSAGE_TEMPLATE env \<noteq> []
                                   then WHATSAPP_MESSAGE_TEMPLATE env
                                   else ''Check-in code: {otp}''),
                            cfg_fallbackToWeb = Undefined \<rparr> of
                     Inl error \<Rightarrow>
                       ((Exit 1, repositories \<lparr> otpService := Some otp_service \<rparr>), db2)
                   | Inr whatsapp_service \<Rightarrow>
                       ((Completed,
                         repositories \<lparr> otpService := Some otp_service,
                                        whatsappService := Some whatsapp_service \<rparr>),
                        db2))))"

subsection \<open>Validation of a request (utils/validation.js)\<close>

definition missingRequiredField :: "string \<Rightarrow> js_error" where
  "missingRequiredField fieldName = AppError MISSING_REQUIRED_FIELD 400"

definition invalidOTP :: js_error where
  "invalidOTP = AppError INVALID_OTP_FORMAT 400"

definition invalidPhoneNumber :: js_error where
  "invalidPhoneNumber = AppError INVALID_PHONE_FORMAT 400"

definition invalidTimestamp :: js_error where
  "invalidTimestamp = AppError INVALID_TIMESTAMP 400"

text \<open>\<open>OTPValidator.validate\<close>: the trimmed value matches \<open>/^[A-Za-z0-9]{6}$/\<close>.\<close>

definition OTPValidator_validate :: "jsval \<Rightarrow> js_error + string" where
  "OTPValidator_validate v =
     (case v of
        Str s \<Rightarrow>
          if s = [] then Inl (missingRequiredField ''otp'')
          else
            let trimmed = trim s
            in if length trimmed = 0 then Inl invalidOTP
               else if \<not> (length trimmed = 6 \<and> list_all is_alnum trimmed) then Inl invalidOTP
               else Inr (toUpperCase trimmed)
      | _ \<Rightarrow> Inl (missingRequiredField ''otp''))"

text \<open>
  \<open>PhoneNumberValidator.validate\<close>: blanks, \<open>-\<close>, \<open>(\<close>, \<open>)\<close> and \<open>+\<close> are removed, 7
  to 15 digits must remain, and the normalised number starts with \<open>+\<close>.
\<close>

definition PhoneNumberValidator_validate :: "jsval \<Rightarrow> js_error + string" where
  "PhoneNumberValidator_validate v =
     (case v of
        Str s \<Rightarrow>
          if s = [] then Inl (missingRequiredField ''phoneNumber'')
          else
            let cleaned = filter (\<lambda>c. \<not> (is_space c \<or> c \<in> set ''-()+'')) s
            in if \<not> (cleaned \<noteq> [] \<and> list_all is_digit cleaned) then Inl invalidPhoneNumber
               else if length cleaned < 7 \<or> length cleaned > 15 then Inl invalidPhoneNumber
               else if take 1 s \<noteq> ''+''
               then Inr (CHR ''+'' #
                         (if length cleaned = 10 \<and> take 1 cleaned = ''0''
                          then drop 1 cleaned else cleaned))
               else Inr (CHR ''+'' # cleaned)
      | _ \<Rightarrow> Inl (missingRequiredField ''phoneNumber''))"

text \<open>
  \<open>new Date(value)\<close>, as its time value; \<open>None\<close> is an invalid date, and stands also
  for the \<open>TypeError\<close> on a \<open>BigInt\<close> or a symbol, which \<open>TimestampValidator\<close>
  catches and answers as an invalid time stamp. What the runtime reads from a string or
  an object is the parameter \<open>parse\<close>.
\<close>

definition new_Date :: "(jsval \<Rightarrow> int option) \<Rightarrow> jsval \<Rightarrow> int option" where
  "new_Date parse v =
     (let time = (case v of
                    Num n \<Rightarrow> Some n
                  | Bool b \<Rightarrow> Some (if b then 1 else 0)
                  | Null \<Rightarrow> Some 0
                  | Str s \<Rightarrow> parse v
                  | Function \<Rightarrow> parse v
                  | Obj \<Rightarrow> parse v
                  | Cyclic \<Rightarrow> parse v
                  | _ \<Rightarrow> None)
      in case time of
           Some t \<Rightarrow> if valid_time (Num t) then Some t else None
         | None \<Rightarrow> None)"

text \<open>
  \<open>TimestampValidator.validate(timestamp, toleranceMs)\<close>: the date must be valid and
  lie within the tolerance of the clock's reading \<open>now\<close>.
\<close>

definition TimestampValidator_validate ::
    "(jsval \<Rightarrow> int option) \<Rightarrow> int \<Rightarrow> jsval \<Rightarrow> int \<Rightarrow> js_error + int" where
  "TimestampValidator_validate parse now v toleranceMs =
     (if \<not> truthy v then Inr now
      else
        (case new_Date parse v of
           None \<Rightarrow> Inl invalidTimestamp
         | Some date \<Rightarrow>
             if \<bar>date - now\<bar> > toleranceMs then Inl invalidTimestamp else Inr date))"

text \<open>
  A request, after \<open>express.json()\<close> has parsed its body, and the value the middleware
  validates for a field: \<open>req.body[field] || req.params[field] || req.query[field]\<close>.
\<close>

record request =
  ip :: string
  body :: "string \<Rightarrow> jsval"
  params :: "string \<Rightarrow> jsval"
  query :: "string \<Rightarrow> jsval"

definition field_value :: "request \<Rightarrow> string \<Rightarrow> jsval" where
  "field_value req field =
     (if truthy (body req field) then body req field
      else if truthy (params req field) then params req field
      else query req field)"

text \<open>
  One turn of the middleware's loop, for a required and for an optional field: a
  required field with a falsy value is an error, an optional one is skipped.
\<close>

definition required_field ::
    "string \<Rightarrow> (jsval \<Rightarrow> js_error + 'a) \<Rightarrow> jsval \<Rightarrow> js_error + 'a" where
  "required_field field validate v =
     (if \<not> truthy v then Inl (missingRequiredField field) else validate v)"

definition optional_field ::
    "(jsval \<Rightarrow> js_error + 'a) \<Rightarrow> jsval \<Rightarrow> js_error + 'a option" where
  "optional_field validate v =
     (if \<not> truthy v then Inr None
      else (case validate v of Inl e \<Rightarrow> Inl e | Inr x \<Rightarrow> Inr (Some x)))"

record validated =
  v_otp :: string
  v_phoneNumber :: string
  v_timestamp :: "int option"

text \<open>
  \<open>createValidationMiddleware\<close> with the rules of \<open>POST /api/checkin\<close>: \<open>otp\<close> and
  \<open>phoneNumber\<close> are required, \<open>timestamp\<close> is optional with a tolerance of 5 minutes.
  All fields are validated; the first error, in the order of the rules, is the response.
\<close>

definition checkin_validation ::
    "(jsval \<Rightarrow> int option) \<Rightarrow> int \<Rightarrow> request \<Rightarrow> js_error + validated" where
  "checkin_validation parse now req =
     (let r_otp = required_field ''otp'' OTPValidator_validate (field_value req ''otp'');
          r_phone = required_field ''phoneNumber'' PhoneNumberValidator_validate
                      (field_value req ''phoneNumber'');
          r_time = optional_field
                     (\<lambda>v. TimestampValidator_validate parse now v (5 * 60 * 1000))
                     (field_value req ''timestamp'')
      in case r_otp of
           Inl e \<Rightarrow> Inl e
         | Inr code \<Rightarrow>
             (case r_phone of
                Inl e \<Rightarrow> Inl e
              | Inr phone \<Rightarrow>
                  (case r_time of
                     Inl e \<Rightarrow> Inl e
                   | Inr time \<Rightarrow>
                       Inr \<lparr> v_otp = code, v_phoneNumber = phone, v_timestamp = time \<rparr>)))"

subsection \<open>POST /api/checkin\<close>

datatype response_body =
    CheckinSuccess nat string "string option" int
  | CheckinFailure reason string nat int
  | ErrorJson js_error
  | Degraded string
  | TooManyRequests ERROR_CODES

text \<open>
  What the route does with a request: it sends a response with a status, or an error
  leaves the handler and is handed to Express (\<open>throw error\<close>).
\<close>

datatype reply = Response nat response_body | Propagated js_error

text \<open>The status the handler passes to the store for a result of the engine.\<close>

definition checkin_status :: "ValidationResult \<Rightarrow> string" where
  "checkin_status validation =
     (if valid validation then ''valid''
      else if reason validation = EXPIRED_OR_INVALID then ''expired''
      else ''invalid'')"

text \<open>
  The \<open>catch\<close> block of the handler: one attempt to record the request with the status
  \<open>'error'\<close>, whose own error is only logged, and then \<open>throw error\<close>.
\<close>

definition checkin_catch ::
    "js_error \<Rightarrow> validated \<Rightarrow> int \<Rightarrow> services \<Rightarrow> database \<Rightarrow> (reply \<times> services) \<times> database" where
  "checkin_catch error v checkInTime svcs db =
     (let db' = (if checkInRepository svcs
                 then snd (recordCheckIn (v_phoneNumber v) (v_otp v) ''error'' checkInTime db)
                 else db)
      in ((Propagated error, svcs), db'))"

text \<open>
  The handler, for a validated request. \<open>now_handler\<close> is the clock's reading of
  \<open>new Date()\<close>, \<open>now_engine\<close> the one that \<open>validateOTP\<close> may take.
\<close>

definition checkin_handler ::
    "hmac \<Rightarrow> int \<Rightarrow> int \<Rightarrow> services \<Rightarrow> database \<Rightarrow> validated
      \<Rightarrow> (reply \<times> services) \<times> database" where
  "checkin_handler mac now_handler now_engine svcs db v =
     (case otpService svcs of
        None \<Rightarrow> ((Response 503 (Degraded ''otp_service''), svcs), db)
      | Some otp_service \<Rightarrow>
          if \<not> checkInRepository svcs
          then ((Response 503 (Degraded ''checkin_repository''), svcs), db)
          else
            let checkInTime = (case v_timestamp v of Some t \<Rightarrow> t | None \<Rightarrow> now_handler)
            in (case validateOTP mac now_engine otp_service (Str (v_otp v))
                       (Num checkInTime) of
                  (Inl error, otp_service') \<Rightarrow>
                    checkin_catch error v checkInTime
                      (svcs \<lparr> otpService := Some otp_service' \<rparr>) db
                | (Inr validation, otp_service') \<Rightarrow>
                    let svcs' = svcs \<lparr> otpService := Some otp_service' \<rparr>
                    in (case recordCheckIn (v_phoneNumber v) (v_otp v)
                               (checkin_status validation) checkInTime db of
                          (Inl error, db1) \<Rightarrow> checkin_catch error v checkInTime svcs' db1
                        | (Inr checkInId, db1) \<Rightarrow>
                            if valid validation
                            then ((Response 200
                                     (CheckinSuccess checkInId (message validation)
                                        (timeWindowName validation) checkInTime),
                                   svcs'), db1)
                            else ((Response
                                     (if reason validation = EXPIRED_OR_INVALID
                                      then 410 else 400)
                                     (CheckinFailure (reason validation)
                                        (message validation) checkInId checkInTime),
                                   svcs'), db1))))"

text \<open>
  The validation middleware and the handler of the route, for a request that the rate
  limiters have passed on (\<open>api_checkin\<close> below is the route with its limiters).
  \<open>now_validation\<close> is the clock's reading in the middleware.
\<close>

definition post_checkin ::
    "hmac \<Rightarrow> (jsval \<Rightarrow> int option) \<Rightarrow> int \<Rightarrow> int \<Rightarrow> int \<Rightarrow> services \<Rightarrow> database
      \<Rightarrow> request \<Rightarrow> (reply \<times> services) \<times> database" where
  "post_checkin mac parse now_validation now_handler now_engine svcs db req =
     (case checkin_validation parse now_validation req of
        Inl error \<Rightarrow>
          ((Response (case error of AppError code status \<Rightarrow> status | _ \<Rightarrow> 500)
              (ErrorJson error), svcs), db)
      | Inr v \<Rightarrow> checkin_handler mac now_handler now_engine svcs db v)"

subsection \<open>The rate limiters\<close>

text \<open>
  \<open>rateLimit\<close> is the library \<open>express-rate-limit\<close>. A limiter counts the requests of
  each client address (\<open>req.ip\<close>) in its current window of \<open>windowMs\<close> milliseconds;
  the request that takes the count above \<open>max\<close> is given to the limiter's \<open>handler\<close>
  and is not passed on. The table of counts is part of the state. The end of a window,
  which starts the counts again, is an event between requests: a theorem about one
  request holds for every table.
\<close>

type_synonym hits = "string \<rightharpoonup> nat"

definition rateLimit :: "nat \<Rightarrow> hits \<Rightarrow> string \<Rightarrow> bool \<times> hits" where
  "rateLimit limit table key =
     (let totalHits = (case table key of None \<Rightarrow> 0 | Some n \<Rightarrow> n) + 1
      in (totalHits \<le> limit, table(key \<mapsto> totalHits)))"

record limiters =
  api_hits :: hits
  checkin_hits :: hits

text \<open>
  \<open>apiLimiter\<close>, mounted on \<open>/api\<close>, admits 100 requests a minute, and
  \<open>checkInLimiter\<close>, the first middleware of the route, 10. Their handlers log a
  warning and answer with the status 429. The log entry of \<open>checkInLimiter\<close> holds
  \<open>req.body.phoneNumber ? logger.maskPhoneNumber(req.body.phoneNumber) : 'unknown'\<close>,
  and \<open>maskPhoneNumber\<close> reads \<open>phoneNumber.length\<close> and calls
  \<open>phoneNumber.slice\<close>: it returns for a string and raises a \<open>TypeError\<close> for a
  number, a boolean, a \<open>BigInt\<close> or a symbol. For an object or a function the outcome
  depends on its properties (an array has \<open>length\<close> and \<open>slice\<close>), which the model
  does not hold: the parameter \<open>sliceable\<close> decides.
\<close>

definition apiLimiter :: "hits \<Rightarrow> string \<Rightarrow> bool \<times> hits" where
  "apiLimiter = rateLimit 100"

definition checkInLimiter :: "hits \<Rightarrow> string \<Rightarrow> bool \<times> hits" where
  "checkInLimiter = rateLimit 10"

definition maskPhoneNumber_returns :: "(jsval \<Rightarrow> bool) \<Rightarrow> jsval \<Rightarrow> bool" where
  "maskPhoneNumber_returns sliceable phoneNumber =
     (\<not> truthy phoneNumber \<or>
      (case phoneNumber of
         Str s \<Rightarrow> True
       | Function \<Rightarrow> sliceable phoneNumber
       | Obj \<Rightarrow> sliceable phoneNumber
       | Cyclic \<Rightarrow> sliceable phoneNumber
       | _ \<Rightarrow> False))"

definition apiLimiter_handler :: "request \<Rightarrow> reply" where
  "apiLimiter_handler req = Response 429 (TooManyRequests RATE_LIMIT_EXCEEDED)"

definition checkInLimiter_handler :: "(jsval \<Rightarrow> bool) \<Rightarrow> request \<Rightarrow> reply" where
  "checkInLimiter_handler sliceable req =
     (if truthy (body req ''phoneNumber'') \<and>
         \<not> maskPhoneNumber_returns sliceable (body req ''phoneNumber'')
      then Propagated TypeError
      else Response 429 (TooManyRequests CHECKIN_RATE_LIMIT))"

text \<open>
  \<open>POST /api/checkin\<close> as the application serves it: \<open>apiLimiter\<close>,
  \<open>checkInLimiter\<close>, the validation middleware and the handler.
\<close>

definition api_checkin ::
    "hmac \<Rightarrow> (jsval \<Rightarrow> int option) \<Rightarrow> (jsval \<Rightarrow> bool) \<Rightarrow> int \<Rightarrow> int \<Rightarrow> int
      \<Rightarrow> limiters \<Rightarrow> services \<Rightarrow> database \<Rightarrow> request
      \<Rightarrow> ((reply \<times> services) \<times> database) \<times> limiters" where
  "api_checkin mac parse sliceable now_validation now_handler now_engine lim svcs db req =
     (case apiLimiter (api_hits lim) (ip req) of
        (False, table) \<Rightarrow>
          (((apiLimiter_handler req, svcs), db), lim \<lparr> api_hits := table \<rparr>)
      | (True, table) \<Rightarrow>
          let lim1 = lim \<lparr> api_hits := table \<rparr>
          in (case checkInLimiter (checkin_hits lim1) (ip req) of
                (False, table') \<Rightarrow>
                  (((checkInLimiter_handler sliceable req, svcs), db),
                   lim1 \<lparr> checkin_hits := table' \<rparr>)
              | (True, table') \<Rightarrow>
                  (post_checkin mac parse now_validation now_handler now_engine svcs db req,
                   lim1 \<lparr> checkin_hits := table' \<rparr>)))"

text \<open>The count of a client address, and a limiter that still admits it.\<close>

definition hits_of :: "hits \<Rightarrow> string \<Rightarrow> nat" where
  "hits_of table key = (case table key of None \<Rightarrow> 0 | Some n \<Rightarrow> n)"

definition admitted :: "limiters \<Rightarrow> request \<Rightarrow> bool" where
  "admitted lim req =
     (hits_of (api_hits lim) (ip req) < 100 \<and> hits_of (checkin_hits lim) (ip req) < 10)"

subsection \<open>States and requests to run the server on\<close>

definition fresh_database :: database where
  "fresh_database =
     \<lparr> isConnected = False, open_failures = 0, faults = [], check_ins = None,
       system_config = None, attempt_log = [] \<rparr>"

text \<open>A database whose schema was created without a secret, and an open connection to it.\<close>

definition empty_database :: database where
  "empty_database =
     \<lparr> isConnected = False, open_failures = 0, faults = [], check_ins = Some [],
       system_config = Some Map.empty, attempt_log = [] \<rparr>"

definition open_database :: database where
  "open_database = empty_database \<lparr> isConnected := True \<rparr>"


definition sample_env :: envConfig where
  "sample_env =
     \<lparr> PHONE_NUMBER = ''85212345678'', OTP_SECRET = '''', DEFAULT_TIME_WINDOW_MS = 30000,
       WHATSAPP_MESSAGE_TEMPLATE = ''Check-in code: {otp}'' \<rparr>"

definition sample_services :: services where
  "sample_services =
     \<lparr> otpService = Some sample_service, whatsappService = Some sample_whatsapp,
       checkInRepository = True, configRepository = True \<rparr>"

definition no_parse :: "jsval \<Rightarrow> int option" where
  "no_parse v = None"

definition no_hits :: limiters where
  "no_hits = \<lparr> api_hits = Map.empty, checkin_hits = Map.empty \<rparr>"

text \<open>The tables after ten check-ins of the client within the window.\<close>

definition ten_hits :: limiters where
  "ten_hits =
     \<lparr> api_hits = [''203.0.113.7'' \<mapsto> 10], checkin_hits = [''203.0.113.7'' \<mapsto> 10] \<rparr>"

text \<open>The tables after a hundred requests of the client to \<open>/api\<close> within the window.\<close>

definition hundred_hits :: limiters where
  "hundred_hits = \<lparr> api_hits = [''203.0.113.7'' \<mapsto> 100], checkin_hits = Map.empty \<rparr>"

definition no_slice :: "jsval \<Rightarrow> bool" where
  "no_slice v = False"

definition checkin_request :: "string \<Rightarrow> string \<Rightarrow> request" where
  "checkin_request code phone =
     \<lparr> ip = ''203.0.113.7'',
       body = (\<lambda>field. if field = ''otp'' then Str code
                        else if field = ''phoneNumber'' then Str phone
                        else Undefined),
       params = (\<lambda>field. Undefined),
       query = (\<lambda>field. Undefined) \<rparr>"

section \<open>Properties of the code engine\<close>

subsection \<open>Digits and codes\<close>

lemma length_digest_hex: "length (digest_hex d) = 64"
  by (simp add: digest_hex_def)

lemma hex_digit_alphabet: "hex_digit n \<in> set ''0123456789abcdef''"
  unfolding hex_digit_def by (rule nth_mem) simp

lemma toUpperCase_hex_all:
  "\<forall>c \<in> set ''0123456789abcdef''. toUpperCase_char c \<in> set ''0123456789ABCDEF''"
  by (simp add: toUpperCase_char_def)

lemma toUpperCase_hex:
  "c \<in> set ''0123456789abcdef'' \<Longrightarrow> toUpperCase_char c \<in> set ''0123456789ABCDEF''"
  using toUpperCase_hex_all by (rule bspec)

lemma set_digest_hex: "set (digest_hex d) \<subseteq> set ''0123456789abcdef''"
  unfolding digest_hex_def set_map by (rule image_subsetI) (rule hex_digit_alphabet)

lemma length_slot_code: "length (slot_code mac key ts) = 6"
  by (simp add: slot_code_def toUpperCase_def substring_def length_digest_hex)

lemma set_slot_code: "set (slot_code mac key ts) \<subseteq> set ''0123456789ABCDEF''"
proof
  fix c assume "c \<in> set (slot_code mac key ts)"
  then obtain c' where c': "c' \<in> set (substring 0 6 (digest_hex (mac key (toString ts))))"
    and c: "c = toUpperCase_char c'"
    unfolding slot_code_def toUpperCase_def set_map by blast
  from c' have "c' \<in> set (digest_hex (mac key (toString ts)))"
    unfolding substring_def by (blast dest: in_set_takeD in_set_dropD)
  then have "c' \<in> set ''0123456789abcdef''"
    using set_digest_hex by blast
  then show "c \<in> set ''0123456789ABCDEF''"
    unfolding c by (rule toUpperCase_hex)
qed

text \<open>The six digits of a code, one by one: the form in which a closed instance is evaluated.\<close>

lemma slot_code_digits:
  "slot_code mac key ts =
     map (\<lambda>i. toUpperCase_char
                 (hex_digit (unat (drop_bit (4 * (63 - i)) (mac key (toString ts))))))
       [0, 1, 2, 3, 4, 5]"
proof -
  have "take 6 [0..<64] = [0, 1, 2, 3, 4, 5::nat]"
    by (simp add: take_upt upt_rec)
  then show ?thesis
    by (simp add: slot_code_def substring_def digest_hex_def toUpperCase_def take_map)
qed

lemmas code_eval = slot_code_digits sample_mac_def decimal_def decimal_nat.simps
  unat_drop_bit_eq drop_bit_eq_div hex_digit_def toUpperCase_char_def

lemma sample_codes:
  "slot_code sample_mac ''abcd1234abcd1234'' (Num 56666665) = ''C3FE4A''"
  "slot_code sample_mac ''abcd1234abcd1234'' (Num 56666666) = ''C41D39''"
  "slot_code sample_mac ''abcd1234abcd1234'' (Num 56666667) = ''C43C28''"
  "slot_code sample_mac ''abcd1234abcd1234'' (Num 0) = ''95D5A8''"
  by (simp_all add: code_eval)

lemma sample_service_simps:
  "secretKey sample_service = ''abcd1234abcd1234''"
  "timeWindow sample_service = 30000"
  by (simp_all add: sample_service_def)

subsection \<open>generateOTP\<close>

text \<open>A service that the constructor built has a window between 30 seconds and 5 minutes.\<close>

lemma new_OTPService_window:
  assumes "new_OTPService env_secret env_window arg = Inr svc"
  shows "30000 \<le> timeWindow svc \<and> timeWindow svc \<le> 300000"
  using assms
  by (auto simp: new_OTPService_def validateTimeWindow_def Let_def split: if_splits)

lemma generateOTP_Num:
  assumes "0 < t" and "t \<le> MAX_TIME_VALUE"
  shows "generateOTP mac now svc (Num t) =
           (Inr (slot_code mac (secretKey svc) (Num (t div timeWindow svc))),
            svc \<lparr> generationCount := generationCount svc + 1,
                  lastGenerationTime := Some (Num t) \<rparr>)"
  using assms by (simp add: generateOTP_def Let_def MAX_TIME_VALUE_def)

lemma formatMessage_number [simp]:
  "typeof ts = TNumber \<Longrightarrow> formatMessage [ts] = None"
  "typeof ts = TNumber \<Longrightarrow> formatMessage [Str s, ts] = None"
  "typeof ts = TNumber \<Longrightarrow> formatMessage [Null, ts] = None"
  by (cases ts; simp add: formatMessage_def)+

lemma generateOTP_catch_number [simp]:
  "typeof ts = TNumber \<Longrightarrow> generateOTP_catch ts = AppError OTP_SERVICE_ERROR 500"
  by (simp add: generateOTP_catch_def)

lemma generateOTP_raises:
  assumes "t \<le> 0 \<or> MAX_TIME_VALUE < t"
  shows "fst (generateOTP mac now svc (Num t)) = Inl (AppError OTP_SERVICE_ERROR 500)"
  using assms by (auto simp add: generateOTP_def Let_def MAX_TIME_VALUE_def)

text \<open>
  Claim C2, as amended. For every secret, every window between 30000 and 300000
  milliseconds and every positive time stamp that is a valid time value (at most 8.64e15),
  \<open>generateOTP\<close> returns the upper-cased first 6 hexadecimal characters of the digest of
  the decimal string of \<open>floor(t / w)\<close>; the code has 6 characters over \<open>0-9A-F\<close>, and
  an equal secret with an equal time slot gives the same code.
\<close>

theorem generateOTP_code:
  assumes "30000 \<le> timeWindow svc" and "timeWindow svc \<le> 300000"
    and "0 < t" and "t \<le> MAX_TIME_VALUE"
  shows "\<exists>code.
           fst (generateOTP mac now svc (Num t)) = Inr code \<and>
           code = toUpperCase (substring 0 6
                    (digest_hex (mac (secretKey svc) (decimal (t div timeWindow svc))))) \<and>
           length code = 6 \<and>
           set code \<subseteq> set ''0123456789ABCDEF'' \<and>
           (\<forall>svc' t' now'.
              secretKey svc' = secretKey svc \<and> 0 < t' \<and> t' \<le> MAX_TIME_VALUE \<and>
              t' div timeWindow svc' = t div timeWindow svc
              \<longrightarrow> fst (generateOTP mac now' svc' (Num t')) = Inr code)"
proof -
  let ?code = "slot_code mac (secretKey svc) (Num (t div timeWindow svc))"
  have "fst (generateOTP mac now svc (Num t)) = Inr ?code"
    using assms(3,4) by (simp add: generateOTP_Num)
  moreover have "?code = toUpperCase (substring 0 6
                    (digest_hex (mac (secretKey svc) (decimal (t div timeWindow svc)))))"
    by (simp add: slot_code_def)
  moreover have "length ?code = 6"
    by (rule length_slot_code)
  moreover have "set ?code \<subseteq> set ''0123456789ABCDEF''"
    by (rule set_slot_code)
  moreover have "\<forall>svc' t' now'.
              secretKey svc' = secretKey svc \<and> 0 < t' \<and> t' \<le> MAX_TIME_VALUE \<and>
              t' div timeWindow svc' = t div timeWindow svc
              \<longrightarrow> fst (generateOTP mac now' svc' (Num t')) = Inr ?code"
    by (simp add: generateOTP_Num)
  ultimately show ?thesis by blast
qed

text \<open>
  The theorem at the scenario's service: 1700000000000 and 1700000009999 lie in the
  slot 56666666 and give one code.
\<close>

theorem generateOTP_code_witness:
  "30000 \<le> timeWindow sample_service \<and> timeWindow sample_service \<le> 300000 \<and>
   (0::int) < 1700000000000 \<and> 1700000000000 \<le> MAX_TIME_VALUE \<and>
   fst (generateOTP sample_mac 0 sample_service (Num 1700000000000)) = Inr ''C41D39'' \<and>
   fst (generateOTP sample_mac 0 sample_service (Num 1700000009999)) = Inr ''C41D39''"
proof -
  have h: "30000 \<le> timeWindow sample_service" "timeWindow sample_service \<le> 300000"
    "(0::int) < 1700000000000" "1700000000000 \<le> MAX_TIME_VALUE"
    by (simp_all add: sample_service_def MAX_TIME_VALUE_def)
  note s = sample_service_simps
  obtain code
    where c: "fst (generateOTP sample_mac 0 sample_service (Num 1700000000000)) = Inr code"
      "code = toUpperCase (substring 0 6
                (digest_hex (sample_mac (secretKey sample_service)
                   (decimal (1700000000000 div timeWindow sample_service)))))"
      "\<forall>svc' t' now'.
          secretKey svc' = secretKey sample_service \<and> 0 < t' \<and> t' \<le> MAX_TIME_VALUE \<and>
          t' div timeWindow svc' = 1700000000000 div timeWindow sample_service
          \<longrightarrow> fst (generateOTP sample_mac now' svc' (Num t')) = Inr code"
    using generateOTP_code [OF h, of sample_mac 0] by blast
  have "code = slot_code sample_mac ''abcd1234abcd1234'' (Num 56666666)"
    unfolding c(2) s by (simp add: slot_code_def)
  then have code: "code = ''C41D39''"
    by (simp add: sample_codes)
  have "fst (generateOTP sample_mac 0 sample_service (Num 1700000009999)) = Inr code"
  proof -
    have "secretKey sample_service = secretKey sample_service \<and> (0::int) < 1700000009999 \<and>
          1700000009999 \<le> MAX_TIME_VALUE \<and>
          1700000009999 div timeWindow sample_service =
            1700000000000 div timeWindow sample_service"
      by (simp add: s MAX_TIME_VALUE_def)
    with c(3) show ?thesis by blast
  qed
  with c(1) h show ?thesis
    unfolding code by simp
qed

text \<open>
  Claim C2 as it is written, for every positive time stamp, fails beyond the largest time
  value: at 9000000000000000 the guard \<open>timestamp <= 0\<close> lets the call pass, the code
  is derived and the counters are updated, and then the debug log entry's
  \<open>new Date(timestamp).toISOString()\<close> raises; \<open>generateOTP\<close> raises its
  \<open>OTP_SERVICE_ERROR\<close> and returns no code. The digest plays no part
  (\<open>generateOTP_raises\<close>).
\<close>

theorem generateOTP_code_counterexample:
  "(0::int) < 9000000000000000 \<and>
   fst (generateOTP sample_mac 0 sample_service (Num 9000000000000000))
     = Inl (AppError OTP_SERVICE_ERROR 500) \<and>
   fst (generateOTP sample_mac 0 sample_service (Num 9000000000000000))
     \<noteq> Inr (toUpperCase (substring 0 6
              (digest_hex (sample_mac (secretKey sample_service)
                 (decimal (9000000000000000 div timeWindow sample_service))))))"
  by (simp add: generateOTP_def Let_def MAX_TIME_VALUE_def)
subsection \<open>validateOTP\<close>

text \<open>The slots of the time stamps one window before and one window after.\<close>

lemma slot_shift:
  fixes t w :: int
  assumes "0 < w"
  shows "(t - w) div w = t div w - 1" and "(t + w) div w = t div w + 1"
proof -
  have "t div w = ((t - w) + w) div w" by simp
  also have "\<dots> = (t - w) div w + 1" using assms by (subst div_add_self2) simp_all
  finally show "(t - w) div w = t div w - 1" by simp
  have "(t + w) div w = t div w + 1" using assms by (subst div_add_self2) simp_all
  then show "(t + w) div w = t div w + 1" .
qed

lemma normalized_nonempty:
  assumes "length (toUpperCase (trim s)) = 6"
  shows "s \<noteq> []"
proof
  assume "s = []"
  then have "toUpperCase (trim s) = []" by (simp add: toUpperCase_def trim_def)
  with assms show False by simp
qed

lemma validateOTP_try_in_range:
  assumes w: "0 < timeWindow svc"
    and t: "timeWindow svc < t" "t + timeWindow svc \<le> MAX_TIME_VALUE"
    and s: "length (toUpperCase (trim s)) = 6"
  shows "fst (validateOTP_try mac now svc (Str s) (Num t)) =
           Inr (spec_validate mac (secretKey svc) (t div timeWindow svc) (toUpperCase (trim s)))"
proof -
  have ne: "s \<noteq> []" using s by (rule normalized_nonempty)
  have t0: "0 < t" "t \<le> MAX_TIME_VALUE" "0 < t - timeWindow svc"
    "t - timeWindow svc \<le> MAX_TIME_VALUE" "0 < t + timeWindow svc"
    using w t by simp_all
  show ?thesis
    using ne s t0 t w
    by (simp add: validateOTP_try_def Let_def generateOTP_Num slot_shift spec_validate_def)
qed

lemma validateOTP_of_try:
  "fst (validateOTP_try mac now svc otp arg) = Inr r \<Longrightarrow>
   fst (validateOTP mac now svc otp arg) = Inr r"
  by (cases "validateOTP_try mac now svc otp arg") (simp add: validateOTP_def)

text \<open>
  Claim C1, as amended. For every secret, every window \<open>w\<close> between 30000 and 300000
  milliseconds, every reference time \<open>t\<close> with \<open>w < t\<close> and \<open>t + w\<close> a valid time
  value, and every presented string whose trimmed form has 6 ASCII characters:
  \<open>validateOTP\<close> compares the trimmed, upper-cased code with the codes of the slots
  \<open>floor(t/w)\<close>, \<open>floor(t/w) - 1\<close> and \<open>floor(t/w) + 1\<close> in that order, and returns
  valid with \<open>CURRENT_WINDOW\<close>, valid with \<open>PREVIOUS_WINDOW\<close>, invalid with
  \<open>FUTURE_OTP\<close>, or, when none matches, invalid with \<open>EXPIRED_OR_INVALID\<close>. So the code
  of a slot two or more windows back, \<open>floor(t/w) - k\<close> with \<open>k \<ge> 2\<close>, is answered
  with \<open>EXPIRED_OR_INVALID\<close>, unless it is equal to one of the three codes compared
  (which happens, whatever the digest function is: \<open>stale_code_accepted\<close>).
\<close>

theorem validateOTP_three_windows:
  assumes "30000 \<le> timeWindow svc" and "timeWindow svc \<le> 300000"
    and "timeWindow svc < t" and "t + timeWindow svc \<le> MAX_TIME_VALUE"
    and "length (trim s) = 6" and "ascii (trim s)"
  shows "fst (validateOTP mac now svc (Str s) (Num t)) =
           Inr (spec_validate mac (secretKey svc) (t div timeWindow svc)
                  (toUpperCase (trim s))) \<and>
         (\<forall>k \<ge> 2.
            toUpperCase (trim s) =
              slot_code mac (secretKey svc) (Num (t div timeWindow svc - k)) \<and>
            toUpperCase (trim s) \<noteq>
              slot_code mac (secretKey svc) (Num (t div timeWindow svc)) \<and>
            toUpperCase (trim s) \<noteq>
              slot_code mac (secretKey svc) (Num (t div timeWindow svc - 1)) \<and>
            toUpperCase (trim s) \<noteq>
              slot_code mac (secretKey svc) (Num (t div timeWindow svc + 1))
            \<longrightarrow> fst (validateOTP mac now svc (Str s) (Num t)) =
                  Inr (result False EXPIRED_OR_INVALID ''OTP is expired or invalid'' None))"
proof -
  let ?code = "toUpperCase (trim s)" and ?slot = "t div timeWindow svc"
  have "0 < timeWindow svc" using assms(1) by simp
  moreover have "length ?code = 6"
    using assms(5) by (simp add: toUpperCase_def)
  ultimately have "fst (validateOTP_try mac now svc (Str s) (Num t)) =
           Inr (spec_validate mac (secretKey svc) ?slot ?code)"
    using assms(3,4) by (intro validateOTP_try_in_range)
  then have r: "fst (validateOTP mac now svc (Str s) (Num t)) =
           Inr (spec_validate mac (secretKey svc) ?slot ?code)"
    by (rule validateOTP_of_try)
  have "fst (validateOTP mac now svc (Str s) (Num t)) =
          Inr (result False EXPIRED_OR_INVALID ''OTP is expired or invalid'' None)"
    if "?code \<noteq> slot_code mac (secretKey svc) (Num ?slot)"
      and "?code \<noteq> slot_code mac (secretKey svc) (Num (?slot - 1))"
      and "?code \<noteq> slot_code mac (secretKey svc) (Num (?slot + 1))"
    unfolding r using that by (simp add: spec_validate_def)
  with r show ?thesis by blast
qed

text \<open>
  The \<open>try\<close> block raises only after the presented code was found to be a non-empty
  string, so the \<open>catch\<close> block's \<open>otp.substring\<close> is defined whenever it runs.
\<close>

lemma validateOTP_try_raises_string:
  assumes "fst (validateOTP_try mac now svc otp arg) = Inl e"
  shows "typeof otp = TString" and "truthy otp"
proof -
  have "\<not> (\<not> truthy otp \<or> typeof otp \<noteq> TString)"
  proof
    assume "\<not> truthy otp \<or> typeof otp \<noteq> TString"
    then have "fst (validateOTP_try mac now svc otp arg) =
        Inr (result False INVALID_FORMAT ''OTP must be a non-empty string'' None)"
      by (simp add: validateOTP_try_def Let_def)
    with assms show False by simp
  qed
  then show "typeof otp = TString" and "truthy otp" by simp_all
qed

text \<open>
  The log entries of \<open>validateOTP\<close>. A time stamp that can be serialised leaves both
  entries without error (\<open>validateOTP_catch\<close>); one that cannot makes the warning
  raise, when the presented code is a non-empty string, and the entry of the \<open>catch\<close>
  block raise again (\<open>validateOTP_raises\<close>).
\<close>

lemma warning_formatted:
  assumes "serializable arg"
  shows "formatMessage [if arg = Undefined then Num now else arg] = None"
  using assms by (simp add: formatMessage_def)

lemma validateOTP_catch:
  assumes "fst (validateOTP_try mac now svc otp arg) = Inl e" and "serializable arg"
  shows "fst (validateOTP mac now svc otp arg) =
      Inr (result False VALIDATION_ERROR ''OTP validation failed due to system error'' None)"
proof -
  have s: "typeof otp = TString" using assms(1) by (rule validateOTP_try_raises_string)
  then obtain c where c: "otp = Str c" by (cases otp) simp_all
  show ?thesis
    using assms
    by (cases "validateOTP_try mac now svc otp arg")
       (simp add: validateOTP_def Let_def c formatMessage_def)
qed

lemma validateOTP_returns:
  assumes "serializable arg \<or> \<not> truthy otp \<or> typeof otp \<noteq> TString"
  shows "\<exists>r. fst (validateOTP mac now svc otp arg) = Inr r"
proof (cases "fst (validateOTP_try mac now svc otp arg)")
  case (Inl e)
  then have "typeof otp = TString" and "truthy otp"
    by (rule validateOTP_try_raises_string)+
  with assms have "serializable arg" by simp
  with Inl show ?thesis by (simp add: validateOTP_catch)
next
  case (Inr r)
  then show ?thesis by (blast dest: validateOTP_of_try)
qed

lemma validateOTP_returns_number:
  "\<exists>r. fst (validateOTP mac now svc otp (Num t)) = Inr r"
  by (rule validateOTP_returns) simp

lemma validateOTP_result_cases:
  assumes "fst (validateOTP mac now svc otp arg) = Inr r"
  shows "fst (validateOTP_try mac now svc otp arg) = Inr r \<or>
         r = result False VALIDATION_ERROR ''OTP validation failed due to system error'' None"
  using assms unfolding validateOTP_def Let_def
  by (cases "validateOTP_try mac now svc otp arg")
     (auto split: sum.splits if_splits option.splits)

lemma validateOTP_raises:
  assumes "truthy otp" and "typeof otp = TString" and "\<not> serializable arg"
  shows "fst (validateOTP mac now svc otp arg) = Inl TypeError"
proof -
  obtain c where c: "otp = Str c" "c \<noteq> []"
    using assms(1,2) by (cases otp) simp_all
  have a: "arg \<noteq> Undefined" "typeof arg \<noteq> TNumber" "formatMessage [arg] = Some TypeError"
    "formatMessage [Str m, arg] = Some TypeError" for m
    using assms(3) by (cases arg; simp add: formatMessage_def)+
  have "validateOTP_try mac now svc otp arg =
          (Inl TypeError, svc \<lparr> validationCount := validationCount svc + 1 \<rparr>)"
    using c a by (simp add: validateOTP_try_def Let_def)
  then show ?thesis
    using c a by (simp add: validateOTP_def Let_def)
qed

lemma validateOTP_not_string:
  assumes "typeof otp \<noteq> TString"
  shows "fst (validateOTP mac now svc otp arg) =
      Inr (result False INVALID_FORMAT ''OTP must be a non-empty string'' None)"
  using assms by (simp add: validateOTP_def validateOTP_try_def Let_def)

lemma validateOTP_wrong_length:
  assumes "length (trim s) \<noteq> 6" and "serializable arg \<or> s = []"
  shows "fst (validateOTP mac now svc (Str s) arg) =
      Inr (result False INVALID_FORMAT
            (if s = [] then ''OTP must be a non-empty string''
             else ''OTP must be exactly 6 characters'') None)"
proof (cases "s = []")
  case True
  then show ?thesis by (simp add: validateOTP_def validateOTP_try_def Let_def)
next
  case False
  with assms(2) have "serializable arg" by simp
  then have "formatMessage [if arg = Undefined then Num now else arg] = None"
    by (rule warning_formatted)
  then have "fst (validateOTP_try mac now svc (Str s) arg) =
      Inr (result False INVALID_FORMAT ''OTP must be exactly 6 characters'' None)"
    using assms(1) False by (simp add: validateOTP_try_def Let_def toUpperCase_def)
  then have "fst (validateOTP mac now svc (Str s) arg) =
      Inr (result False INVALID_FORMAT ''OTP must be exactly 6 characters'' None)"
    by (rule validateOTP_of_try)
  with False show ?thesis by simp
qed

lemma validateOTP_try_default_time:
  assumes "typeof arg \<noteq> TNumber \<or> le_zero arg"
    and "serializable arg \<or> \<not> truthy otp \<or> typeof otp \<noteq> TString"
  shows "validateOTP_try mac now svc otp arg = validateOTP_try mac now svc otp (Num now)"
proof (cases "\<not> truthy otp \<or> typeof otp \<noteq> TString")
  case True
  then show ?thesis by (simp add: validateOTP_try_def Let_def)
next
  case o: False
  with assms(2) have "serializable arg" by simp
  then have f: "formatMessage [arg] = None" by (simp add: formatMessage_def)
  show ?thesis
  proof (cases "arg = Undefined")
    case True
    then show ?thesis by (simp add: validateOTP_try_def)
  next
    case u: False
    show ?thesis
      using assms(1) o u f by (simp add: validateOTP_try_def Let_def)
  qed
qed

lemma validateOTP_default_time:
  assumes "typeof arg \<noteq> TNumber \<or> le_zero arg"
    and "serializable arg \<or> \<not> truthy otp \<or> typeof otp \<noteq> TString"
  shows "validateOTP mac now svc otp arg = validateOTP mac now svc otp (Num now)"
proof (cases "fst (validateOTP_try mac now svc otp (Num now))")
  case (Inr r)
  then show ?thesis
    unfolding validateOTP_def validateOTP_try_default_time [OF assms]
    by (cases "validateOTP_try mac now svc otp (Num now)") simp
next
  case (Inl e)
  then have o: "typeof otp = TString" "truthy otp"
    by (rule validateOTP_try_raises_string)+
  with assms(2) have s: "serializable arg" by simp
  from o obtain c where c: "otp = Str c" by (cases otp) simp_all
  show ?thesis
    unfolding validateOTP_def validateOTP_try_default_time [OF assms]
    using Inl s
    by (cases "validateOTP_try mac now svc otp (Num now)")
       (simp add: c Let_def formatMessage_def)
qed

text \<open>
  The result depends on a presented string only through its trimmed form: a code between
  blanks is answered as the code.
\<close>

lemma validateOTP_trimmed:
  assumes "trim s' = trim s" and "s \<noteq> []" and "s' \<noteq> []"
  shows "validateOTP mac now svc (Str s') arg = validateOTP mac now svc (Str s) arg"
proof -
  have "validateOTP_try mac now svc (Str s') arg = validateOTP_try mac now svc (Str s) arg"
    unfolding validateOTP_try_def Let_def jsval.case assms(1)
    using assms(2,3) by simp
  then show ?thesis
    using assms(2,3)
    by (cases "validateOTP_try mac now svc (Str s) arg";
        cases "fst (validateOTP_try mac now svc (Str s) arg)")
       (simp_all add: validateOTP_def Let_def formatMessage_def)
qed

text \<open>
  In the first window after the epoch, \<open>0 < t \<le> w\<close>, the time stamp of the previous
  window is not positive: its \<open>generateOTP\<close> raises, and a code that is not the current
  one is answered with \<open>VALIDATION_ERROR\<close>.
\<close>

lemma not_hex_not_code:
  assumes "CHR ''Z'' \<in> set code"
  shows "code \<noteq> slot_code mac key ts"
proof
  assume "code = slot_code mac key ts"
  with assms have "CHR ''Z'' \<in> set ''0123456789ABCDEF''"
    using set_slot_code by blast
  then show False by simp
qed

lemma validateOTP_first_window:
  assumes t: "0 < t" "t \<le> timeWindow svc" "t \<le> MAX_TIME_VALUE"
    and s: "length (toUpperCase (trim s)) = 6"
    and c: "toUpperCase (trim s) \<noteq> slot_code mac (secretKey svc) (Num (t div timeWindow svc))"
  shows "fst (validateOTP mac now svc (Str s) (Num t)) =
           Inr (result False VALIDATION_ERROR ''OTP validation failed due to system error'' None)"
proof -
  have ne: "s \<noteq> []" using s by (rule normalized_nonempty)
  have p: "generateOTP mac now svc' (Num (t - timeWindow svc)) =
          (Inl (AppError OTP_SERVICE_ERROR 500), svc')" for svc'
    using t(2) by (simp add: generateOTP_def)
  have "fst (validateOTP_try mac now svc (Str s) (Num t)) = Inl (AppError OTP_SERVICE_ERROR 500)"
    using ne s c t(1,3)
    by (simp add: validateOTP_try_def Let_def generateOTP_Num p)
  then show ?thesis by (rule validateOTP_catch) simp
qed

text \<open>
  The theorem at the scenario's service, at a time in slot 56666666: the code of slot
  56666665, presented in lower case between blanks, is valid for the previous window, and
  the code of slot 56666664, two windows back, is answered with \<open>EXPIRED_OR_INVALID\<close>.
\<close>

lemma sample_stale_code:
  "slot_code sample_mac ''abcd1234abcd1234'' (Num 56666664) = ''C3DF5B''"
  by (simp add: code_eval)

lemma sample_texts:
  "trim '' c3fe4a '' = ''c3fe4a''" "toUpperCase ''c3fe4a'' = ''C3FE4A''"
  "trim ''C3DF5B'' = ''C3DF5B''" "toUpperCase ''C3DF5B'' = ''C3DF5B''"
  "trim ''ZZZZZZ'' = ''ZZZZZZ''" "toUpperCase ''ZZZZZZ'' = ''ZZZZZZ''"
  "trim ''ABCDE'' = ''ABCDE''" "trim ''C41D39'' = ''C41D39''"
  "ascii ''c3fe4a''" "ascii ''C3DF5B''" "ascii ''ABCDE''" "ascii ''C41D39''" "ascii ''ZZZZZZ''"
  by (simp_all add: toUpperCase_def toUpperCase_char_def trim_def is_space_def ascii_def)

theorem validateOTP_three_windows_witness:
  "30000 \<le> timeWindow sample_service \<and> timeWindow sample_service \<le> 300000 \<and>
   timeWindow sample_service < 1700000000000 \<and>
   1700000000000 + timeWindow sample_service \<le> MAX_TIME_VALUE \<and>
   length (trim '' c3fe4a '') = 6 \<and> ascii (trim '' c3fe4a '') \<and>
   fst (validateOTP sample_mac 0 sample_service (Str '' c3fe4a '') (Num 1700000000000)) =
     Inr (result True PREVIOUS_WINDOW ''OTP is valid (previous window)'' (Some ''previous'')) \<and>
   length (trim ''C3DF5B'') = 6 \<and> ascii (trim ''C3DF5B'') \<and> (2::int) \<le> 2 \<and>
   toUpperCase (trim ''C3DF5B'') =
     slot_code sample_mac (secretKey sample_service)
       (Num (1700000000000 div timeWindow sample_service - 2)) \<and>
   fst (validateOTP sample_mac 0 sample_service (Str ''C3DF5B'') (Num 1700000000000)) =
     Inr (result False EXPIRED_OR_INVALID ''OTP is expired or invalid'' None)"
proof -
  have h: "30000 \<le> timeWindow sample_service" "timeWindow sample_service \<le> 300000"
    "timeWindow sample_service < 1700000000000"
    "1700000000000 + timeWindow sample_service \<le> MAX_TIME_VALUE"
    by (simp_all add: sample_service_def MAX_TIME_VALUE_def)
  have p: "length (trim '' c3fe4a '') = 6" "ascii (trim '' c3fe4a '')"
    and q: "length (trim ''C3DF5B'') = 6" "ascii (trim ''C3DF5B'')"
    by (simp_all add: sample_texts)
  have "spec_validate sample_mac (secretKey sample_service)
          (1700000000000 div timeWindow sample_service) (toUpperCase (trim '' c3fe4a ''))
        = result True PREVIOUS_WINDOW ''OTP is valid (previous window)'' (Some ''previous'')"
    by (simp add: sample_texts spec_validate_def sample_service_simps sample_codes)
  with validateOTP_three_windows [OF h p, of sample_mac 0]
  have 1: "fst (validateOTP sample_mac 0 sample_service (Str '' c3fe4a '')
                 (Num 1700000000000)) =
     Inr (result True PREVIOUS_WINDOW ''OTP is valid (previous window)'' (Some ''previous''))"
    by simp
  have s: "toUpperCase (trim ''C3DF5B'') =
     slot_code sample_mac (secretKey sample_service)
       (Num (1700000000000 div timeWindow sample_service - 2))"
    "toUpperCase (trim ''C3DF5B'') \<noteq>
     slot_code sample_mac (secretKey sample_service)
       (Num (1700000000000 div timeWindow sample_service))"
    "toUpperCase (trim ''C3DF5B'') \<noteq>
     slot_code sample_mac (secretKey sample_service)
       (Num (1700000000000 div timeWindow sample_service - 1))"
    "toUpperCase (trim ''C3DF5B'') \<noteq>
     slot_code sample_mac (secretKey sample_service)
       (Num (1700000000000 div timeWindow sample_service + 1))"
    by (simp_all add: sample_texts sample_service_simps sample_codes sample_stale_code)
  from validateOTP_three_windows [OF h q, of sample_mac 0] s
  have 2: "fst (validateOTP sample_mac 0 sample_service (Str ''C3DF5B'') (Num 1700000000000)) =
     Inr (result False EXPIRED_OR_INVALID ''OTP is expired or invalid'' None)"
    by (elim conjE allE [of _ 2] impE) simp_all
  from h p q s(1) 1 2 show ?thesis by simp
qed

text \<open>
  Claim C1 as it is written, for every reference time, fails at \<open>t = 1000\<close> with a window
  of 30000: \<open>ZZZZZZ\<close> matches none of the three codes, which are hexadecimal, and the
  result is \<open>VALIDATION_ERROR\<close>, not \<open>EXPIRED_OR_INVALID\<close>. The digest plays no part
  (\<open>validateOTP_first_window\<close>).
\<close>

theorem validateOTP_three_windows_counterexample:
  "30000 \<le> timeWindow sample_service \<and> timeWindow sample_service \<le> 300000 \<and>
   length ''ZZZZZZ'' = 6 \<and>
   reason (spec_validate sample_mac (secretKey sample_service)
             (1000 div timeWindow sample_service) ''ZZZZZZ'') = EXPIRED_OR_INVALID \<and>
   fst (validateOTP sample_mac 0 sample_service (Str ''ZZZZZZ'') (Num 1000)) =
     Inr (result False VALIDATION_ERROR ''OTP validation failed due to system error'' None)"
proof -
  have z: "''ZZZZZZ'' \<noteq> slot_code sample_mac key ts" for key ts
    by (rule not_hex_not_code) simp
  have "reason (spec_validate sample_mac (secretKey sample_service)
             (1000 div timeWindow sample_service) ''ZZZZZZ'') = EXPIRED_OR_INVALID"
    by (simp add: spec_validate_def z result_def)
  moreover have "fst (validateOTP sample_mac 0 sample_service (Str ''ZZZZZZ'') (Num 1000)) =
     Inr (result False VALIDATION_ERROR ''OTP validation failed due to system error'' None)"
    by (rule validateOTP_first_window)
       (simp_all add: sample_texts z sample_service_simps MAX_TIME_VALUE_def)
  ultimately show ?thesis
    by (simp add: sample_service_simps)
qed

text \<open>
  A presented string of 6 characters that begins with a blank is trimmed to 5 and is
  answered with \<open>INVALID_FORMAT\<close>: the 6 characters of the claim are those of the
  trimmed code.
\<close>

lemma validateOTP_blank_code:
  "fst (validateOTP mac now svc (Str '' ABCDE'') (Num t)) =
     Inr (result False INVALID_FORMAT ''OTP must be exactly 6 characters'' None)"
proof -
  have "length (trim '' ABCDE'') \<noteq> 6"
    by (simp add: trim_def is_space_def)
  then show ?thesis
    using validateOTP_wrong_length [of "'' ABCDE''" "Num t" mac now svc] by simp
qed

text \<open>
  Claim C10, as amended. For every value presented as code (a string being ASCII text
  once trimmed) and every value given as time stamp, except a non-empty string presented
  with a time stamp that \<open>JSON.stringify\<close> rejects, \<open>validateOTP\<close> returns a result
  and raises nothing: a value that is not a string, the empty string and a string whose
  trimmed form has a length other than 6 give \<open>INVALID_FORMAT\<close>; a time stamp that is
  not a number or is not positive is replaced by the reading of the system clock; an
  error raised inside the \<open>try\<close> block is answered with \<open>VALIDATION_ERROR\<close>.
\<close>

theorem validateOTP_total:
  assumes "serializable arg \<or> \<not> truthy otp \<or> typeof otp \<noteq> TString"
    and "ascii_code otp"
  shows
  "(\<exists>r. fst (validateOTP mac now svc otp arg) = Inr r) \<and>
   (typeof otp \<noteq> TString \<longrightarrow>
      fst (validateOTP mac now svc otp arg) =
        Inr (result False INVALID_FORMAT ''OTP must be a non-empty string'' None)) \<and>
   (\<forall>s. otp = Str s \<and> length (trim s) \<noteq> 6 \<longrightarrow>
      fst (validateOTP mac now svc otp arg) =
        Inr (result False INVALID_FORMAT
               (if s = [] then ''OTP must be a non-empty string''
                else ''OTP must be exactly 6 characters'') None)) \<and>
   (typeof arg \<noteq> TNumber \<or> le_zero arg \<longrightarrow>
      validateOTP mac now svc otp arg = validateOTP mac now svc otp (Num now)) \<and>
   (\<forall>e. fst (validateOTP_try mac now svc otp arg) = Inl e \<longrightarrow>
      fst (validateOTP mac now svc otp arg) =
        Inr (result False VALIDATION_ERROR ''OTP validation failed due to system error''
               None))"
proof (intro conjI allI impI)
  show "\<exists>r. fst (validateOTP mac now svc otp arg) = Inr r"
    using assms(1) by (rule validateOTP_returns)
next
  assume "typeof otp \<noteq> TString"
  then show "fst (validateOTP mac now svc otp arg) =
        Inr (result False INVALID_FORMAT ''OTP must be a non-empty string'' None)"
    by (rule validateOTP_not_string)
next
  fix s assume s: "otp = Str s \<and> length (trim s) \<noteq> 6"
  with assms(1) have "serializable arg \<or> s = []" by auto
  with s show "fst (validateOTP mac now svc otp arg) =
        Inr (result False INVALID_FORMAT
               (if s = [] then ''OTP must be a non-empty string''
                else ''OTP must be exactly 6 characters'') None)"
    using validateOTP_wrong_length [of s arg mac now svc] by simp
next
  assume "typeof arg \<noteq> TNumber \<or> le_zero arg"
  then show "validateOTP mac now svc otp arg = validateOTP mac now svc otp (Num now)"
    using assms(1) by (rule validateOTP_default_time)
next
  fix e assume e: "fst (validateOTP_try mac now svc otp arg) = Inl e"
  then have "typeof otp = TString" and "truthy otp"
    by (rule validateOTP_try_raises_string)+
  with assms(1) have "serializable arg" by simp
  with e show "fst (validateOTP mac now svc otp arg) =
        Inr (result False VALIDATION_ERROR ''OTP validation failed due to system error''
               None)"
    by (rule validateOTP_catch)
qed

text \<open>
  The theorem at \<open>null\<close> with a time stamp that cannot be serialised, at a 5-character
  code, at the time stamp 0, and at a time in the first window after the epoch, where the
  \<open>try\<close> block raises.
\<close>

theorem validateOTP_total_witness:
  "\<not> truthy Null \<and> typeof Null \<noteq> TString \<and> ascii_code Null \<and>
   fst (validateOTP sample_mac 1700000000000 sample_service Null (BigInt 10)) =
     Inr (result False INVALID_FORMAT ''OTP must be a non-empty string'' None) \<and>
   serializable (Num 1700000000000) \<and>
   ascii_code (Str ''ABCDE'') \<and> length (trim ''ABCDE'') \<noteq> 6 \<and>
   fst (validateOTP sample_mac 1700000000000 sample_service (Str ''ABCDE'')
          (Num 1700000000000)) =
     Inr (result False INVALID_FORMAT ''OTP must be exactly 6 characters'' None) \<and>
   serializable (Num 0) \<and> le_zero (Num 0) \<and> ascii_code (Str ''C41D39'') \<and>
   validateOTP sample_mac 1700000000000 sample_service (Str ''C41D39'') (Num 0) =
     validateOTP sample_mac 1700000000000 sample_service (Str ''C41D39'')
       (Num 1700000000000) \<and>
   serializable (Num 1000) \<and> ascii_code (Str ''ZZZZZZ'') \<and>
   fst (validateOTP_try sample_mac 1700000000000 sample_service (Str ''ZZZZZZ'') (Num 1000)) =
     Inl (AppError OTP_SERVICE_ERROR 500) \<and>
   fst (validateOTP sample_mac 1700000000000 sample_service (Str ''ZZZZZZ'') (Num 1000)) =
     Inr (result False VALIDATION_ERROR ''OTP validation failed due to system error'' None)"
proof -
  let ?now = "1700000000000 :: int"
  have a: "\<not> truthy Null" "typeof Null \<noteq> TString" by simp_all
  have b: "length (trim ''ABCDE'') \<noteq> 6"
    by (simp add: sample_texts)
  have k: "ascii_code Null" "ascii_code (Str ''ABCDE'')" "ascii_code (Str ''C41D39'')"
    "ascii_code (Str ''ZZZZZZ'')"
    by (simp_all add: ascii_code_def ascii_def sample_texts)
  have c: "typeof (Num 0) \<noteq> TNumber \<or> le_zero (Num 0)" by simp
  have z: "''ZZZZZZ'' \<noteq> slot_code sample_mac key ts" for key ts
    by (rule not_hex_not_code) simp
  have d: "fst (validateOTP_try sample_mac ?now sample_service (Str ''ZZZZZZ'') (Num 1000)) =
     Inl (AppError OTP_SERVICE_ERROR 500)"
    by (simp add: validateOTP_try_def Let_def sample_texts z generateOTP_def
        sample_service_simps MAX_TIME_VALUE_def)
  from validateOTP_total [of "BigInt 10" Null sample_mac ?now sample_service] a k
  have 1: "fst (validateOTP sample_mac ?now sample_service Null (BigInt 10)) =
     Inr (result False INVALID_FORMAT ''OTP must be a non-empty string'' None)"
    by blast
  from validateOTP_total [of "Num ?now" "Str ''ABCDE''" sample_mac ?now sample_service] b k
  have 2: "fst (validateOTP sample_mac ?now sample_service (Str ''ABCDE'') (Num ?now)) =
     Inr (result False INVALID_FORMAT ''OTP must be exactly 6 characters'' None)"
    by simp
  from validateOTP_total [of "Num 0" "Str ''C41D39''" sample_mac ?now sample_service] c k
  have 3: "validateOTP sample_mac ?now sample_service (Str ''C41D39'') (Num 0) =
     validateOTP sample_mac ?now sample_service (Str ''C41D39'') (Num ?now)"
    by simp
  from validateOTP_total [of "Num 1000" "Str ''ZZZZZZ''" sample_mac ?now sample_service] d k
  have 4: "fst (validateOTP sample_mac ?now sample_service (Str ''ZZZZZZ'') (Num 1000)) =
     Inr (result False VALIDATION_ERROR ''OTP validation failed due to system error'' None)"
    by simp
  from a b k 1 2 3 4 d show ?thesis by simp
qed

text \<open>
  Claim C10 as it is written, for every time stamp, fails at the time stamp \<open>10n\<close>, a
  \<open>BigInt\<close>, with the code \<open>ABCDEF\<close>: the warning's log entry raises a \<open>TypeError\<close>
  inside the \<open>try\<close> block, the log entry of the \<open>catch\<close> block raises it again, and
  \<open>validateOTP\<close> raises instead of returning a result (\<open>validateOTP_raises\<close>). And an
  input of a length other than 6 is not always answered with \<open>INVALID_FORMAT\<close>: the 8
  characters of \<open>ZZZZZZ\<close> between two blanks are compared as the 6 of their trimmed
  form. The digest plays no part in either.
\<close>

theorem validateOTP_total_counterexample:
  "fst (validateOTP sample_mac 1700000000000 sample_service (Str ''ABCDEF'') (BigInt 10)) =
     Inl TypeError \<and>
   length '' ZZZZZZ '' \<noteq> 6 \<and>
   fst (validateOTP sample_mac 1700000000000 sample_service (Str '' ZZZZZZ '')
          (Num 1700000000000)) =
     Inr (result False EXPIRED_OR_INVALID ''OTP is expired or invalid'' None)"
proof -
  have 1: "fst (validateOTP sample_mac 1700000000000 sample_service (Str ''ABCDEF'')
                 (BigInt 10)) = Inl TypeError"
    by (rule validateOTP_raises) simp_all
  have z: "''ZZZZZZ'' \<noteq> slot_code sample_mac key ts" for key ts
    by (rule not_hex_not_code) simp
  have n: "toUpperCase (trim '' ZZZZZZ '') = ''ZZZZZZ''"
    by (simp add: toUpperCase_def toUpperCase_char_def trim_def is_space_def)
  have "fst (validateOTP_try sample_mac 1700000000000 sample_service (Str '' ZZZZZZ '')
               (Num 1700000000000)) =
        Inr (spec_validate sample_mac (secretKey sample_service)
               (1700000000000 div timeWindow sample_service)
               (toUpperCase (trim '' ZZZZZZ '')))"
    by (rule validateOTP_try_in_range) (simp_all add: n sample_service_simps MAX_TIME_VALUE_def)
  then have "fst (validateOTP_try sample_mac 1700000000000 sample_service (Str '' ZZZZZZ '')
               (Num 1700000000000)) =
        Inr (result False EXPIRED_OR_INVALID ''OTP is expired or invalid'' None)"
    by (simp add: n spec_validate_def z)
  then have 2: "fst (validateOTP sample_mac 1700000000000 sample_service (Str '' ZZZZZZ '')
               (Num 1700000000000)) =
        Inr (result False EXPIRED_OR_INVALID ''OTP is expired or invalid'' None)"
    by (rule validateOTP_of_try)
  from 1 2 show ?thesis by simp
qed

section \<open>Properties of the delivery rendering\<close>

subsection \<open>Characters of a code\<close>

lemma code_of_simps [simp]: "code_of c = of_char c" by (simp add: code_of_def)

lemma space_codes:
  "\<forall>c \<in> set [CHR 0x09, CHR 0x0A, CHR 0x0B, CHR 0x0C, CHR 0x0D, CHR '' '', CHR 0xA0].
     of_char c \<le> (32::nat) \<or> of_char c = (160::nat)"
  by simp

lemma upper_digit_not_space: "is_upper_digit c \<Longrightarrow> \<not> is_space c"
  using space_codes unfolding is_space_def is_upper_digit_def is_upper_def is_digit_def
  by fastforce

lemma lower_codes:
  "\<forall>c \<in> set ''abcdefghijklmnopqrstuvwxyz''. is_lower c"
  by (simp add: is_lower_def)

lemma toUpperCase_char_id:
  assumes "\<not> is_lower c"
  shows "toUpperCase_char c = c"
proof -
  have "c \<notin> set ''abcdefghijklmnopqrstuvwxyz''"
    using assms lower_codes by blast
  then have "map_of (zip ''abcdefghijklmnopqrstuvwxyz'' ''ABCDEFGHIJKLMNOPQRSTUVWXYZ'') c = None"
    by (subst map_of_zip_is_None) simp_all
  then show ?thesis by (simp add: toUpperCase_char_def)
qed

lemma upper_digit_not_lower: "is_upper_digit c \<Longrightarrow> \<not> is_lower c"
  by (auto simp: is_upper_digit_def is_upper_def is_digit_def is_lower_def)

lemma upper_digit_chars:
  assumes "is_upper_digit c"
  shows "c \<noteq> CHR ''%''" "c \<noteq> CHR ''+''" "c \<noteq> CHR ''&''" "c \<noteq> CHR ''=''"
    "c \<noteq> CHR ''#''" "c \<noteq> CHR ''?''" "is_word c" "is_unreserved c"
  using assms
  by (auto simp: is_upper_digit_def is_upper_def is_digit_def is_word_def is_alnum_def
      is_unreserved_def)

lemma byte_20: "byte_char CHR ''2'' CHR ''0'' = CHR '' ''"
  by (simp add: byte_char_def hex_value_def is_digit_def is_upper_def char_of_def bit_Suc_0_iff)

lemma byte_3A: "byte_char CHR ''3'' CHR ''A'' = CHR '':''"
  by (simp add: byte_char_def hex_value_def is_digit_def is_upper_def char_of_def bit_Suc_0_iff)


text \<open>A string over \<open>[A-Z0-9]\<close> passes unchanged through every step of the rendering.\<close>

lemma trim_id:
  assumes "list_all is_upper_digit s"
  shows "trim s = s"
proof -
  have a: "dropWhile is_space xs = xs" if "list_all is_upper_digit xs" for xs
    using that by (cases xs) (simp_all add: upper_digit_not_space)
  have "list_all is_upper_digit (rev s)" using assms by (simp add: list_all_iff)
  then show ?thesis
    using assms by (simp add: trim_def a)
qed

lemma toUpperCase_id:
  assumes "list_all is_upper_digit s"
  shows "toUpperCase s = s"
  unfolding toUpperCase_def using assms
  by (intro map_idI) (simp add: list_all_iff toUpperCase_char_id upper_digit_not_lower)

lemma encode_code:
  assumes "list_all is_upper_digit s"
  shows "concat (map encode_char s) = s"
  using assms by (induction s) (simp_all add: encode_char_def upper_digit_chars)

lemma percent_decode_code:
  assumes "list_all is_upper_digit s"
  shows "percent_decode s = s"
  using assms by (induction s) (simp_all add: upper_digit_chars)

lemma decodeURIComponent_code:
  assumes "list_all is_upper_digit s"
  shows "decodeURIComponent s = Some s"
  using assms by (induction s) (simp_all add: upper_digit_chars)

subsection \<open>The query of the rendered URL\<close>

lemma split_on_absent:
  assumes "sep \<notin> set s"
  shows "split_on sep s = [s]"
  using assms by (induction s) auto

lemma url_query_split:
  assumes "CHR ''?'' \<notin> set p" and "CHR ''#'' \<notin> set p" and "CHR ''#'' \<notin> set q"
  shows "url_query (p @ CHR ''?'' # q) = q"
proof -
  have a: "takeWhile (\<lambda>c. c \<noteq> CHR ''#'') (p @ CHR ''?'' # q) = p @ CHR ''?'' # q"
    using assms(2,3) by (intro takeWhile_eq_all_conv[THEN iffD2]) auto
  have b: "dropWhile (\<lambda>c. c \<noteq> CHR ''?'') (p @ CHR ''?'' # q) = CHR ''?'' # q"
    using assms(1) by (subst dropWhile_append3) auto
  show ?thesis
    unfolding url_query_def a b by simp
qed

subsection \<open>Rendering and extracting with the default template\<close>

lemma message_default:
  "replace_first ''{otp}'' code ''Check-in code: {otp}'' = ''Check-in code: '' @ code"
  by simp

lemma encode_message:
  assumes "list_all is_upper_digit code"
  shows "encodeURIComponent (''Check-in code: '' @ code) = ''Check-in%20code%3A%20'' @ code"
proof -
  have "encodeURIComponent ''Check-in code: '' = ''Check-in%20code%3A%20''"
    by (simp add: encodeURIComponent_def encode_char_def is_unreserved_def is_alnum_def
        is_upper_def is_lower_def is_digit_def HEX_DIGIT_def)
  then show ?thesis
    using encode_code [OF assms] by (simp add: encodeURIComponent_def)
qed

lemma cleanWhatsAppNumber_digits:
  assumes "cleanWhatsAppNumber v = Inr n"
  shows "list_all is_digit n"
  using assms
  by (auto simp: cleanWhatsAppNumber_def Let_def list_all_iff split: jsval.splits if_splits)

lemma digit_chars:
  assumes "is_digit c"
  shows "c \<noteq> CHR ''?''" "c \<noteq> CHR ''#''"
  using assms by (auto simp: is_digit_def)

lemma decode_text:
  assumes "list_all is_upper_digit code"
  shows "percent_decode (''Check-in%20code%3A%20'' @ code) = ''Check-in code: '' @ code"
  using percent_decode_code [OF assms]
  by (simp add: byte_20 byte_3A is_hex_def is_digit_def)

lemma decode_again:
  assumes "list_all is_upper_digit code"
  shows "decodeURIComponent (''Check-in code: '' @ code) = Some (''Check-in code: '' @ code)"
  using decodeURIComponent_code [OF assms] by simp

lemma match_message:
  assumes "list_all is_upper_digit [a, b, c, d, e, f]"
  shows "match_otp None (''Check-in code: '' @ [a, b, c, d, e, f]) = Some [a, b, c, d, e, f]"
  using assms
  by (simp add: otp_at_def is_upper_digit_def is_upper_def is_digit_def is_word_def
      is_alnum_def is_lower_def)


lemma generate_default_url:
  assumes "length code = 6" and "list_all is_upper_digit code"
    and "messageTemplate svc = Str ''Check-in code: {otp}''"
    and "cleanWhatsAppNumber (whatsappNumber svc) = Inr n"
  shows "generateWhatsAppURL localeTime svc (Str code) False =
           Inr (''https://wa.me/'' @ n @ ''?text='' @ ''Check-in%20code%3A%20'' @ code)"
proof -
  have ne: "code \<noteq> []" using assms(1) by auto
  have e: "encodeURIComponent (replace_first ''{otp}'' code ''Check-in code: {otp}'') =
             ''Check-in%20code%3A%20'' @ code"
    unfolding message_default using assms(2) by (rule encode_message)
  show ?thesis
    using assms ne
    by (simp add: generateWhatsAppURL_def Let_def trim_id toUpperCase_id e
        del: replace_first.simps)
qed

lemma get_text:
  assumes "list_all is_digit n" and "list_all is_upper_digit code"
  shows "searchParams_get (''https://wa.me/'' @ n @ ''?text='' @ ''Check-in%20code%3A%20'' @ code)
           ''text'' = Some (''Check-in code: '' @ code)"
proof -
  let ?q = "''text=Check-in%20code%3A%20'' @ code"
  have c: "x \<noteq> CHR ''#''" "x \<noteq> CHR ''&''" if "x \<in> set code" for x
    using that assms(2) by (simp_all add: list_all_iff upper_digit_chars)
  have d: "x \<noteq> CHR ''#''" "x \<noteq> CHR ''?''" if "x \<in> set n" for x
    using that assms(1) by (simp_all add: list_all_iff digit_chars)
  have "url_query ((''https://wa.me/'' @ n) @ CHR ''?'' # ?q) = ?q"
    using c d by (intro url_query_split) auto
  then have q: "url_query (''https://wa.me/'' @ n @ ''?text='' @ ''Check-in%20code%3A%20'' @ code) = ?q"
    by simp
  have "CHR ''&'' \<notin> set ?q" using c by auto
  then have s: "split_on CHR ''&'' ?q = [?q]" by (rule split_on_absent)
  have "query_pairs ?q = [(''text'', ''Check-in code: '' @ code)]"
    unfolding query_pairs_def s using decode_text [OF assms(2)]
    by simp
  then show ?thesis
    unfolding searchParams_get_def q by simp
qed

text \<open>
  Claim C8. With the default message template and a configured number that
  \<open>cleanWhatsAppNumber\<close> accepts, every code matching \<open>[A-Z0-9]{6}\<close> is rendered into a
  URL, and \<open>extractOTPFromURL\<close> returns from this URL exactly the code.
\<close>

theorem whatsapp_round_trip:
  assumes "length code = 6" and "list_all is_upper_digit code"
    and "messageTemplate svc = Str ''Check-in code: {otp}''"
    and "cleanWhatsAppNumber (whatsappNumber svc) = Inr n"
  shows "\<exists>url. generateWhatsAppURL localeTime svc (Str code) False = Inr url \<and>
               extractOTPFromURL (Str url) = Some code"
proof -
  let ?url = "''https://wa.me/'' @ n @ ''?text='' @ ''Check-in%20code%3A%20'' @ code"
  obtain a b c d e f where code: "code = [a, b, c, d, e, f]"
    using assms(1) by (auto simp: length_Suc_conv eval_nat_numeral)
  have g: "generateWhatsAppURL localeTime svc (Str code) False = Inr ?url"
    using assms by (rule generate_default_url)
  have v: "validateWhatsAppURL (Str ?url)"
    by (simp add: validateWhatsAppURL_def)
  have t: "searchParams_get ?url ''text'' = Some (''Check-in code: '' @ code)"
    using cleanWhatsAppNumber_digits [OF assms(4)] assms(2) by (rule get_text)
  have m: "match_otp None (''Check-in code: '' @ code) = Some code"
    using assms(2) unfolding code by (rule match_message)
  have "extractOTPFromURL (Str ?url) = Some code"
    unfolding extractOTPFromURL_def using v t m decode_again [OF assms(2)]
    by simp
  with g show ?thesis by blast
qed

text \<open>The theorem at the code \<open>ABC123\<close> of the service's own self-test.\<close>

theorem whatsapp_round_trip_witness:
  "length ''ABC123'' = 6 \<and> list_all is_upper_digit ''ABC123'' \<and>
   messageTemplate sample_whatsapp = Str ''Check-in code: {otp}'' \<and>
   cleanWhatsAppNumber (whatsappNumber sample_whatsapp) = Inr ''85212345678'' \<and>
   generateWhatsAppURL [] sample_whatsapp (Str ''ABC123'') False =
     Inr ''https://wa.me/85212345678?text=Check-in%20code%3A%20ABC123'' \<and>
   extractOTPFromURL (Str ''https://wa.me/85212345678?text=Check-in%20code%3A%20ABC123'') =
     Some ''ABC123''"
proof -
  have h: "length ''ABC123'' = 6" "list_all is_upper_digit ''ABC123''"
    "messageTemplate sample_whatsapp = Str ''Check-in code: {otp}''"
    "cleanWhatsAppNumber (whatsappNumber sample_whatsapp) = Inr ''85212345678''"
    by (simp_all add: sample_whatsapp_def cleanWhatsAppNumber_def is_upper_digit_def
        is_upper_def is_digit_def)
  have g: "generateWhatsAppURL [] sample_whatsapp (Str ''ABC123'') False =
     Inr ''https://wa.me/85212345678?text=Check-in%20code%3A%20ABC123''"
    using generate_default_url [OF h, of "[]"] by simp
  from whatsapp_round_trip [OF h, of "[]"] g h show ?thesis
    by auto
qed

subsection \<open>What the constructor does not check\<close>

lemma new_WhatsAppService_returns:
  "\<exists>svc. new_WhatsAppService env_phone config = Inr svc"
  by (simp add: new_WhatsAppService_def)

text \<open>
  Claim C9 against the code. The constructor accepts a number of 4 digits with a leading
  zero, and the error is raised when a code is rendered; it accepts a template with no
  placeholder, and the rendering returns a URL without the code; \<open>updateConfig\<close> rejects
  both configurations.
\<close>

theorem new_WhatsAppService_unvalidated:
  "new_WhatsAppService ''85212345678'' malformed_number_config =
     Inr \<lparr> whatsappNumber = Str ''0123'', messageTemplate = Str ''Check-in code: {otp}'',
           fallbackToWeb = True \<rparr> \<and>
   generateWhatsAppURL []
       \<lparr> whatsappNumber = Str ''0123'', messageTemplate = Str ''Check-in code: {otp}'',
         fallbackToWeb = True \<rparr> (Str ''ABC123'') False =
     Inl (Error ''WhatsApp number must be 7-15 digits long'') \<and>
   fst (updateConfig sample_whatsapp malformed_number_config) =
     Some (Error ''WhatsApp number must be 7-15 digits long'') \<and>
   new_WhatsAppService ''85212345678'' missing_placeholder_config =
     Inr \<lparr> whatsappNumber = Str ''85212345678'', messageTemplate = Str ''Your code'',
           fallbackToWeb = True \<rparr> \<and>
   generateWhatsAppURL []
       \<lparr> whatsappNumber = Str ''85212345678'', messageTemplate = Str ''Your code'',
         fallbackToWeb = True \<rparr> (Str ''ABC123'') False =
     Inr ''https://wa.me/85212345678?text=Your%20code'' \<and>
   fst (updateConfig sample_whatsapp missing_placeholder_config) =
     Some (Error ''Message template must include {otp} placeholder'')"
proof -
  have n: "toUpperCase (trim ''ABC123'') = ''ABC123''"
    by (simp add: toUpperCase_def toUpperCase_char_def trim_def is_space_def)
  have e: "encodeURIComponent ''Your code'' = ''Your%20code''"
    by (simp add: encodeURIComponent_def encode_char_def is_unreserved_def is_alnum_def
        is_upper_def is_lower_def is_digit_def HEX_DIGIT_def)
  have k: "cleanWhatsAppNumber (Str ''85212345678'') = Inr ''85212345678''"
    "cleanWhatsAppNumber (Str ''0123'') = Inl (Error ''WhatsApp number must be 7-15 digits long'')"
    by (simp_all add: cleanWhatsAppNumber_def is_digit_def)
  show ?thesis
    by (simp add: new_WhatsAppService_def malformed_number_config_def
        missing_placeholder_config_def generateWhatsAppURL_def updateConfig_def
        sample_whatsapp_def n e k is_upper_digit_def is_upper_def is_digit_def)
qed

section \<open>Properties of the store\<close>

subsection \<open>The bootstrap keeps a stored secret\<close>

text \<open>
  Every statement of the schema leaves the value of an \<open>otp_secret\<close> entry that exists,
  whatever the driver's failures are; only \<open>INSERT OR REPLACE\<close> overwrites one.
\<close>

lemma sqlite_exec_keeps_secret:
  assumes "sqlite_exec stmt db = Inr (n, db')"
    and "\<forall>k v. stmt \<noteq> INSERT_OR_REPLACE_CONFIG k v"
    and "stored_secret db = Some s"
  shows "stored_secret db' = Some s"
  using assms
  by (cases stmt)
     (auto simp: sqlite_exec_def stored_secret_def Let_def split: option.splits if_splits)

lemma stored_secret_faults [simp]:
  "stored_secret (sent db) = stored_secret db"
  "stored_secret (db \<lparr> faults := f \<rparr>) = stored_secret db"
  "stored_secret (db \<lparr> open_failures := k \<rparr>) = stored_secret db"
  "stored_secret (db \<lparr> isConnected := b \<rparr>) = stored_secret db"
  "stored_secret (db \<lparr> attempt_log := l \<rparr>) = stored_secret db"
  by (simp_all add: stored_secret_def sent_def)

lemma db_run_keeps_secret:
  assumes "\<forall>k v. stmt \<noteq> INSERT_OR_REPLACE_CONFIG k v"
    and "stored_secret db = Some s"
  shows "stored_secret (snd (db_run stmt db)) = Some s"
proof (cases "sqlite_exec stmt (sent db)")
  case (Inl code)
  then show ?thesis
    using assms(2) by (simp add: db_run_def split: option.splits)
next
  case (Inr r)
  obtain n db' where r: "r = (n, db')" by (cases r)
  have "stored_secret db' = Some s"
  proof (rule sqlite_exec_keeps_secret)
    show "sqlite_exec stmt (sent db) = Inr (n, db')" using Inr r by simp
    show "\<forall>k v. stmt \<noteq> INSERT_OR_REPLACE_CONFIG k v" by (rule assms(1))
    show "stored_secret (sent db) = Some s" using assms(2) by simp
  qed
  then show ?thesis
    using Inr assms(2) unfolding r by (simp add: db_run_def split: option.splits)
qed

lemma run_all_keeps_secret:
  assumes "\<forall>stmt \<in> set stmts. \<forall>k v. stmt \<noteq> INSERT_OR_REPLACE_CONFIG k v"
    and "stored_secret db = Some s"
  shows "stored_secret (snd (run_all stmts db)) = Some s"
  using assms
proof (induction stmts arbitrary: db)
  case Nil
  then show ?case by simp
next
  case (Cons stmt stmts)
  have k: "stored_secret (snd (db_run stmt db)) = Some s"
    using Cons.prems by (simp add: db_run_keeps_secret)
  show ?case
  proof (cases "db_run stmt db")
    case (Pair r db')
    then show ?thesis
      using k Cons.IH [of db'] Cons.prems(1) by (cases r) simp_all
  qed
qed

lemma initializeSchema_keeps_secret:
  assumes "stored_secret db = Some s"
  shows "stored_secret (snd (initializeSchema c db)) = Some s"
  unfolding initializeSchema_def
proof (rule run_all_keeps_secret)
  show "stored_secret db = Some s" by (rule assms)
qed (auto split: option.splits)

lemma connect_keeps_secret:
  "stored_secret (snd (connect db)) = stored_secret db"
  by (simp add: connect_def split: option.splits)

lemma initializeDatabase_keeps_secret:
  assumes "stored_secret db = Some s"
  shows "stored_secret (snd (initializeDatabase env_secret random db)) = Some s"
proof -
  obtain r1 db1 where c: "connect db = (r1, db1)" by (cases "connect db")
  have s1: "stored_secret db1 = Some s"
    using connect_keeps_secret [of db] c assms by simp
  show ?thesis
  proof (cases r1)
    case (Inl e)
    then show ?thesis using c s1 by (simp add: initializeDatabase_def)
  next
    case (Inr u)
    let ?c = "Some (if env_secret \<noteq> [] then env_secret else digest_hex random)"
    obtain r2 db2 where i: "initializeSchema ?c db1 = (r2, db2)"
      by (cases "initializeSchema ?c db1")
    have "stored_secret db2 = Some s"
      using initializeSchema_keeps_secret [OF s1, of ?c] i by simp
    then show ?thesis
      using c Inr i by (cases r2) (simp_all add: initializeDatabase_def Let_def close_def)
  qed
qed


text \<open>\<open>setConfig\<close>, with \<open>INSERT OR REPLACE\<close>, is the operation that overwrites a secret.\<close>

lemma setConfig_overwrites:
  assumes "isConnected db" and "next_fault db = None" and "system_config db = Some config"
  shows "stored_secret (snd (setConfig ''otp_secret'' v db)) = Some v"
  using assms
  by (simp add: setConfig_def db_run_def sqlite_exec_def stored_secret_def sent_def)

subsection \<open>A completed bootstrap leaves a secret\<close>

lemma run_all_append:
  "run_all (xs @ ys) db =
     (case run_all xs db of
        (Inl error, db') \<Rightarrow> (Inl error, db')
      | (Inr u, db') \<Rightarrow> run_all ys db')"
proof (induction xs arbitrary: db)
  case Nil
  then show ?case by simp
next
  case (Cons x xs)
  show ?case
  proof (cases "db_run x db")
    case (Pair r db')
    then show ?thesis using Cons.IH [of db'] by (cases r) simp_all
  qed
qed

lemma insert_default_stores:
  assumes "db_run (INSERT_DEFAULT_CONFIG c) db = (Inr n, db')"
  shows "stored_secret db' \<noteq> None"
  using assms
  by (auto simp: db_run_def sqlite_exec_def stored_secret_def sent_def
      split: if_splits option.splits sum.splits)

lemma initializeSchema_stores:
  assumes "initializeSchema (Some c) db = (Inr u, db')" and "c \<noteq> []"
  shows "stored_secret db' \<noteq> None"
proof -
  let ?pre = "[CREATE_CHECK_INS_TABLE, CREATE_SYSTEM_CONFIG_TABLE,
         CREATE_CHECK_INS_INDEX ''idx_checkins_date'',
         CREATE_CHECK_INS_INDEX ''idx_checkins_phone'',
         CREATE_CHECK_INS_INDEX ''idx_checkins_timestamp'']"
  obtain r1 db1 where p: "run_all ?pre db = (r1, db1)" by (cases "run_all ?pre db")
  have a: "run_all (?pre @ [INSERT_DEFAULT_CONFIG c]) db = (Inr u, db')"
    using assms by (simp add: initializeSchema_def)
  have "run_all [INSERT_DEFAULT_CONFIG c] db1 = (Inr u, db')"
    using a p unfolding run_all_append by (cases r1) simp_all
  then obtain n where "db_run (INSERT_DEFAULT_CONFIG c) db1 = (Inr n, db')"
    by (cases "db_run (INSERT_DEFAULT_CONFIG c) db1") (auto split: sum.splits)
  then show ?thesis by (rule insert_default_stores)
qed

lemma digest_hex_nonempty: "digest_hex d \<noteq> []"
  using length_digest_hex [of d] by auto

lemma initializeDatabase_stores:
  assumes "fst (initializeDatabase env_secret random db) = Completed"
  shows "stored_secret (snd (initializeDatabase env_secret random db)) \<noteq> None"
proof -
  let ?c = "if env_secret \<noteq> [] then env_secret else digest_hex random"
  have c: "?c \<noteq> []" by (simp add: digest_hex_nonempty)
  obtain r1 db1 where k: "connect db = (r1, db1)" by (cases "connect db")
  obtain r2 db2 where i: "initializeSchema (Some ?c) db1 = (r2, db2)"
    by (cases "initializeSchema (Some ?c) db1")
  from assms k i obtain u where r: "r1 = Inr u" "r2 = Inr ()" 
    by (cases r1; cases r2) (simp_all add: initializeDatabase_def Let_def)
  have "stored_secret db2 \<noteq> None"
    using i c unfolding r by (rule initializeSchema_stores)
  then show ?thesis
    using k i r by (simp add: initializeDatabase_def Let_def close_def)
qed

text \<open>
  Claim C7. For every state of the store in which an \<open>otp_secret\<close> entry exists, for
  every candidate secret and every schedule of failures, the bootstrap leaves the stored
  value unchanged. After a bootstrap that completed, a secret is stored, and a second
  bootstrap, with any candidate, leaves it as the first run left it.
\<close>

theorem bootstrap_preserves_secret:
  "(stored_secret db = Some s \<longrightarrow>
      stored_secret (snd (initializeDatabase env_secret random db)) = Some s) \<and>
   (fst (initializeDatabase env_secret random db) = Completed \<longrightarrow>
      (\<exists>s1. stored_secret (snd (initializeDatabase env_secret random db)) = Some s1 \<and>
            stored_secret
              (snd (initializeDatabase env_secret' random'
                      (snd (initializeDatabase env_secret random db)))) = Some s1))"
proof (intro conjI impI)
  assume "stored_secret db = Some s"
  then show "stored_secret (snd (initializeDatabase env_secret random db)) = Some s"
    by (rule initializeDatabase_keeps_secret)
next
  assume "fst (initializeDatabase env_secret random db) = Completed"
  then obtain s1
    where s1: "stored_secret (snd (initializeDatabase env_secret random db)) = Some s1"
    using initializeDatabase_stores by blast
  then have "stored_secret
              (snd (initializeDatabase env_secret' random'
                      (snd (initializeDatabase env_secret random db)))) = Some s1"
    by (rule initializeDatabase_keeps_secret)
  with s1 show "\<exists>s1. stored_secret (snd (initializeDatabase env_secret random db)) = Some s1 \<and>
            stored_secret
              (snd (initializeDatabase env_secret' random'
                      (snd (initializeDatabase env_secret random db)))) = Some s1"
    by blast
qed

text \<open>
  The theorem on a database file that does not exist yet: the first run stores its
  candidate, and the second run, with another candidate, keeps the first one.
\<close>

lemmas db_eval = initializeDatabase_def initializeSchema_def connect_def close_def db_run_def
  db_get_def sqlite_exec_def sqlite_query_def next_fault_def sent_def stored_secret_def
  handleQueryError_def handleConnectionError_def Let_def

lemma first_bootstrap:
  "initializeDatabase ''first-secret-0123456789'' 0 fresh_database =
     (Completed,
      \<lparr> isConnected = False, open_failures = 0, faults = [], check_ins = Some [],
        system_config = Some [''otp_secret'' \<mapsto> ''first-secret-0123456789''],
        attempt_log = [] \<rparr>)"
  by (simp add: db_eval fresh_database_def)

theorem bootstrap_preserves_secret_witness:
  "fst (initializeDatabase ''first-secret-0123456789'' 0 fresh_database) = Completed \<and>
   stored_secret (snd (initializeDatabase ''first-secret-0123456789'' 0 fresh_database))
     = Some ''first-secret-0123456789'' \<and>
   stored_secret
     (snd (initializeDatabase ''another-secret-9876543210'' 1
             (snd (initializeDatabase ''first-secret-0123456789'' 0 fresh_database))))
     = Some ''first-secret-0123456789''"
proof -
  let ?db1 = "snd (initializeDatabase ''first-secret-0123456789'' 0 fresh_database)"
  have a: "fst (initializeDatabase ''first-secret-0123456789'' 0 fresh_database) = Completed"
    by (simp add: first_bootstrap)
  have b: "stored_secret ?db1 = Some ''first-secret-0123456789''"
    by (simp add: first_bootstrap stored_secret_def)
  from bootstrap_preserves_secret
         [of ?db1 "''first-secret-0123456789''" "''another-secret-9876543210''" 1] b
  have "stored_secret (snd (initializeDatabase ''another-secret-9876543210'' 1 ?db1))
          = Some ''first-secret-0123456789''"
    by blast
  moreover
  from bootstrap_preserves_secret
         [of fresh_database _ "''first-secret-0123456789''" 0 "''another-secret-9876543210''" 1]
       a
  have "\<exists>s1. stored_secret ?db1 = Some s1 \<and>
          stored_secret (snd (initializeDatabase ''another-secret-9876543210'' 1 ?db1)) = Some s1"
    by blast
  ultimately show ?thesis using a b by simp
qed

section \<open>Properties of the server\<close>

subsection \<open>Initialization without a stored secret\<close>

text \<open>Without an \<open>otp_secret\<close> entry, \<open>getOtpSecret\<close> raises, whatever the store does.\<close>

lemma getOtpSecret_absent:
  assumes "stored_secret db = None"
  shows "\<exists>error. fst (getOtpSecret db) = Inl error"
  using assms
  by (auto simp: getOtpSecret_def getConfig_def db_get_def sqlite_query_def stored_secret_def
      split: option.splits)

lemma connected_secret:
  assumes "connect db = (Inr u, db1)"
  shows "stored_secret db1 = stored_secret db"
  using connect_keeps_secret [of db] assms by simp

text \<open>
  Claim C6, as amended. If the \<open>otp_secret\<close> entry does not exist when
  \<open>initializeQRServices\<close> runs (the connection opens, the window of the environment is
  valid), the error of \<open>getOtpSecret\<close> is caught, and the initialization completes with
  the environment's secret or, when that is empty, with the built-in default secret; the
  engine and the repositories are ready to serve.
\<close>

theorem missing_secret_is_substituted:
  assumes "stored_secret db = None"
    and "fst (connect db) = Inr ()"
    and "30000 \<le> DEFAULT_TIME_WINDOW_MS env" and "DEFAULT_TIME_WINDOW_MS env \<le> 300000"
  shows "\<exists>svcs engine db'.
           initializeQRServices env db = ((Completed, svcs), db') \<and>
           otpService svcs = Some engine \<and>
           secretKey engine =
             (if OTP_SECRET env \<noteq> [] then OTP_SECRET env
              else ''default-secret-key-change-in-production'') \<and>
           timeWindow engine = DEFAULT_TIME_WINDOW_MS env \<and>
           whatsappService svcs \<noteq> None \<and> checkInRepository svcs"
proof -
  obtain db1 where c: "connect db = (Inr (), db1)"
    using assms(2) by (cases "connect db") simp
  have "stored_secret db1 = None"
    using connected_secret [OF c] assms(1) by simp
  then obtain error where g: "fst (getOtpSecret db1) = Inl error"
    using getOtpSecret_absent by blast
  show ?thesis
    using c g assms(3,4)
    by (simp add: initializeQRServices_def Let_def new_OTPService_def validateTimeWindow_def
        new_WhatsAppService_def no_services_def)
qed

text \<open>The theorem on a database whose schema was created without a secret.\<close>

lemmas init_eval = initializeQRServices_def getOtpSecret_def getConfig_def new_OTPService_def
  validateTimeWindow_def new_WhatsAppService_def no_services_def sample_env_def
  empty_database_def db_eval

theorem missing_secret_is_substituted_witness:
  "stored_secret empty_database = None \<and> fst (connect empty_database) = Inr () \<and>
   30000 \<le> DEFAULT_TIME_WINDOW_MS sample_env \<and> DEFAULT_TIME_WINDOW_MS sample_env \<le> 300000 \<and>
   fst (fst (initializeQRServices sample_env empty_database)) = Completed \<and>
   map_option secretKey (otpService (snd (fst (initializeQRServices sample_env empty_database))))
     = Some ''default-secret-key-change-in-production''"
proof -
  have h: "stored_secret empty_database = None" "fst (connect empty_database) = Inr ()"
    "30000 \<le> DEFAULT_TIME_WINDOW_MS sample_env" "DEFAULT_TIME_WINDOW_MS sample_env \<le> 300000"
    by (simp_all add: init_eval)
  from missing_secret_is_substituted [OF h] h show ?thesis
    by (auto simp: sample_env_def)
qed

text \<open>
  Claim C6 as it is written fails on that database with an empty \<open>OTP_SECRET\<close>:
  \<open>getOtpSecret\<close> raises, and the initialization does not fail but completes, with an
  engine whose secret is \<open>default-secret-key-change-in-production\<close>.
\<close>

theorem missing_secret_counterexample:
  "stored_secret empty_database = None \<and>
   fst (getOtpSecret (snd (connect empty_database))) =
     Inl (Error ''OTP secret not configured. Run database initialization.'') \<and>
   fst (fst (initializeQRServices sample_env empty_database)) = Completed \<and>
   otpService (snd (fst (initializeQRServices sample_env empty_database))) =
     Some \<lparr> secretKey = ''default-secret-key-change-in-production'', timeWindow = 30000,
            generationCount = 0, validationCount = 0, lastGenerationTime = None \<rparr>"
  by (simp add: init_eval)

subsection \<open>Recording a check-in\<close>

text \<open>An error that \<open>run\<close> or \<open>get\<close> raised is raised by \<open>recordCheckIn\<close> as a failed query.\<close>

lemma handleQueryError_wrapped [simp]:
  "handleQueryError (handleQueryError e) = AppError DATABASE_QUERY_FAILED 500"
  "handleQueryError (handleConnectionError e) = AppError DATABASE_QUERY_FAILED 500"
  "handleQueryError (Error m) = AppError DATABASE_QUERY_FAILED 500"
  by (simp_all add: handleQueryError_def handleConnectionError_def)

lemma sent_simps [simp]:
  "isConnected (sent db) = isConnected db"
  "check_ins (sent db) = check_ins db"
  "system_config (sent db) = system_config db"
  "attempt_log (sent db) = attempt_log db"
  "faults (sent db) = tl (faults db)"
  by (simp_all add: sent_def)

lemma next_fault_log [simp]:
  "next_fault (db \<lparr> attempt_log := l \<rparr>) = next_fault db"
  "sent (db \<lparr> attempt_log := l \<rparr>) = (sent db) \<lparr> attempt_log := l \<rparr>"
  by (simp_all add: next_fault_def sent_def)

text \<open>
  The insertion either fails, with an error that \<open>handleQueryError\<close> words as a failed
  query, or appends one row; \<open>recordCheckIn\<close> either fails, after logging the attempt and
  its error, or returns the rowid of the one row it appended. With the status
  \<open>'error'\<close> it always fails and stores nothing: the \<open>CHECK\<close> constraint of the table
  admits \<open>'valid'\<close>, \<open>'expired'\<close> and \<open>'invalid'\<close> only.
\<close>

lemma db_run_insert_cases:
  obtains
    (failed) error where
      "db_run (INSERT_CHECK_IN p c st t) db = (Inl error, db) \<or>
       db_run (INSERT_CHECK_IN p c st t) db = (Inl error, sent db)"
      "handleQueryError error = AppError DATABASE_QUERY_FAILED 500"
  | (inserted) rows where
      "isConnected db" "next_fault db = None" "check_ins db = Some rows"
      "st \<in> set [''valid'', ''expired'', ''invalid'']"
      "db_run (INSERT_CHECK_IN p c st t) db =
         (Inr (Suc (length rows)),
          (sent db) \<lparr> check_ins := Some (rows @
             [\<lparr> ci_id = Suc (length rows), ci_phone_number = p, ci_otp = c,
                ci_timestamp = t, ci_validation_status = st \<rparr>]) \<rparr>)"
proof (cases "isConnected db \<and> next_fault db = None \<and> check_ins db \<noteq> None \<and>
              st \<in> set [''valid'', ''expired'', ''invalid'']")
  case True
  then obtain rows where "check_ins db = Some rows" by auto
  with True show ?thesis
    by (intro inserted [of rows]) (simp_all add: db_run_def sqlite_exec_def Let_def)
next
  case False
  then have "\<exists>error. (db_run (INSERT_CHECK_IN p c st t) db = (Inl error, db) \<or>
       db_run (INSERT_CHECK_IN p c st t) db = (Inl error, sent db)) \<and>
       handleQueryError error = AppError DATABASE_QUERY_FAILED 500"
    by (auto simp: db_run_def sqlite_exec_def Let_def split: option.splits)
  then show ?thesis using failed by blast
qed


lemma find_last:
  assumes "P x"
  shows "\<exists>y. find P (xs @ [x]) = Some y \<and> P y"
  using assms by (induction xs) auto

lemma recordCheckIn_cases:
  assumes "valid_time (Num t)"
  obtains
    (failed) db' where
      "recordCheckIn p c st t db = (Inl (AppError DATABASE_QUERY_FAILED 500), db')"
      "attempt_log db' = attempt_log db @ [(st, False), (st, True)]"
      "check_ins db' = check_ins db \<or>
       (\<exists>rows. check_ins db = Some rows \<and> st \<in> set [''valid'', ''expired'', ''invalid''] \<and>
          check_ins db' = Some (rows @
             [\<lparr> ci_id = Suc (length rows), ci_phone_number = p, ci_otp = c,
                ci_timestamp = t, ci_validation_status = st \<rparr>]))"
  | (recorded) rows db' where
      "isConnected db" "check_ins db = Some rows"
      "st \<in> set [''valid'', ''expired'', ''invalid'']"
      "recordCheckIn p c st t db = (Inr (Suc (length rows)), db')"
      "attempt_log db' = attempt_log db @ [(st, False)]"
      "check_ins db' = Some (rows @
             [\<lparr> ci_id = Suc (length rows), ci_phone_number = p, ci_otp = c,
                ci_timestamp = t, ci_validation_status = st \<rparr>])"
proof -
  let ?db = "db \<lparr> attempt_log := attempt_log db @ [(st, False)] \<rparr>"
  show ?thesis
  proof (cases rule: db_run_insert_cases [of p c st t ?db])
    case (failed error)
    from failed(1) show ?thesis
    proof
      assume "db_run (INSERT_CHECK_IN p c st t) ?db = (Inl error, ?db)"
      then show ?thesis
        using assms failed(2)
        by (intro that(1) [of "?db \<lparr> attempt_log := attempt_log ?db @ [(st, True)] \<rparr>"])
           (simp_all add: recordCheckIn_def Let_def)
    next
      assume "db_run (INSERT_CHECK_IN p c st t) ?db = (Inl error, sent ?db)"
      then show ?thesis
        using assms failed(2)
        by (intro that(1) [of "(sent ?db) \<lparr> attempt_log := attempt_log ?db @ [(st, True)] \<rparr>"])
           (simp_all add: recordCheckIn_def Let_def)
    qed
  next
    case (inserted rows)
    let ?row = "\<lparr> ci_id = Suc (length rows), ci_phone_number = p, ci_otp = c,
                ci_timestamp = t, ci_validation_status = st \<rparr>"
    let ?db1 = "(sent ?db) \<lparr> check_ins := Some (rows @ [?row]) \<rparr>"
    have rows: "check_ins db = Some rows" using inserted(3) by simp
    have conn: "isConnected db" using inserted(1) by simp
    obtain y where y: "find (\<lambda>r. ci_id r = Suc (length rows)) (rows @ [?row]) = Some y"
      "ci_id y = Suc (length rows)"
      using find_last [of "\<lambda>r. ci_id r = Suc (length rows)" ?row rows] by auto
    show ?thesis
    proof (cases "next_fault ?db1")
      case None
      then have g: "db_get (SELECT_CHECK_IN_ID (Suc (length rows))) ?db1 =
                  (Inr (Some (IdRow (Suc (length rows)))), sent ?db1)"
        using conn y by (simp add: db_get_def sqlite_query_def)
      show ?thesis
        using assms inserted(5) g rows conn inserted(4)
        by (intro that(2) [of rows "sent ?db1"])
           (simp_all add: recordCheckIn_def Let_def)
    next
      case (Some code)
      then have g: "db_get (SELECT_CHECK_IN_ID (Suc (length rows))) ?db1 =
                  (Inl (handleQueryError (SqliteError code)), sent ?db1)"
        using conn by (simp add: db_get_def)
      show ?thesis
        using assms inserted(5) g rows inserted(4)
        by (intro that(1) [of "(sent ?db1) \<lparr> attempt_log := attempt_log ?db @ [(st, True)] \<rparr>"])
           (simp_all add: recordCheckIn_def Let_def)
    qed
  qed
qed

lemma recordCheckIn_error_status:
  assumes "valid_time (Num t)"
  shows "\<exists>db'. recordCheckIn p c ''error'' t db = (Inl (AppError DATABASE_QUERY_FAILED 500), db') \<and>
           attempt_log db' = attempt_log db @ [(''error'', False), (''error'', True)] \<and>
           check_ins db' = check_ins db"
  using assms by (cases rule: recordCheckIn_cases [of t p c "''error''" db]) auto


subsection \<open>The validated request and the engine's result\<close>

lemma validated_time:
  assumes "checkin_validation parse now req = Inr v" and "v_timestamp v = Some t"
  shows "valid_time (Num t)"
proof -
  have "optional_field (\<lambda>x. TimestampValidator_validate parse now x (5 * 60 * 1000))
          (field_value req ''timestamp'') = Inr (Some t)"
    using assms
    by (auto simp: checkin_validation_def Let_def split: sum.splits)
  then have "TimestampValidator_validate parse now (field_value req ''timestamp'')
               (5 * 60 * 1000) = Inr t"
    and "truthy (field_value req ''timestamp'')"
    by (auto simp: optional_field_def split: if_splits sum.splits)
  then have "new_Date parse (field_value req ''timestamp'') = Some t"
    by (auto simp: TimestampValidator_validate_def split: option.splits if_splits)
  then show ?thesis
    by (auto simp: new_Date_def Let_def split: option.splits if_splits)
qed

lemma checkInTime_valid:
  assumes "checkin_validation parse now req = Inr v" and "valid_time (Num now_handler)"
  shows "valid_time (Num (case v_timestamp v of Some t \<Rightarrow> t | None \<Rightarrow> now_handler))"
  using assms validated_time by (cases "v_timestamp v") auto

lemma validateOTP_try_valid_iff:
  assumes "fst (validateOTP_try mac now svc otp arg) = Inr r"
  shows "valid r = (reason r \<in> {CURRENT_WINDOW, PREVIOUS_WINDOW})"
  using assms unfolding validateOTP_try_def Let_def
  by (auto simp: result_def split: if_splits prod.splits sum.splits option.splits)

lemma validateOTP_valid_iff:
  assumes "fst (validateOTP mac now svc otp arg) = Inr r"
  shows "valid r = (reason r \<in> {CURRENT_WINDOW, PREVIOUS_WINDOW})"
  using validateOTP_result_cases [OF assms]
proof
  assume "fst (validateOTP_try mac now svc otp arg) = Inr r"
  then show ?thesis by (rule validateOTP_try_valid_iff)
next
  assume "r = result False VALIDATION_ERROR ''OTP validation failed due to system error'' None"
  then show ?thesis by (simp add: result_def)
qed


lemma checkin_status_allowed:
  "checkin_status validation \<in> set [''valid'', ''expired'', ''invalid'']"
  by (simp add: checkin_status_def)

lemma recordCheckIn_succeeds:
  assumes "valid_time (Num t)" and "isConnected db" and "check_ins db = Some rows"
    and "next_fault db = None" and "next_fault (sent db) = None"
    and "st \<in> set [''valid'', ''expired'', ''invalid'']"
  shows "\<exists>db'. recordCheckIn p c st t db = (Inr (Suc (length rows)), db') \<and>
           check_ins db' = Some (rows @
             [\<lparr> ci_id = Suc (length rows), ci_phone_number = p, ci_otp = c,
                ci_timestamp = t, ci_validation_status = st \<rparr>]) \<and>
           attempt_log db' = attempt_log db @ [(st, False)]"
proof -
  let ?row = "\<lparr> ci_id = Suc (length rows), ci_phone_number = p, ci_otp = c,
                ci_timestamp = t, ci_validation_status = st \<rparr>"
  let ?db = "db \<lparr> attempt_log := attempt_log db @ [(st, False)] \<rparr>"
  let ?db1 = "(sent ?db) \<lparr> check_ins := Some (rows @ [?row]) \<rparr>"
  obtain y where y: "find (\<lambda>r. ci_id r = Suc (length rows)) (rows @ [?row]) = Some y"
    "ci_id y = Suc (length rows)"
    using find_last [of "\<lambda>r. ci_id r = Suc (length rows)" ?row rows] by auto
  have r: "db_run (INSERT_CHECK_IN p c st t) ?db = (Inr (Suc (length rows)), ?db1)"
    using assms by (simp add: db_run_def sqlite_exec_def Let_def)
  have "next_fault ?db1 = None"
    using assms(5) by (simp add: next_fault_def sent_def)
  then have g: "db_get (SELECT_CHECK_IN_ID (Suc (length rows))) ?db1 =
                  (Inr (Some (IdRow (Suc (length rows)))), sent ?db1)"
    using assms(2) y by (simp add: db_get_def sqlite_query_def)
  show ?thesis
    using assms(1) r g by (simp add: recordCheckIn_def Let_def)
qed

subsection \<open>POST /api/checkin\<close>

lemma validateOTP_pair:
  obtains validation engine' where
    "validateOTP mac now svc otp (Num t) = (Inr validation, engine')"
proof -
  obtain validation where "fst (validateOTP mac now svc otp (Num t)) = Inr validation"
    using validateOTP_returns_number by blast
  then show ?thesis
    using that by (cases "validateOTP mac now svc otp (Num t)") simp
qed

lemma post_checkin_recorded:
  assumes "checkin_validation parse now_validation req = Inr v"
    and "otpService svcs = Some engine" and "checkInRepository svcs"
    and "valid_time (Num now_handler)"
    and "isConnected db" and "check_ins db = Some rows"
    and "next_fault db = None" and "next_fault (sent db) = None"
    and "fst (validateOTP mac now_engine engine (Str (v_otp v))
                (Num (case v_timestamp v of Some t \<Rightarrow> t | None \<Rightarrow> now_handler)))
         = Inr validation"
  shows "fst (fst (post_checkin mac parse now_validation now_handler now_engine svcs db req)) =
           (if valid validation
            then Response 200
                   (CheckinSuccess (Suc (length rows)) (message validation)
                      (timeWindowName validation)
                      (case v_timestamp v of Some t \<Rightarrow> t | None \<Rightarrow> now_handler))
            else Response (if reason validation = EXPIRED_OR_INVALID then 410 else 400)
                   (CheckinFailure (reason validation) (message validation)
                      (Suc (length rows))
                      (case v_timestamp v of Some t \<Rightarrow> t | None \<Rightarrow> now_handler)))"
    and "check_ins (snd (post_checkin mac parse now_validation now_handler now_engine svcs db
                           req)) =
           Some (rows @
             [\<lparr> ci_id = Suc (length rows), ci_phone_number = v_phoneNumber v,
                ci_otp = v_otp v,
                ci_timestamp = (case v_timestamp v of Some t \<Rightarrow> t | None \<Rightarrow> now_handler),
                ci_validation_status = checkin_status validation \<rparr>])"
proof -
  let ?t = "case v_timestamp v of Some t \<Rightarrow> t | None \<Rightarrow> now_handler"
  have t: "valid_time (Num ?t)"
    using assms(1,4) by (rule checkInTime_valid)
  obtain engine' where e: "validateOTP mac now_engine engine (Str (v_otp v)) (Num ?t) =
      (Inr validation, engine')"
    using assms(9)
    by (cases "validateOTP mac now_engine engine (Str (v_otp v)) (Num ?t)") simp
  obtain db' where r: "recordCheckIn (v_phoneNumber v) (v_otp v) (checkin_status validation) ?t db
        = (Inr (Suc (length rows)), db')"
    "check_ins db' = Some (rows @
             [\<lparr> ci_id = Suc (length rows), ci_phone_number = v_phoneNumber v,
                ci_otp = v_otp v, ci_timestamp = ?t,
                ci_validation_status = checkin_status validation \<rparr>])"
    using recordCheckIn_succeeds [OF t assms(5-8) checkin_status_allowed] by blast
  show "fst (fst (post_checkin mac parse now_validation now_handler now_engine svcs db req)) =
           (if valid validation
            then Response 200
                   (CheckinSuccess (Suc (length rows)) (message validation)
                      (timeWindowName validation) ?t)
            else Response (if reason validation = EXPIRED_OR_INVALID then 410 else 400)
                   (CheckinFailure (reason validation) (message validation)
                      (Suc (length rows)) ?t))"
    using assms(1-3) e r
    by (simp add: post_checkin_def checkin_handler_def Let_def)
  show "check_ins (snd (post_checkin mac parse now_validation now_handler now_engine svcs db
                           req)) =
           Some (rows @
             [\<lparr> ci_id = Suc (length rows), ci_phone_number = v_phoneNumber v,
                ci_otp = v_otp v, ci_timestamp = ?t,
                ci_validation_status = checkin_status validation \<rparr>])"
    using assms(1-3) e r
    by (simp add: post_checkin_def checkin_handler_def Let_def)
qed

subsection \<open>The route with its limiters\<close>

lemma rateLimit_eq:
  "rateLimit limit table key =
     (hits_of table key < limit, table(key \<mapsto> hits_of table key + 1))"
  by (auto simp: rateLimit_def hits_of_def Let_def split: option.splits)

text \<open>The tables after a request that both limiters have counted.\<close>

lemma api_checkin_admitted:
  assumes "admitted lim req"
  shows "api_checkin mac parse sliceable now_validation now_handler now_engine lim svcs db req =
           (post_checkin mac parse now_validation now_handler now_engine svcs db req,
            \<lparr> api_hits = (api_hits lim)(ip req \<mapsto> hits_of (api_hits lim) (ip req) + 1),
              checkin_hits =
                (checkin_hits lim)(ip req \<mapsto> hits_of (checkin_hits lim) (ip req) + 1) \<rparr>)"
  using assms
  by (simp add: api_checkin_def admitted_def apiLimiter_def checkInLimiter_def rateLimit_eq
        Let_def)

lemma api_checkin_api_limited:
  assumes "\<not> hits_of (api_hits lim) (ip req) < 100"
  shows "api_checkin mac parse sliceable now_validation now_handler now_engine lim svcs db req =
           (((Response 429 (TooManyRequests RATE_LIMIT_EXCEEDED), svcs), db),
            \<lparr> api_hits = (api_hits lim)(ip req \<mapsto> hits_of (api_hits lim) (ip req) + 1),
              checkin_hits = checkin_hits lim \<rparr>)"
  using assms
  by (simp add: api_checkin_def apiLimiter_def rateLimit_eq apiLimiter_handler_def)

lemma api_checkin_checkin_limited:
  assumes "hits_of (api_hits lim) (ip req) < 100"
    and "\<not> hits_of (checkin_hits lim) (ip req) < 10"
  shows "api_checkin mac parse sliceable now_validation now_handler now_engine lim svcs db req =
           (((if maskPhoneNumber_returns sliceable (body req ''phoneNumber'')
              then Response 429 (TooManyRequests CHECKIN_RATE_LIMIT)
              else Propagated TypeError, svcs), db),
            \<lparr> api_hits = (api_hits lim)(ip req \<mapsto> hits_of (api_hits lim) (ip req) + 1),
              checkin_hits =
                (checkin_hits lim)(ip req \<mapsto> hits_of (checkin_hits lim) (ip req) + 1) \<rparr>)"
  using assms
  by (auto simp: api_checkin_def apiLimiter_def checkInLimiter_def rateLimit_eq Let_def
        checkInLimiter_handler_def maskPhoneNumber_returns_def)

text \<open>A request that the validation middleware rejects is answered there.\<close>

lemma post_checkin_rejected:
  assumes "checkin_validation parse now_validation req = Inl error"
  shows "post_checkin mac parse now_validation now_handler now_engine svcs db req =
           ((Response (case error of AppError code status \<Rightarrow> status | _ \<Rightarrow> 500)
               (ErrorJson error), svcs), db)"
  using assms by (simp add: post_checkin_def)

lemma length_trim: "length (trim s) \<le> length s"
proof -
  have "length (dropWhile P xs) \<le> length xs" for P and xs :: string
    by (induction xs) simp_all
  from this [of is_space "rev (dropWhile is_space s)"] this [of is_space s]
  show ?thesis by (simp add: trim_def)
qed

lemma short_code_rejected:
  assumes "body req ''otp'' = Str s" and "length s = 5"
  shows "checkin_validation parse now req = Inl (AppError INVALID_OTP_FORMAT 400)"
proof -
  have ne: "s \<noteq> []" using assms(2) by auto
  have "length (trim s) \<noteq> 6"
    using length_trim [of s] assms(2) by simp
  then have "OTPValidator_validate (Str s) = Inl invalidOTP"
    using ne by (simp add: OTPValidator_validate_def Let_def)
  moreover have "field_value req ''otp'' = Str s"
    using assms(1) ne by (simp add: field_value_def)
  ultimately show ?thesis
    using ne by (simp add: checkin_validation_def required_field_def Let_def invalidOTP_def)
qed

text \<open>
  Claim C3, as amended. A check-in submission that the rate limiters admit and that
  passes the validation middleware, with the services initialized and a store that takes
  the insertion and the read-back, is answered with a response and stores exactly one
  new record, with the submitted code and number and one of the three statuses, whether
  the engine accepts the code or not. A submission that the validation middleware
  rejects is answered by the middleware and leaves the store as it was; a code of 5
  characters is rejected with the status 400 and \<open>INVALID_OTP_FORMAT\<close>. A submission
  that a limiter does not admit is counted and given to the limiter's handler, which
  answers with the status 429 (for \<open>checkInLimiter\<close>: unless its log entry raises), and
  the store is left as it was.
\<close>

theorem checkin_recorded_once:
  "(admitted lim req \<and>
    checkin_validation parse now_validation req = Inr v \<and>
    otpService svcs = Some engine \<and> checkInRepository svcs \<and>
    valid_time (Num now_handler) \<and>
    isConnected db \<and> check_ins db = Some rows \<and>
    next_fault db = None \<and> next_fault (sent db) = None \<longrightarrow>
    (\<exists>status content row.
       fst (fst (fst (api_checkin mac parse sliceable now_validation now_handler now_engine
                        lim svcs db req))) = Response status content \<and>
       check_ins (snd (fst (api_checkin mac parse sliceable now_validation now_handler
                              now_engine lim svcs db req))) = Some (rows @ [row]) \<and>
       ci_otp row = v_otp v \<and> ci_phone_number row = v_phoneNumber v \<and>
       ci_validation_status row \<in> set [''valid'', ''expired'', ''invalid''])) \<and>
   (admitted lim req \<and> checkin_validation parse now_validation req = Inl error \<longrightarrow>
    fst (api_checkin mac parse sliceable now_validation now_handler now_engine lim svcs db
           req) =
      ((Response (case error of AppError code status \<Rightarrow> status | _ \<Rightarrow> 500)
          (ErrorJson error), svcs), db)) \<and>
   (admitted lim req \<and> body req ''otp'' = Str s \<and> length s = 5 \<longrightarrow>
    fst (api_checkin mac parse sliceable now_validation now_handler now_engine lim svcs db
           req) =
      ((Response 400 (ErrorJson (AppError INVALID_OTP_FORMAT 400)), svcs), db)) \<and>
   (\<not> hits_of (api_hits lim) (ip req) < 100 \<longrightarrow>
    api_checkin mac parse sliceable now_validation now_handler now_engine lim svcs db req =
      (((Response 429 (TooManyRequests RATE_LIMIT_EXCEEDED), svcs), db),
       \<lparr> api_hits = (api_hits lim)(ip req \<mapsto> hits_of (api_hits lim) (ip req) + 1),
         checkin_hits = checkin_hits lim \<rparr>)) \<and>
   (hits_of (api_hits lim) (ip req) < 100 \<and> \<not> hits_of (checkin_hits lim) (ip req) < 10 \<longrightarrow>
    api_checkin mac parse sliceable now_validation now_handler now_engine lim svcs db req =
      (((if maskPhoneNumber_returns sliceable (body req ''phoneNumber'')
         then Response 429 (TooManyRequests CHECKIN_RATE_LIMIT)
         else Propagated TypeError, svcs), db),
       \<lparr> api_hits = (api_hits lim)(ip req \<mapsto> hits_of (api_hits lim) (ip req) + 1),
         checkin_hits =
           (checkin_hits lim)(ip req \<mapsto> hits_of (checkin_hits lim) (ip req) + 1) \<rparr>))"
proof (intro conjI impI)
  let ?t = "case v_timestamp v of Some t \<Rightarrow> t | None \<Rightarrow> now_handler"
  assume h: "admitted lim req \<and>
    checkin_validation parse now_validation req = Inr v \<and>
    otpService svcs = Some engine \<and> checkInRepository svcs \<and>
    valid_time (Num now_handler) \<and>
    isConnected db \<and> check_ins db = Some rows \<and>
    next_fault db = None \<and> next_fault (sent db) = None"
  obtain validation where e: "fst (validateOTP mac now_engine engine (Str (v_otp v)) (Num ?t)) =
      Inr validation"
    using validateOTP_returns_number by blast
  from h have a: "admitted lim req"
    and g: "checkin_validation parse now_validation req = Inr v"
      "otpService svcs = Some engine" "checkInRepository svcs"
      "valid_time (Num now_handler)"
      "isConnected db" "check_ins db = Some rows"
      "next_fault db = None" "next_fault (sent db) = None"
    by simp_all
  note p = post_checkin_recorded [OF g e]
  show "\<exists>status content row.
       fst (fst (fst (api_checkin mac parse sliceable now_validation now_handler now_engine
                        lim svcs db req))) = Response status content \<and>
       check_ins (snd (fst (api_checkin mac parse sliceable now_validation now_handler
                              now_engine lim svcs db req))) = Some (rows @ [row]) \<and>
       ci_otp row = v_otp v \<and> ci_phone_number row = v_phoneNumber v \<and>
       ci_validation_status row \<in> set [''valid'', ''expired'', ''invalid'']"
    unfolding api_checkin_admitted [OF a] fst_conv p
    using checkin_status_allowed [of validation]
    by (cases "valid validation") simp_all
next
  assume "admitted lim req \<and> checkin_validation parse now_validation req = Inl error"
  then show "fst (api_checkin mac parse sliceable now_validation now_handler now_engine lim
                    svcs db req) =
      ((Response (case error of AppError code status \<Rightarrow> status | _ \<Rightarrow> 500)
          (ErrorJson error), svcs), db)"
    by (simp add: api_checkin_admitted post_checkin_rejected)
next
  assume "admitted lim req \<and> body req ''otp'' = Str s \<and> length s = 5"
  then have "admitted lim req"
    and "checkin_validation parse now_validation req = Inl (AppError INVALID_OTP_FORMAT 400)"
    by (simp_all add: short_code_rejected)
  then show "fst (api_checkin mac parse sliceable now_validation now_handler now_engine lim
                    svcs db req) =
      ((Response 400 (ErrorJson (AppError INVALID_OTP_FORMAT 400)), svcs), db)"
    by (simp add: api_checkin_admitted post_checkin_rejected)
next
  assume "\<not> hits_of (api_hits lim) (ip req) < 100"
  then show "api_checkin mac parse sliceable now_validation now_handler now_engine lim svcs
               db req =
      (((Response 429 (TooManyRequests RATE_LIMIT_EXCEEDED), svcs), db),
       \<lparr> api_hits = (api_hits lim)(ip req \<mapsto> hits_of (api_hits lim) (ip req) + 1),
         checkin_hits = checkin_hits lim \<rparr>)"
    by (rule api_checkin_api_limited)
next
  assume "hits_of (api_hits lim) (ip req) < 100 \<and>
          \<not> hits_of (checkin_hits lim) (ip req) < 10"
  then show "api_checkin mac parse sliceable now_validation now_handler now_engine lim svcs
               db req =
      (((if maskPhoneNumber_returns sliceable (body req ''phoneNumber'')
         then Response 429 (TooManyRequests CHECKIN_RATE_LIMIT)
         else Propagated TypeError, svcs), db),
       \<lparr> api_hits = (api_hits lim)(ip req \<mapsto> hits_of (api_hits lim) (ip req) + 1),
         checkin_hits =
           (checkin_hits lim)(ip req \<mapsto> hits_of (checkin_hits lim) (ip req) + 1) \<rparr>)"
    by (simp add: api_checkin_checkin_limited)
qed

text \<open>A submission with the current code of the scenario, on an open database.\<close>

lemmas validation_eval = checkin_validation_def required_field_def optional_field_def
  field_value_def OTPValidator_validate_def PhoneNumberValidator_validate_def
  checkin_request_def trim_def is_space_def is_alnum_def is_upper_def is_lower_def
  is_digit_def toUpperCase_def toUpperCase_char_def missingRequiredField_def invalidOTP_def
  invalidPhoneNumber_def code_of_def Let_def

lemma sample_request_validated:
  "checkin_validation no_parse 1700000000000 (checkin_request ''c41d39'' ''+852 1234 5678'') =
     Inr \<lparr> v_otp = ''C41D39'', v_phoneNumber = ''+85212345678'', v_timestamp = None \<rparr>"
  by (simp add: validation_eval)

lemma open_database_simps:
  "isConnected open_database" "check_ins open_database = Some []"
  "next_fault open_database = None" "next_fault (sent open_database) = None"
  "attempt_log open_database = []"
  by (simp_all add: open_database_def empty_database_def next_fault_def sent_def)

lemma sample_services_simps:
  "otpService sample_services = Some sample_service" "checkInRepository sample_services"
  by (simp_all add: sample_services_def)


lemma sample_admitted:
  "admitted no_hits (checkin_request code phone)"
  "hits_of (api_hits ten_hits) (ip (checkin_request code phone)) < 100"
  "\<not> hits_of (checkin_hits ten_hits) (ip (checkin_request code phone)) < 10"
  "\<not> hits_of (api_hits hundred_hits) (ip (checkin_request code phone)) < 100"
  by (simp_all add: admitted_def no_hits_def ten_hits_def hundred_hits_def hits_of_def
        checkin_request_def)

lemma short_number_rejected:
  "checkin_validation no_parse 1700000000000 (checkin_request ''c41d39'' ''12345'') =
     Inl (AppError INVALID_PHONE_FORMAT 400)"
  by (simp add: validation_eval)

text \<open>
  The theorem at a first submission with the current code, at first submissions with a
  phone number of 5 digits and with a code of 5 characters, at the eleventh check-in of a
  client within the window, and at its hundred-and-first request.
\<close>

theorem checkin_recorded_once_witness:
  "admitted no_hits (checkin_request ''c41d39'' ''+852 1234 5678'') \<and>
   checkin_validation no_parse 1700000000000 (checkin_request ''c41d39'' ''+852 1234 5678'') =
     Inr \<lparr> v_otp = ''C41D39'', v_phoneNumber = ''+85212345678'', v_timestamp = None \<rparr> \<and>
   otpService sample_services = Some sample_service \<and> checkInRepository sample_services \<and>
   valid_time (Num 1700000000000) \<and>
   isConnected open_database \<and> check_ins open_database = Some [] \<and>
   next_fault open_database = None \<and> next_fault (sent open_database) = None \<and>
   (\<exists>status content row.
      fst (fst (fst (api_checkin sample_mac no_parse no_slice 1700000000000 1700000000000
                       1700000000000 no_hits sample_services open_database
                       (checkin_request ''c41d39'' ''+852 1234 5678''))))
        = Response status content \<and>
      check_ins (snd (fst (api_checkin sample_mac no_parse no_slice 1700000000000
                             1700000000000 1700000000000 no_hits sample_services
                             open_database
                             (checkin_request ''c41d39'' ''+852 1234 5678'')))) = Some [row] \<and>
      ci_otp row = ''C41D39'' \<and> ci_phone_number row = ''+85212345678'' \<and>
      ci_validation_status row \<in> set [''valid'', ''expired'', ''invalid'']) \<and>
   admitted no_hits (checkin_request ''ABCDE'' ''+852 1234 5678'') \<and>
   body (checkin_request ''ABCDE'' ''+852 1234 5678'') ''otp'' = Str ''ABCDE'' \<and>
   length ''ABCDE'' = 5 \<and>
   fst (api_checkin sample_mac no_parse no_slice 1700000000000 1700000000000 1700000000000
          no_hits sample_services open_database
          (checkin_request ''ABCDE'' ''+852 1234 5678'')) =
     ((Response 400 (ErrorJson (AppError INVALID_OTP_FORMAT 400)), sample_services),
      open_database) \<and>
   hits_of (api_hits ten_hits) (ip (checkin_request ''c41d39'' ''+852 1234 5678'')) < 100 \<and>
   \<not> hits_of (checkin_hits ten_hits) (ip (checkin_request ''c41d39'' ''+852 1234 5678''))
       < 10 \<and>
   fst (api_checkin sample_mac no_parse no_slice 1700000000000 1700000000000 1700000000000
          ten_hits sample_services open_database
          (checkin_request ''c41d39'' ''+852 1234 5678'')) =
     ((Response 429 (TooManyRequests CHECKIN_RATE_LIMIT), sample_services), open_database) \<and>
   checkin_validation no_parse 1700000000000 (checkin_request ''c41d39'' ''12345'') =
     Inl (AppError INVALID_PHONE_FORMAT 400) \<and>
   fst (api_checkin sample_mac no_parse no_slice 1700000000000 1700000000000 1700000000000
          no_hits sample_services open_database (checkin_request ''c41d39'' ''12345'')) =
     ((Response 400 (ErrorJson (AppError INVALID_PHONE_FORMAT 400)), sample_services),
      open_database) \<and>
   \<not> hits_of (api_hits hundred_hits) (ip (checkin_request ''c41d39'' ''+852 1234 5678''))
       < 100 \<and>
   fst (api_checkin sample_mac no_parse no_slice 1700000000000 1700000000000 1700000000000
          hundred_hits sample_services open_database
          (checkin_request ''c41d39'' ''+852 1234 5678'')) =
     ((Response 429 (TooManyRequests RATE_LIMIT_EXCEEDED), sample_services), open_database)"
proof -
  let ?good = "checkin_request ''c41d39'' ''+852 1234 5678''"
  let ?short = "checkin_request ''ABCDE'' ''+852 1234 5678''"
  let ?v = "\<lparr> v_otp = ''C41D39'', v_phoneNumber = ''+85212345678'', v_timestamp = None \<rparr>"
  have t: "valid_time (Num 1700000000000)" by (simp add: MAX_TIME_VALUE_def)
  have b: "body ?short ''otp'' = Str ''ABCDE''" "length ''ABCDE'' = 5"
    by (simp_all add: checkin_request_def)
  have m: "maskPhoneNumber_returns no_slice (body ?good ''phoneNumber'')"
    by (simp add: maskPhoneNumber_returns_def checkin_request_def)
  note h = sample_admitted(1) [of "''c41d39''" "''+852 1234 5678''"]
    sample_request_validated sample_services_simps t open_database_simps(1-4)
  note l = sample_admitted(2,3) [of "''c41d39''" "''+852 1234 5678''"]
  from checkin_recorded_once
         [of no_hits ?good no_parse 1700000000000 ?v sample_services sample_service
            1700000000000 open_database "[]" sample_mac no_slice 1700000000000]
    h
  have 1: "\<exists>status content row.
      fst (fst (fst (api_checkin sample_mac no_parse no_slice 1700000000000 1700000000000
                       1700000000000 no_hits sample_services open_database ?good)))
        = Response status content \<and>
      check_ins (snd (fst (api_checkin sample_mac no_parse no_slice 1700000000000
                             1700000000000 1700000000000 no_hits sample_services
                             open_database ?good))) = Some [row] \<and>
      ci_otp row = ''C41D39'' \<and> ci_phone_number row = ''+85212345678'' \<and>
      ci_validation_status row \<in> set [''valid'', ''expired'', ''invalid'']"
    by simp
  from checkin_recorded_once
         [of no_hits ?short no_parse 1700000000000 _ sample_services _ _ open_database _
            sample_mac no_slice 1700000000000 _ "''ABCDE''"]
    sample_admitted(1) [of "''ABCDE''" "''+852 1234 5678''"] b
  have 2: "fst (api_checkin sample_mac no_parse no_slice 1700000000000 1700000000000
             1700000000000 no_hits sample_services open_database ?short) =
     ((Response 400 (ErrorJson (AppError INVALID_OTP_FORMAT 400)), sample_services),
      open_database)"
    by blast
  from checkin_recorded_once
         [of ten_hits ?good no_parse 1700000000000 _ sample_services _ _ open_database _
            sample_mac no_slice 1700000000000]
    l m
  have 3: "fst (api_checkin sample_mac no_parse no_slice 1700000000000 1700000000000
             1700000000000 ten_hits sample_services open_database ?good) =
     ((Response 429 (TooManyRequests CHECKIN_RATE_LIMIT), sample_services), open_database)"
    by simp
  from checkin_recorded_once
         [of no_hits "checkin_request ''c41d39'' ''12345''" no_parse 1700000000000 _
            sample_services _ _ open_database _ sample_mac no_slice 1700000000000
            "AppError INVALID_PHONE_FORMAT 400"]
    sample_admitted(1) [of "''c41d39''" "''12345''"] short_number_rejected
  have 4: "fst (api_checkin sample_mac no_parse no_slice 1700000000000 1700000000000
             1700000000000 no_hits sample_services open_database
             (checkin_request ''c41d39'' ''12345'')) =
     ((Response 400 (ErrorJson (AppError INVALID_PHONE_FORMAT 400)), sample_services),
      open_database)"
    by simp
  note k = sample_admitted(4) [of "''c41d39''" "''+852 1234 5678''"]
  from checkin_recorded_once
         [of hundred_hits ?good no_parse 1700000000000 _ sample_services _ _ open_database _
            sample_mac no_slice 1700000000000]
    k
  have 5: "fst (api_checkin sample_mac no_parse no_slice 1700000000000 1700000000000
             1700000000000 hundred_hits sample_services open_database ?good) =
     ((Response 429 (TooManyRequests RATE_LIMIT_EXCEEDED), sample_services), open_database)"
    by simp
  from h b l k 1 2 3 4 5 short_number_rejected
    sample_admitted(1) [of "''ABCDE''" "''+852 1234 5678''"]
  show ?thesis
    by (intro conjI) assumption+
qed

text \<open>
  Claim C3 as it is written fails for a code of 5 characters, submitted by a client
  that the limiters admit: the validation middleware answers 400 with
  \<open>INVALID_OTP_FORMAT\<close>, the handler does not run, and neither the services nor the
  store change: no record is written.
\<close>

theorem five_character_code_counterexample:
  "fst (api_checkin sample_mac no_parse no_slice 1700000000000 1700000000000 1700000000000
          no_hits sample_services open_database
          (checkin_request ''ABCDE'' ''+852 1234 5678'')) =
     ((Response 400 (ErrorJson (AppError INVALID_OTP_FORMAT 400)), sample_services),
      open_database) \<and>
   check_ins open_database = Some [] \<and> attempt_log open_database = []"
proof -
  have "post_checkin sample_mac no_parse 1700000000000 1700000000000 1700000000000
       sample_services open_database (checkin_request ''ABCDE'' ''+852 1234 5678'') =
     ((Response 400 (ErrorJson (AppError INVALID_OTP_FORMAT 400)), sample_services),
      open_database)"
    by (simp add: post_checkin_def validation_eval)
  then show ?thesis
    by (simp add: api_checkin_admitted sample_admitted(1) open_database_simps)
qed


subsection \<open>A failed write\<close>







subsection \<open>The status passed to the store\<close>

lemma checkin_status_by_reason:
  assumes "valid validation = (reason validation \<in> {CURRENT_WINDOW, PREVIOUS_WINDOW})"
  shows "(reason validation \<in> {CURRENT_WINDOW, PREVIOUS_WINDOW} \<longrightarrow>
            valid validation \<and> checkin_status validation = ''valid'') \<and>
         (reason validation = EXPIRED_OR_INVALID \<longrightarrow>
            \<not> valid validation \<and> checkin_status validation = ''expired'') \<and>
         (reason validation \<in> {INVALID_FORMAT, FUTURE_OTP, VALIDATION_ERROR} \<longrightarrow>
            \<not> valid validation \<and> checkin_status validation = ''invalid'')"
  using assms by (cases "reason validation") (simp_all add: checkin_status_def)

lemma post_checkin_store:
  assumes "checkin_validation parse now_validation req = Inr v"
    and "otpService svcs = Some engine" and "checkInRepository svcs"
    and "valid_time (Num now_handler)"
    and "fst (validateOTP mac now_engine engine (Str (v_otp v))
                (Num (case v_timestamp v of Some t \<Rightarrow> t | None \<Rightarrow> now_handler)))
         = Inr validation"
  shows "(\<exists>rest. attempt_log (snd (post_checkin mac parse now_validation now_handler
                                      now_engine svcs db req)) =
                  attempt_log db @ (checkin_status validation, False) # rest) \<and>
         (\<forall>rows row.
            check_ins db = Some rows \<and>
            check_ins (snd (post_checkin mac parse now_validation now_handler now_engine svcs
                              db req)) = Some (rows @ [row])
            \<longrightarrow> ci_validation_status row = checkin_status validation)"
proof -
  let ?t = "case v_timestamp v of Some t \<Rightarrow> t | None \<Rightarrow> now_handler"
  let ?st = "checkin_status validation"
  let ?p = "v_phoneNumber v" and ?c = "v_otp v"
  have t: "valid_time (Num ?t)"
    using assms(1,4) by (rule checkInTime_valid)
  obtain engine' where e: "validateOTP mac now_engine engine (Str ?c) (Num ?t) =
      (Inr validation, engine')"
    using assms(5)
    by (cases "validateOTP mac now_engine engine (Str ?c) (Num ?t)") simp
  from t show ?thesis
  proof (cases rule: recordCheckIn_cases [of ?t ?p ?c ?st db])
    case (recorded rows db1)
    have "snd (post_checkin mac parse now_validation now_handler now_engine svcs db req) = db1"
      using assms(1-3) e recorded(4)
      by (simp add: post_checkin_def checkin_handler_def Let_def)
    then show ?thesis
      using recorded(2,5,6) by simp
  next
    case (failed db1)
    obtain db2 where
      c: "recordCheckIn ?p ?c ''error'' ?t db1 = (Inl (AppError DATABASE_QUERY_FAILED 500), db2)"
        "attempt_log db2 = attempt_log db1 @ [(''error'', False), (''error'', True)]"
        "check_ins db2 = check_ins db1"
      using recordCheckIn_error_status [OF t] by blast
    have "snd (post_checkin mac parse now_validation now_handler now_engine svcs db req) = db2"
      using assms(1-3) e failed(1) c(1)
      by (simp add: post_checkin_def checkin_handler_def checkin_catch_def Let_def)
    then show ?thesis
      using failed(2,3) c(2,3) by auto
  qed
qed

text \<open>
  Claim C5, as amended. For every submission that reaches the handler, the engine returns
  a result, and the status with which the handler first calls \<open>recordCheckIn\<close>, which is
  the status of the record when one is stored, is \<open>'valid'\<close> for a valid result,
  \<open>'expired'\<close> for \<open>EXPIRED_OR_INVALID\<close>, and \<open>'invalid'\<close> for \<open>INVALID_FORMAT\<close>,
  \<open>FUTURE_OTP\<close> and \<open>VALIDATION_ERROR\<close>.
\<close>

theorem stored_status_by_outcome:
  assumes "checkin_validation parse now_validation req = Inr v"
    and "otpService svcs = Some engine" and "checkInRepository svcs"
    and "valid_time (Num now_handler)"
  shows "\<exists>validation status.
           fst (validateOTP mac now_engine engine (Str (v_otp v))
                  (Num (case v_timestamp v of Some t \<Rightarrow> t | None \<Rightarrow> now_handler)))
             = Inr validation \<and>
           (reason validation \<in> {CURRENT_WINDOW, PREVIOUS_WINDOW} \<longrightarrow>
              valid validation \<and> status = ''valid'') \<and>
           (reason validation = EXPIRED_OR_INVALID \<longrightarrow>
              \<not> valid validation \<and> status = ''expired'') \<and>
           (reason validation \<in> {INVALID_FORMAT, FUTURE_OTP, VALIDATION_ERROR} \<longrightarrow>
              \<not> valid validation \<and> status = ''invalid'') \<and>
           (\<exists>rest. attempt_log (snd (post_checkin mac parse now_validation now_handler
                                        now_engine svcs db req)) =
                    attempt_log db @ (status, False) # rest) \<and>
           (\<forall>rows row.
              check_ins db = Some rows \<and>
              check_ins (snd (post_checkin mac parse now_validation now_handler now_engine
                                svcs db req)) = Some (rows @ [row])
              \<longrightarrow> ci_validation_status row = status)"
proof -
  let ?t = "case v_timestamp v of Some t \<Rightarrow> t | None \<Rightarrow> now_handler"
  obtain validation
    where e: "fst (validateOTP mac now_engine engine (Str (v_otp v)) (Num ?t)) = Inr validation"
    using validateOTP_returns_number by blast
  have "valid validation = (reason validation \<in> {CURRENT_WINDOW, PREVIOUS_WINDOW})"
    using e by (rule validateOTP_valid_iff)
  note m = checkin_status_by_reason [OF this]
  note s = post_checkin_store [OF assms e, where db = db]
  have "fst (validateOTP mac now_engine engine (Str (v_otp v)) (Num ?t)) = Inr validation \<and>
           (reason validation \<in> {CURRENT_WINDOW, PREVIOUS_WINDOW} \<longrightarrow>
              valid validation \<and> checkin_status validation = ''valid'') \<and>
           (reason validation = EXPIRED_OR_INVALID \<longrightarrow>
              \<not> valid validation \<and> checkin_status validation = ''expired'') \<and>
           (reason validation \<in> {INVALID_FORMAT, FUTURE_OTP, VALIDATION_ERROR} \<longrightarrow>
              \<not> valid validation \<and> checkin_status validation = ''invalid'') \<and>
           (\<exists>rest. attempt_log (snd (post_checkin mac parse now_validation now_handler
                                        now_engine svcs db req)) =
                    attempt_log db @ (checkin_status validation, False) # rest) \<and>
           (\<forall>rows row.
              check_ins db = Some rows \<and>
              check_ins (snd (post_checkin mac parse now_validation now_handler now_engine
                                svcs db req)) = Some (rows @ [row])
              \<longrightarrow> ci_validation_status row = checkin_status validation)"
    using e m s by (elim conjE, intro conjI) assumption+
  then show ?thesis
    by (intro exI [of _ validation] exI [of _ "checkin_status validation"])
qed


text \<open>
  Three submissions at a time in slot 56666666, on an open database: the current code, a
  code of no window, and the code of the next slot.
\<close>

lemma sample_engine_result:
  assumes "toUpperCase (trim code) = code" and "length code = 6"
  shows "fst (validateOTP sample_mac now sample_service (Str code) (Num 1700000000000)) =
           Inr (spec_validate sample_mac ''abcd1234abcd1234'' 56666666 code)"
proof -
  have "fst (validateOTP_try sample_mac now sample_service (Str code) (Num 1700000000000))
        = Inr (spec_validate sample_mac (secretKey sample_service)
                 (1700000000000 div timeWindow sample_service) (toUpperCase (trim code)))"
    by (rule validateOTP_try_in_range)
       (simp_all add: assms sample_service_simps MAX_TIME_VALUE_def)
  then have "fst (validateOTP_try sample_mac now sample_service (Str code) (Num 1700000000000))
        = Inr (spec_validate sample_mac ''abcd1234abcd1234'' 56666666 code)"
    by (simp add: assms sample_service_simps)
  then show ?thesis by (rule validateOTP_of_try)
qed

lemma sample_engine_results:
  "fst (validateOTP sample_mac now sample_service (Str ''C41D39'') (Num 1700000000000)) =
     Inr (result True CURRENT_WINDOW ''OTP is valid (current window)'' (Some ''current''))"
  "fst (validateOTP sample_mac now sample_service (Str ''ABCDEF'') (Num 1700000000000)) =
     Inr (result False EXPIRED_OR_INVALID ''OTP is expired or invalid'' None)"
  "fst (validateOTP sample_mac now sample_service (Str ''C43C28'') (Num 1700000000000)) =
     Inr (result False FUTURE_OTP ''OTP is from future time window'' None)"
  by (subst sample_engine_result;
      simp add: toUpperCase_def toUpperCase_char_def trim_def is_space_def
        spec_validate_def sample_codes)+

lemma sample_requests_validated:
  "checkin_validation no_parse 1700000000000 (checkin_request ''c41d39'' ''+852 1234 5678'') =
     Inr \<lparr> v_otp = ''C41D39'', v_phoneNumber = ''+85212345678'', v_timestamp = None \<rparr>"
  "checkin_validation no_parse 1700000000000 (checkin_request ''abcdef'' ''+852 1234 5678'') =
     Inr \<lparr> v_otp = ''ABCDEF'', v_phoneNumber = ''+85212345678'', v_timestamp = None \<rparr>"
  "checkin_validation no_parse 1700000000000 (checkin_request ''c43c28'' ''+852 1234 5678'') =
     Inr \<lparr> v_otp = ''C43C28'', v_phoneNumber = ''+85212345678'', v_timestamp = None \<rparr>"
  by (simp_all add: validation_eval)

lemma sample_checkin_row:
  assumes "checkin_validation no_parse 1700000000000 req =
             Inr \<lparr> v_otp = code, v_phoneNumber = phone, v_timestamp = None \<rparr>"
    and "fst (validateOTP sample_mac 1700000000000 sample_service (Str code)
                (Num 1700000000000)) = Inr r"
  shows "check_ins (snd (post_checkin sample_mac no_parse 1700000000000 1700000000000
                           1700000000000 sample_services open_database req)) =
           Some ([] @ [\<lparr> ci_id = 1, ci_phone_number = phone, ci_otp = code,
                    ci_timestamp = 1700000000000,
                    ci_validation_status = checkin_status r \<rparr>])"
proof -
  have t: "valid_time (Num 1700000000000)" by (simp add: MAX_TIME_VALUE_def)
  have v: "fst (validateOTP sample_mac 1700000000000 sample_service
                  (Str (v_otp \<lparr> v_otp = code, v_phoneNumber = phone, v_timestamp = None \<rparr>))
                  (Num (case v_timestamp \<lparr> v_otp = code, v_phoneNumber = phone,
                                            v_timestamp = None \<rparr> of
                          Some t \<Rightarrow> t | None \<Rightarrow> 1700000000000))) = Inr r"
    using assms(2) by simp
  show ?thesis
    using post_checkin_recorded(2) [OF assms(1) sample_services_simps t open_database_simps(1-4) v]
    by simp
qed

text \<open>
  The theorem on the three submissions: the records are \<open>'valid'\<close>, \<open>'expired'\<close> and
  \<open>'invalid'\<close>.
\<close>

theorem stored_status_by_outcome_witness:
  "checkin_validation no_parse 1700000000000 (checkin_request ''c41d39'' ''+852 1234 5678'') =
     Inr \<lparr> v_otp = ''C41D39'', v_phoneNumber = ''+85212345678'', v_timestamp = None \<rparr> \<and>
   checkin_validation no_parse 1700000000000 (checkin_request ''abcdef'' ''+852 1234 5678'') =
     Inr \<lparr> v_otp = ''ABCDEF'', v_phoneNumber = ''+85212345678'', v_timestamp = None \<rparr> \<and>
   checkin_validation no_parse 1700000000000 (checkin_request ''c43c28'' ''+852 1234 5678'') =
     Inr \<lparr> v_otp = ''C43C28'', v_phoneNumber = ''+85212345678'', v_timestamp = None \<rparr> \<and>
   otpService sample_services = Some sample_service \<and> checkInRepository sample_services \<and>
   valid_time (Num 1700000000000) \<and>
   reason (result True CURRENT_WINDOW ''OTP is valid (current window)'' (Some ''current''))
     \<in> {CURRENT_WINDOW, PREVIOUS_WINDOW} \<and>
   reason (result False EXPIRED_OR_INVALID ''OTP is expired or invalid'' None)
     = EXPIRED_OR_INVALID \<and>
   reason (result False FUTURE_OTP ''OTP is from future time window'' None)
     \<in> {INVALID_FORMAT, FUTURE_OTP, VALIDATION_ERROR} \<and>
   check_ins (snd (post_checkin sample_mac no_parse 1700000000000 1700000000000
                     1700000000000 sample_services open_database
                     (checkin_request ''c41d39'' ''+852 1234 5678''))) =
     Some [\<lparr> ci_id = 1, ci_phone_number = ''+85212345678'', ci_otp = ''C41D39'',
              ci_timestamp = 1700000000000, ci_validation_status = ''valid'' \<rparr>] \<and>
   check_ins (snd (post_checkin sample_mac no_parse 1700000000000 1700000000000
                     1700000000000 sample_services open_database
                     (checkin_request ''abcdef'' ''+852 1234 5678''))) =
     Some [\<lparr> ci_id = 1, ci_phone_number = ''+85212345678'', ci_otp = ''ABCDEF'',
              ci_timestamp = 1700000000000, ci_validation_status = ''expired'' \<rparr>] \<and>
   check_ins (snd (post_checkin sample_mac no_parse 1700000000000 1700000000000
                     1700000000000 sample_services open_database
                     (checkin_request ''c43c28'' ''+852 1234 5678''))) =
     Some [\<lparr> ci_id = 1, ci_phone_number = ''+85212345678'', ci_otp = ''C43C28'',
              ci_timestamp = 1700000000000, ci_validation_status = ''invalid'' \<rparr>]"
proof -
  let ?T = "1700000000000 :: int"
  have t: "valid_time (Num ?T)" by (simp add: MAX_TIME_VALUE_def)
  have stored: "check_ins (snd (post_checkin sample_mac no_parse ?T ?T ?T sample_services
                                  open_database req)) =
                  Some [\<lparr> ci_id = 1, ci_phone_number = phone, ci_otp = code,
                           ci_timestamp = ?T, ci_validation_status = st \<rparr>]"
    if v: "checkin_validation no_parse ?T req =
             Inr \<lparr> v_otp = code, v_phoneNumber = phone, v_timestamp = None \<rparr>"
      and r: "fst (validateOTP sample_mac ?T sample_service (Str code) (Num ?T)) = Inr r"
      and st: "reason r \<in> {CURRENT_WINDOW, PREVIOUS_WINDOW} \<and> st = ''valid'' \<or>
               reason r = EXPIRED_OR_INVALID \<and> st = ''expired'' \<or>
               reason r \<in> {INVALID_FORMAT, FUTURE_OTP, VALIDATION_ERROR} \<and> st = ''invalid''"
    for req code phone r st
  proof -
    let ?db' = "snd (post_checkin sample_mac no_parse ?T ?T ?T sample_services
                       open_database req)"
    let ?v = "\<lparr> v_otp = code, v_phoneNumber = phone, v_timestamp = None \<rparr>"
    from stored_status_by_outcome [OF v sample_services_simps t, where mac = sample_mac
           and now_engine = ?T and db = open_database]
    obtain validation status where
      o: "fst (validateOTP sample_mac ?T sample_service (Str (v_otp ?v))
               (Num (case v_timestamp ?v of Some t \<Rightarrow> t | None \<Rightarrow> ?T))) = Inr validation \<and>
          (reason validation \<in> {CURRENT_WINDOW, PREVIOUS_WINDOW} \<longrightarrow>
             valid validation \<and> status = ''valid'') \<and>
          (reason validation = EXPIRED_OR_INVALID \<longrightarrow>
             \<not> valid validation \<and> status = ''expired'') \<and>
          (reason validation \<in> {INVALID_FORMAT, FUTURE_OTP, VALIDATION_ERROR} \<longrightarrow>
             \<not> valid validation \<and> status = ''invalid'') \<and>
          (\<exists>rest. attempt_log ?db' = attempt_log open_database @ (status, False) # rest) \<and>
          (\<forall>rows row. check_ins open_database = Some rows \<and> check_ins ?db' = Some (rows @ [row])
             \<longrightarrow> ci_validation_status row = status)"
      by (elim exE) (rule that)
    from o have 1: "fst (validateOTP sample_mac ?T sample_service (Str code) (Num ?T)) =
                      Inr validation"
      by simp
    with r have eq: "validation = r" by simp
    from o have m: "reason validation \<in> {CURRENT_WINDOW, PREVIOUS_WINDOW} \<longrightarrow> status = ''valid''"
      "reason validation = EXPIRED_OR_INVALID \<longrightarrow> status = ''expired''"
      "reason validation \<in> {INVALID_FORMAT, FUTURE_OTP, VALIDATION_ERROR} \<longrightarrow> status = ''invalid''"
      by simp_all
    have status: "status = st"
      using m st unfolding eq by (cases "reason r") auto
    from o have a: "\<forall>rows row. check_ins open_database = Some rows \<and>
                      check_ins ?db' = Some (rows @ [row])
                      \<longrightarrow> ci_validation_status row = status"
      by (elim conjE)
    let ?row = "\<lparr> ci_id = 1, ci_phone_number = phone, ci_otp = code, ci_timestamp = ?T,
                  ci_validation_status = checkin_status r \<rparr>"
    have c: "check_ins ?db' = Some ([] @ [?row])"
      using v r by (rule sample_checkin_row)
    have "ci_validation_status ?row = status"
      by (rule a [rule_format]) (rule conjI [OF open_database_simps(2) c])
    then have "checkin_status r = st" using status by simp
    with c show ?thesis by simp
  qed
  note s1 = stored [OF sample_requests_validated(1) sample_engine_results(1), of "''valid''"]
  note s2 = stored [OF sample_requests_validated(2) sample_engine_results(2), of "''expired''"]
  note s3 = stored [OF sample_requests_validated(3) sample_engine_results(3), of "''invalid''"]
  have r: "reason (result True CURRENT_WINDOW ''OTP is valid (current window)''
                     (Some ''current'')) \<in> {CURRENT_WINDOW, PREVIOUS_WINDOW}"
    "reason (result False EXPIRED_OR_INVALID ''OTP is expired or invalid'' None)
       = EXPIRED_OR_INVALID"
    "reason (result False FUTURE_OTP ''OTP is from future time window'' None)
       \<in> {INVALID_FORMAT, FUTURE_OTP, VALIDATION_ERROR}"
    by (simp_all add: result_def)
  show ?thesis
    using sample_requests_validated sample_services_simps t r
      s1 [OF disjI1, OF conjI, OF r(1) refl]
      s2 [OF disjI2, OF disjI1, OF conjI, OF r(2) refl]
      s3 [OF disjI2, OF disjI2, OF conjI, OF r(3) refl]
    by (intro conjI) assumption+
qed

text \<open>
  Claim C5 as it is written, an exception during validation giving the status
  \<open>'error'\<close>, fails when the clock reads 1000: \<open>generateOTP\<close> raises inside
  \<open>validateOTP\<close>, the engine answers \<open>VALIDATION_ERROR\<close>, and the record is stored with
  the status \<open>'invalid'\<close>.
\<close>

lemma epoch_request_validated:
  "checkin_validation no_parse 1000 (checkin_request ''ZZZZZZ'' ''+852 1234 5678'') =
     Inr \<lparr> v_otp = ''ZZZZZZ'', v_phoneNumber = ''+85212345678'', v_timestamp = None \<rparr>"
  by (simp add: validation_eval)

theorem validation_exception_counterexample:
  "fst (validateOTP_try sample_mac 1000 sample_service (Str ''ZZZZZZ'') (Num 1000)) =
     Inl (AppError OTP_SERVICE_ERROR 500) \<and>
   fst (validateOTP sample_mac 1000 sample_service (Str ''ZZZZZZ'') (Num 1000)) =
     Inr (result False VALIDATION_ERROR ''OTP validation failed due to system error'' None) \<and>
   fst (fst (post_checkin sample_mac no_parse 1000 1000 1000 sample_services open_database
               (checkin_request ''ZZZZZZ'' ''+852 1234 5678''))) =
     Response 400
       (CheckinFailure VALIDATION_ERROR ''OTP validation failed due to system error'' 1 1000) \<and>
   check_ins (snd (post_checkin sample_mac no_parse 1000 1000 1000 sample_services
                     open_database (checkin_request ''ZZZZZZ'' ''+852 1234 5678''))) =
     Some [\<lparr> ci_id = 1, ci_phone_number = ''+85212345678'', ci_otp = ''ZZZZZZ'',
              ci_timestamp = 1000, ci_validation_status = ''invalid'' \<rparr>]"
proof -
  let ?v = "\<lparr> v_otp = ''ZZZZZZ'', v_phoneNumber = ''+85212345678'', v_timestamp = None \<rparr>"
  let ?r = "result False VALIDATION_ERROR ''OTP validation failed due to system error'' None"
  have z: "''ZZZZZZ'' \<noteq> slot_code sample_mac key ts" for key ts
    by (rule not_hex_not_code) simp
  have n: "toUpperCase (trim ''ZZZZZZ'') = ''ZZZZZZ''"
    by (simp add: toUpperCase_def toUpperCase_char_def trim_def is_space_def)
  have a: "fst (validateOTP_try sample_mac 1000 sample_service (Str ''ZZZZZZ'') (Num 1000)) =
     Inl (AppError OTP_SERVICE_ERROR 500)"
    by (simp add: validateOTP_try_def Let_def n z generateOTP_def sample_service_simps
        MAX_TIME_VALUE_def)
  then have b: "fst (validateOTP sample_mac 1000 sample_service (Str ''ZZZZZZ'') (Num 1000)) =
     Inr ?r"
    by (rule validateOTP_catch) simp
  have t: "valid_time (Num 1000)" by (simp add: MAX_TIME_VALUE_def)
  have v: "fst (validateOTP sample_mac 1000 sample_service (Str (v_otp ?v))
                  (Num (case v_timestamp ?v of Some t \<Rightarrow> t | None \<Rightarrow> 1000))) = Inr ?r"
    using b by simp
  note p = post_checkin_recorded
             [OF epoch_request_validated sample_services_simps t open_database_simps(1-4) v]
  show ?thesis
    using a b p by (simp add: checkin_status_def result_def)
qed

section \<open>Codes of older slots\<close>

text \<open>
  A code has 24 bits, so the codes of different slots coincide: among the slots
  \<open>0, 2, 4, \<dots>, 2 \<sqdot> 16\<^sup>6\<close> two have the same code, whatever the digest function is.
  At a time in the later of the two, the code of the earlier one, two or more windows
  back, is the current code and is accepted. So a code two or more windows stale is
  answered with \<open>EXPIRED_OR_INVALID\<close> only if it differs from the three codes compared.
\<close>

lemma hex_upper_digits:
  "\<forall>c \<in> set ''0123456789ABCDEF''. is_upper_digit c"
  by (simp add: is_upper_digit_def is_upper_def is_digit_def)

lemma slot_code_upper_digit: "list_all is_upper_digit (slot_code mac key ts)"
  using set_slot_code [of mac key ts] hex_upper_digits by (auto simp: list_all_iff)

lemma card_codes:
  "finite {xs. set xs \<subseteq> set ''0123456789ABCDEF'' \<and> length xs = 6}"
  "card {xs. set xs \<subseteq> set ''0123456789ABCDEF'' \<and> length xs = 6} = 16777216"
proof -
  show "finite {xs. set xs \<subseteq> set ''0123456789ABCDEF'' \<and> length xs = 6}"
    by (rule finite_lists_length_eq) simp
  have c: "card (set ''0123456789ABCDEF'') = (16 :: nat)"
    by (subst distinct_card) simp_all
  have "card {xs. set xs \<subseteq> set ''0123456789ABCDEF'' \<and> length xs = 6} =
          card (set ''0123456789ABCDEF'') ^ 6"
    by (rule card_lists_length_eq) (rule finite_set)
  also have "\<dots> = 16777216" unfolding c by simp
  finally show "card {xs. set xs \<subseteq> set ''0123456789ABCDEF'' \<and> length xs = 6} = 16777216" .
qed

lemma code_collision:
  "\<exists>m n. m < n \<and> n \<le> 16777216 \<and>
         slot_code mac key (Num (2 * int m)) = slot_code mac key (Num (2 * int n))"
proof -
  let ?f = "\<lambda>n. slot_code mac key (Num (2 * int n))"
  let ?A = "{0..16777216::nat}"
  let ?C = "{xs. set xs \<subseteq> set ''0123456789ABCDEF'' \<and> length xs = 6}"
  have "?f ` ?A \<subseteq> ?C"
    using set_slot_code length_slot_code by blast
  then have "card (?f ` ?A) \<le> card ?C"
    using card_codes(1) by (rule card_mono [rotated])
  then have "card (?f ` ?A) \<le> 16777216"
    unfolding card_codes(2) .
  moreover have "card ?A = 16777217" by simp
  ultimately have "card (?f ` ?A) < card ?A" by linarith
  then have "\<not> inj_on ?f ?A"
    by (rule pigeonhole)
  then obtain m n where mn: "m \<in> ?A" "n \<in> ?A" "m \<noteq> n" "?f m = ?f n"
    unfolding inj_on_def by blast
  show ?thesis
  proof (cases "m < n")
    case True
    with mn show ?thesis by (intro exI [of _ m] exI [of _ n]) simp
  next
    case False
    with mn have "n < m" by simp
    with mn show ?thesis by (intro exI [of _ n] exI [of _ m]) simp
  qed
qed

lemma stale_code_accepted:
  assumes "30000 \<le> timeWindow svc" and "timeWindow svc \<le> 300000"
  shows "\<exists>t k code.
           2 \<le> k \<and> timeWindow svc < t \<and> t + timeWindow svc \<le> MAX_TIME_VALUE \<and>
           length (trim code) = 6 \<and> ascii (trim code) \<and>
           code = slot_code mac (secretKey svc) (Num (t div timeWindow svc - k)) \<and>
           fst (validateOTP mac now svc (Str code) (Num t)) =
             Inr (result True CURRENT_WINDOW ''OTP is valid (current window)''
                    (Some ''current''))"
proof -
  let ?w = "timeWindow svc"
  obtain m n where mn: "m < n" "n \<le> 16777216"
    and c: "slot_code mac (secretKey svc) (Num (2 * int m)) =
            slot_code mac (secretKey svc) (Num (2 * int n))"
    using code_collision by blast
  let ?t = "2 * int n * ?w"
  let ?k = "2 * int n - 2 * int m"
  let ?code = "slot_code mac (secretKey svc) (Num (2 * int m))"
  have w: "0 < ?w" using assms(1) by simp
  have d: "?t div ?w = 2 * int n" using w by simp
  have n: "1 \<le> int n" "int n \<le> 16777216" using mn by simp_all
  have "2 * int n * ?w \<ge> 2 * 1 * ?w"
    using n(1) w by (intro mult_right_mono mult_left_mono) simp_all
  then have t1: "?w < ?t" using w by simp
  have "2 * int n * ?w \<le> 2 * 16777216 * 300000"
    using n assms(2) w by (intro mult_mono) simp_all
  then have t2: "?t + ?w \<le> MAX_TIME_VALUE"
    using assms(2) by (simp add: MAX_TIME_VALUE_def)
  have u: "list_all is_upper_digit (slot_code mac (secretKey svc) ts)" for ts
    by (rule slot_code_upper_digit)
  have s: "trim (slot_code mac (secretKey svc) ts) = slot_code mac (secretKey svc) ts"
    "toUpperCase (slot_code mac (secretKey svc) ts) = slot_code mac (secretKey svc) ts" for ts
    using u [of ts] by (rule trim_id, rule toUpperCase_id)
  have a: "ascii ?code"
    using u [of "Num (2 * int m)"]
    by (auto simp: ascii_def list_all_iff is_upper_digit_def is_upper_def is_digit_def)
  have l: "length (toUpperCase (trim ?code)) = 6"
    by (simp add: s length_slot_code)
  have "fst (validateOTP_try mac now svc (Str ?code) (Num ?t)) =
          Inr (spec_validate mac (secretKey svc) (?t div ?w) (toUpperCase (trim ?code)))"
    using w t1 t2 l by (rule validateOTP_try_in_range)
  then have "fst (validateOTP_try mac now svc (Str ?code) (Num ?t)) =
          Inr (result True CURRENT_WINDOW ''OTP is valid (current window)'' (Some ''current''))"
    unfolding s d spec_validate_def using c by simp
  then have r: "fst (validateOTP mac now svc (Str ?code) (Num ?t)) =
          Inr (result True CURRENT_WINDOW ''OTP is valid (current window)'' (Some ''current''))"
    by (rule validateOTP_of_try)
  have k: "2 \<le> ?k" using mn(1) by simp
  have e: "?code = slot_code mac (secretKey svc) (Num (?t div ?w - ?k))"
    unfolding d by simp
  have l': "length (trim ?code) = 6" "ascii (trim ?code)"
    unfolding s using a by (simp_all add: length_slot_code)
  show ?thesis
    by (intro exI [of _ ?t] exI [of _ ?k] exI [of _ ?code] conjI)
       (rule k t1 t2 l' e r)+
qed

end
